theory Spec2Isabelle
  imports Main "HOL-Library.AList" "HOL-Library.Multiset"
begin

section \<open>JavaScript values, thrown errors and the console\<close>

text \<open>
  JSON values as the code builds them for the \<open>jsonb\<close> columns and the HTTP bodies.
  \<open>JDate t\<close> stands for the ISO string of the instant \<open>t\<close> (milliseconds), as
  \<open>new Date().toISOString()\<close> returns it.
\<close>

datatype json =
    JNull
  | JBool bool
  | JNum nat
  | JStr string
  | JDate nat
  | JArr "json list"
  | JObj "(string \<times> json) list"

text \<open>
  What a \<open>throw\<close> carries. An \<open>Error\<close> object has a message and, for the errors of the
  postgres driver, a \<open>code\<close> and an \<open>errno\<close>; anything else that is thrown is not an
  instance of \<open>Error\<close>: a plain object, listed by its own properties (each name once), a
  string, \<open>null\<close>.
\<close>

record js_error =
  err_message :: string
  err_code :: "string option"
  err_errno :: "string option"

datatype thrown = ErrorObj js_error | NonError json

definition TypeError :: "string \<Rightarrow> thrown" where
  "TypeError msg = ErrorObj \<lparr>err_message = msg, err_code = None, err_errno = None\<rparr>"

text \<open>The error with which the driver rejects a query on a connection that was ended.\<close>

definition CONNECTION_ENDED :: thrown where
  "CONNECTION_ENDED =
     ErrorObj \<lparr>err_message = ''write CONNECTION_ENDED'',
       err_code = Some ''CONNECTION_ENDED'', err_errno = Some ''CONNECTION_ENDED''\<rparr>"

text \<open>\<open>error?.code\<close> and \<open>error?.errno\<close>, read from whatever was thrown: the property of an
  \<open>Error\<close> object, the property of that name of a plain object, and \<open>undefined\<close> (here
  \<open>None\<close>) on an object without it and on every other value (no prototype has a \<open>code\<close>
  or an \<open>errno\<close>).\<close>

fun error_code :: "thrown \<Rightarrow> json option" where
  "error_code (ErrorObj e) = map_option JStr (err_code e)"
| "error_code (NonError (JObj properties)) = map_of properties ''code''"
| "error_code (NonError v) = None"

fun error_errno :: "thrown \<Rightarrow> json option" where
  "error_errno (ErrorObj e) = map_option JStr (err_errno e)"
| "error_errno (NonError (JObj properties)) = map_of properties ''errno''"
| "error_errno (NonError v) = None"

text \<open>\<open>error instanceof Error ? error.message : "Unknown error"\<close>\<close>

fun messageOrUnknown :: "thrown \<Rightarrow> string" where
  "messageOrUnknown (ErrorObj e) = err_message e"
| "messageOrUnknown (NonError v) = ''Unknown error''"

datatype log_level = LOG | WARN | ERROR

type_synonym log_line = "log_level \<times> string"

section \<open>The storage schema\<close>

text \<open>
  The tables of \<open>db/schema.ts\<close>. Row identifiers (\<open>uuid\<close> with \<open>defaultRandom()\<close>) are
  modelled as natural numbers drawn from a counter; timestamps are milliseconds.
  A nullable \<open>jsonb\<close> column holds \<open>JNull\<close> for SQL \<open>NULL\<close>.
\<close>

text \<open>The content of a chat message is a string or, in the AI SDK, structured parts;
  \<open>Structured s\<close> is a content that is not a string and whose \<open>JSON.stringify\<close> is \<open>s\<close>.\<close>

datatype chat_content = Text string | Structured string

record message_row =
  msg_id :: nat
  msg_agentType :: string
  msg_sessionId :: string
  msg_role :: string
  msg_content :: chat_content
  msg_metadata :: json
  msg_createdAt :: nat

record session_row =
  ses_id :: string
  ses_agentType :: string
  ses_agentName :: string
  ses_metadata :: json
  ses_createdAt :: nat
  ses_updatedAt :: nat

record integration_row =
  conn_id :: nat
  conn_sessionId :: string
  conn_integrationName :: string
  conn_status :: string
  conn_credentials :: json
  conn_metadata :: json
  conn_lastSyncAt :: "nat option"
  conn_createdAt :: nat
  conn_updatedAt :: nat

text \<open>The values the code passes to an insert (\<open>NewMessage\<close>, \<open>NewSession\<close>,
  \<open>NewIntegrationConnection\<close>): the columns without a default.\<close>

record new_message =
  nm_agentType :: string
  nm_sessionId :: string
  nm_role :: string
  nm_content :: chat_content
  nm_metadata :: json

record new_session =
  ns_id :: string
  ns_agentType :: string
  ns_agentName :: string
  ns_metadata :: json

record new_integration =
  ni_sessionId :: string
  ni_integrationName :: string
  ni_status :: string
  ni_lastSyncAt :: "nat option"
  ni_metadata :: "json option"

text \<open>\<open>Partial<NewIntegrationConnection>\<close> as \<open>connectIntegration\<close> builds it; a property
  that is \<open>undefined\<close> (here \<open>None\<close>) is left out of the \<open>SET\<close> clause.\<close>

record integration_updates =
  upd_status :: "string option"
  upd_lastSyncAt :: "nat option"
  upd_metadata :: "json option"

section \<open>The world outside the program\<close>

text \<open>
  Everything the code reaches through I/O: the tables, the connections the driver has
  ended, the timers it waited on and the console. \<open>faults\<close> scripts the environment:
  the outcome of each successive driver call, \<open>None\<close> for a call that goes through and
  \<open>Some e\<close> for one that rejects with \<open>e\<close>; an empty script means that every call goes
  through. \<open>tieOrder\<close> is the database's choice of the order in which an \<open>ORDER BY\<close> lists
  rows with equal keys (see \<open>orderByDesc\<close>).
\<close>

record world =
  messagesT :: "message_row list"
  sessionsT :: "session_row list"
  integrationConnectionsT :: "integration_row list"
  nextId :: nat
  nextConn :: nat
  ended :: "nat list"
  faults :: "thrown option list"
  tieOrder :: "nat list \<Rightarrow> nat list"
  sleeps :: "nat list"
  console :: "log_line list"

definition console_log :: "string \<Rightarrow> world \<Rightarrow> world" where
  "console_log s w = w\<lparr>console := console w @ [(LOG, s)]\<rparr>"

definition console_warn :: "string \<Rightarrow> world \<Rightarrow> world" where
  "console_warn s w = w\<lparr>console := console w @ [(WARN, s)]\<rparr>"

definition console_error :: "string \<Rightarrow> world \<Rightarrow> world" where
  "console_error s w = w\<lparr>console := console w @ [(ERROR, s)]\<rparr>"

text \<open>\<open>await new Promise((resolve) => setTimeout(resolve, ms))\<close>\<close>

definition setTimeout :: "nat \<Rightarrow> world \<Rightarrow> world" where
  "setTimeout ms w = w\<lparr>sleeps := sleeps w @ [ms]\<rparr>"

text \<open>
  One query sent over the connection \<open>h\<close>. The driver rejects it with
  \<open>CONNECTION_ENDED\<close> when \<open>end()\<close> was called on \<open>h\<close>; otherwise the script decides
  whether it rejects or runs.
\<close>

definition query :: "nat \<Rightarrow> (world \<Rightarrow> 'a \<times> world) \<Rightarrow> world \<Rightarrow> (thrown + 'a) \<times> world" where
  "query h run w =
     (if h \<in> set (ended w) then (Inl CONNECTION_ENDED, w)
      else case faults w of
        [] \<Rightarrow> (case run w of (r, w') \<Rightarrow> (Inr r, w'))
      | None # fs \<Rightarrow> (case run (w\<lparr>faults := fs\<rparr>) of (r, w') \<Rightarrow> (Inr r, w'))
      | Some e # fs \<Rightarrow> (Inl e, w\<lparr>faults := fs\<rparr>))"

text \<open>
  \<open>ORDER BY column DESC\<close>. The database returns the rows with the largest key first, and
  rows with equal keys in an order of its own choosing, which SQL leaves open. The choice
  is the environment's: \<open>choice\<close> (the \<open>tieOrder\<close> of the world) is given the keys of the
  rows and answers with the positions of the rows in the order in which to list them.
  The answer stands when it \<open>listsDesc\<close>: every position once, the keys descending.
  Every listing the database may return is the answer of some choice; for an answer that
  is no such listing the rows are listed as a stable sort leaves them, the latest
  insertion first among equal keys.
\<close>

definition listsDesc :: "nat list \<Rightarrow> nat list \<Rightarrow> bool" where
  "listsDesc keys positions \<longleftrightarrow>
     mset positions = mset [0..<length keys]
     \<and> sorted_wrt (\<lambda>i j. keys ! j \<le> keys ! i) positions"

definition orderByDesc :: "(nat list \<Rightarrow> nat list) \<Rightarrow> ('a \<Rightarrow> nat) \<Rightarrow> 'a list \<Rightarrow> 'a list" where
  "orderByDesc choice key rows =
     (let positions = choice (map key rows)
      in if listsDesc (map key rows) positions then map (\<lambda>i. rows ! i) positions
         else rev (sort_key key rows))"

section \<open>DbOperations (db/operations.ts)\<close>

text \<open>A \<open>DbOperations\<close> object wraps the connection it was created with. Every method
  takes the world and returns the new one; a method that reads the clock
  (\<open>new Date()\<close>, or the column default \<open>now()\<close>) takes the reading as \<open>now\<close>.\<close>

record db_operations =
  ops_db :: nat

definition maxRetries :: nat where
  "maxRetries = 2"

text \<open>\<open>error?.code === "CONNECTION_ENDED" || error?.errno === "CONNECTION_ENDED"\<close>\<close>

definition isConnectionEnded :: "thrown \<Rightarrow> bool" where
  "isConnectionEnded error \<longleftrightarrow>
     error_code error = Some (JStr ''CONNECTION_ENDED'')
     \<or> error_errno error = Some (JStr ''CONNECTION_ENDED'')"

subsection \<open>Sessions\<close>

text \<open>\<open>insert(sessions).values(...).onConflictDoUpdate({target: sessions.id, set:
  {updatedAt, metadata}}).returning()\<close>, destructured to its first row.\<close>

definition upsertSession :: "new_session \<Rightarrow> nat \<Rightarrow> world \<Rightarrow> session_row \<times> world" where
  "upsertSession data now w =
     (case find (\<lambda>s. ses_id s = ns_id data) (sessionsT w) of
        None \<Rightarrow>
          (let row = \<lparr>ses_id = ns_id data, ses_agentType = ns_agentType data,
                      ses_agentName = ns_agentName data, ses_metadata = ns_metadata data,
                      ses_createdAt = now, ses_updatedAt = now\<rparr>
           in (row, w\<lparr>sessionsT := sessionsT w @ [row]\<rparr>))
      | Some old \<Rightarrow>
          (let change = (\<lambda>s. s\<lparr>ses_updatedAt := now, ses_metadata := ns_metadata data\<rparr>)
           in (change old,
               w\<lparr>sessionsT := map (\<lambda>s. if ses_id s = ns_id data then change s else s) (sessionsT w)\<rparr>)))"

text \<open>The retry loop of \<open>createSession\<close>, entered at \<open>attempt\<close>; \<open>None\<close> is the \<open>null\<close> it
  returns.\<close>

function createSession_from ::
  "nat \<Rightarrow> db_operations \<Rightarrow> new_session \<Rightarrow> nat \<Rightarrow> world \<Rightarrow> session_row option \<times> world" where
  "createSession_from attempt dbo data now w =
     (if attempt \<le> maxRetries then
        (case query (ops_db dbo) (upsertSession data now) w of
           (Inr session, w1) \<Rightarrow> (Some session, w1)
         | (Inl error, w1) \<Rightarrow>
             (let w2 = console_warn ''Error creating session (attempt):'' w1 in
              if attempt < maxRetries \<and> isConnectionEnded error
              then createSession_from (attempt + 1) dbo data now (setTimeout (100 * attempt) w2)
              else (None, console_error ''Final error creating session:'' w2)))
      else (None, w))"
  by pat_completeness auto
termination
  by (relation "measure (\<lambda>(attempt, dbo, data, now, w). Suc maxRetries - attempt)") auto

definition createSession ::
  "db_operations \<Rightarrow> new_session \<Rightarrow> nat \<Rightarrow> world \<Rightarrow> session_row option \<times> world" where
  "createSession = createSession_from 1"

definition findSession ::
  "db_operations \<Rightarrow> string \<Rightarrow> world \<Rightarrow> (thrown + session_row option) \<times> world" where
  "findSession dbo sessionId =
     query (ops_db dbo) (\<lambda>w. (find (\<lambda>s. ses_id s = sessionId) (sessionsT w), w))"

definition updateSessionMetadata ::
  "db_operations \<Rightarrow> string \<Rightarrow> json \<Rightarrow> nat \<Rightarrow> world \<Rightarrow> (thrown + session_row option) \<times> world" where
  "updateSessionMetadata dbo sessionId metadata now =
     query (ops_db dbo) (\<lambda>w.
       (let change = (\<lambda>s. s\<lparr>ses_metadata := metadata, ses_updatedAt := now\<rparr>)
        in (map_option change (find (\<lambda>s. ses_id s = sessionId) (sessionsT w)),
            w\<lparr>sessionsT := map (\<lambda>s. if ses_id s = sessionId then change s else s) (sessionsT w)\<rparr>)))"

subsection \<open>Messages\<close>

definition insertMessage :: "new_message \<Rightarrow> nat \<Rightarrow> world \<Rightarrow> message_row \<times> world" where
  "insertMessage data now w =
     (let row = \<lparr>msg_id = nextId w, msg_agentType = nm_agentType data,
                 msg_sessionId = nm_sessionId data, msg_role = nm_role data,
                 msg_content = nm_content data, msg_metadata = nm_metadata data,
                 msg_createdAt = now\<rparr>
      in (row, w\<lparr>messagesT := messagesT w @ [row], nextId := Suc (nextId w)\<rparr>))"

text \<open>\<open>saveMessage\<close> catches every error of its insert, logs it and returns \<open>null\<close>.\<close>

definition saveMessage ::
  "db_operations \<Rightarrow> new_message \<Rightarrow> nat \<Rightarrow> world \<Rightarrow> message_row option \<times> world" where
  "saveMessage dbo data now w =
     (case query (ops_db dbo) (insertMessage data now) w of
        (Inr message, w1) \<Rightarrow> (Some message, w1)
      | (Inl error, w1) \<Rightarrow> (None, console_error ''Error saving message:'' w1))"

definition getSessionMessages ::
  "db_operations \<Rightarrow> string \<Rightarrow> world \<Rightarrow> (thrown + message_row list) \<times> world" where
  "getSessionMessages dbo sessionId =
     query (ops_db dbo) (\<lambda>w.
       (orderByDesc (tieOrder w) msg_createdAt
          (filter (\<lambda>m. msg_sessionId m = sessionId) (messagesT w)), w))"

text \<open>\<open>findMany({where: eq(messages.agentType, agentType), orderBy:
  [desc(messages.createdAt)], limit})\<close>\<close>

definition findAgentMessages :: "string \<Rightarrow> nat \<Rightarrow> world \<Rightarrow> message_row list" where
  "findAgentMessages agentType limit w =
     take limit (orderByDesc (tieOrder w) msg_createdAt
       (filter (\<lambda>m. msg_agentType m = agentType) (messagesT w)))"

text \<open>The retry loop of \<open>getAgentMessages\<close>, entered at \<open>attempt\<close>; \<open>Inl\<close> is the error it
  throws.\<close>

function getAgentMessages_from ::
  "nat \<Rightarrow> db_operations \<Rightarrow> string \<Rightarrow> nat \<Rightarrow> world \<Rightarrow> (thrown + message_row list) \<times> world" where
  "getAgentMessages_from attempt dbo agentType limit w =
     (if attempt \<le> maxRetries then
        (case query (ops_db dbo) (\<lambda>w. (findAgentMessages agentType limit w, w)) w of
           (Inr rows, w1) \<Rightarrow> (Inr rows, w1)
         | (Inl error, w1) \<Rightarrow>
             (let w2 = console_warn ''Error getting agent messages (attempt):'' w1 in
              if attempt < maxRetries \<and> isConnectionEnded error
              then getAgentMessages_from (attempt + 1) dbo agentType limit
                     (setTimeout (100 * attempt) w2)
              else (Inl error, w2)))
      else (Inr [], w))"
  by pat_completeness auto
termination
  by (relation "measure (\<lambda>(attempt, dbo, agentType, limit, w). Suc maxRetries - attempt)") auto

definition getAgentMessages ::
  "db_operations \<Rightarrow> string \<Rightarrow> nat \<Rightarrow> world \<Rightarrow> (thrown + message_row list) \<times> world" where
  "getAgentMessages = getAgentMessages_from 1"

subsection \<open>Integration connections\<close>

definition matches :: "string \<Rightarrow> string \<Rightarrow> integration_row \<Rightarrow> bool" where
  "matches sessionId integrationName r \<longleftrightarrow>
     conn_sessionId r = sessionId \<and> conn_integrationName r = integrationName"

definition saveIntegrationConnection ::
  "db_operations \<Rightarrow> new_integration \<Rightarrow> nat \<Rightarrow> world \<Rightarrow> (thrown + integration_row list) \<times> world" where
  "saveIntegrationConnection dbo connection now =
     query (ops_db dbo) (\<lambda>w.
       (let row = \<lparr>conn_id = nextId w, conn_sessionId = ni_sessionId connection,
                   conn_integrationName = ni_integrationName connection,
                   conn_status = ni_status connection, conn_credentials = JNull,
                   conn_metadata = (case ni_metadata connection of None \<Rightarrow> JNull | Some m \<Rightarrow> m),
                   conn_lastSyncAt = ni_lastSyncAt connection,
                   conn_createdAt = now, conn_updatedAt = now\<rparr>
        in ([row], w\<lparr>integrationConnectionsT := integrationConnectionsT w @ [row],
                       nextId := Suc (nextId w)\<rparr>)))"

definition getIntegrationConnection ::
  "db_operations \<Rightarrow> string \<Rightarrow> string \<Rightarrow> world \<Rightarrow> (thrown + integration_row list) \<times> world" where
  "getIntegrationConnection dbo sessionId integrationName =
     query (ops_db dbo) (\<lambda>w.
       (take 1 (filter (matches sessionId integrationName) (integrationConnectionsT w)), w))"

definition getSessionIntegrations ::
  "db_operations \<Rightarrow> string \<Rightarrow> world \<Rightarrow> (thrown + integration_row list) \<times> world" where
  "getSessionIntegrations dbo sessionId =
     query (ops_db dbo) (\<lambda>w.
       (orderByDesc (tieOrder w) conn_createdAt
          (filter (\<lambda>r. conn_sessionId r = sessionId) (integrationConnectionsT w)), w))"

definition applyUpdates :: "integration_updates \<Rightarrow> nat \<Rightarrow> integration_row \<Rightarrow> integration_row" where
  "applyUpdates updates now r =
     r\<lparr>conn_status := (case upd_status updates of None \<Rightarrow> conn_status r | Some s \<Rightarrow> s),
       conn_lastSyncAt := (case upd_lastSyncAt updates of None \<Rightarrow> conn_lastSyncAt r | Some t \<Rightarrow> Some t),
       conn_metadata := (case upd_metadata updates of None \<Rightarrow> conn_metadata r | Some m \<Rightarrow> m),
       conn_updatedAt := now\<rparr>"

text \<open>\<open>UPDATE ... SET ... WHERE session_id = ? AND integration_name = ? RETURNING *\<close>: every
  matching row is rewritten, and the rewritten rows are returned.\<close>

definition updateWhere ::
  "string \<Rightarrow> string \<Rightarrow> (integration_row \<Rightarrow> integration_row) \<Rightarrow> world \<Rightarrow> integration_row list \<times> world" where
  "updateWhere sessionId integrationName change w =
     (map change (filter (matches sessionId integrationName) (integrationConnectionsT w)),
      w\<lparr>integrationConnectionsT :=
          map (\<lambda>r. if matches sessionId integrationName r then change r else r)
            (integrationConnectionsT w)\<rparr>)"

definition updateIntegrationConnection ::
  "db_operations \<Rightarrow> string \<Rightarrow> string \<Rightarrow> integration_updates \<Rightarrow> nat \<Rightarrow> world
     \<Rightarrow> (thrown + integration_row list) \<times> world" where
  "updateIntegrationConnection dbo sessionId integrationName updates now =
     query (ops_db dbo) (updateWhere sessionId integrationName (applyUpdates updates now))"

definition connectIntegration ::
  "db_operations \<Rightarrow> string \<Rightarrow> string \<Rightarrow> json option \<Rightarrow> nat \<Rightarrow> world
     \<Rightarrow> (thrown + integration_row list) \<times> world" where
  "connectIntegration dbo sessionId integrationName metadata now w =
     (case getIntegrationConnection dbo sessionId integrationName w of
        (Inl error, w1) \<Rightarrow> (Inl error, w1)
      | (Inr (existing # rest), w1) \<Rightarrow>
          updateIntegrationConnection dbo sessionId integrationName
            \<lparr>upd_status = Some ''connected'', upd_lastSyncAt = Some now, upd_metadata = metadata\<rparr>
            now w1
      | (Inr [], w1) \<Rightarrow>
          saveIntegrationConnection dbo
            \<lparr>ni_sessionId = sessionId, ni_integrationName = integrationName,
             ni_status = ''connected'', ni_lastSyncAt = Some now, ni_metadata = metadata\<rparr>
            now w1)"

definition disconnectIntegration ::
  "db_operations \<Rightarrow> string \<Rightarrow> string \<Rightarrow> nat \<Rightarrow> world \<Rightarrow> (thrown + integration_row list) \<times> world" where
  "disconnectIntegration dbo sessionId integrationName now =
     query (ops_db dbo)
       (updateWhere sessionId integrationName
          (\<lambda>r. r\<lparr>conn_status := ''disconnected'', conn_updatedAt := now\<rparr>))"

section \<open>DatabaseManager (db/index.ts)\<close>

text \<open>The manager holds the connection it created, or \<open>null\<close>. A connection is
  identified by a number; \<open>db\<close> is the query builder wrapped around \<open>conn\<close> and shares
  its identity.\<close>

record database_manager =
  dm_db :: "nat option"
  dm_conn :: "nat option"
  dm_connectionString :: string

definition DatabaseManager :: "string \<Rightarrow> database_manager" where
  "DatabaseManager connectionString =
     \<lparr>dm_db = None, dm_conn = None, dm_connectionString = connectionString\<rparr>"

definition getDb :: "database_manager \<Rightarrow> world \<Rightarrow> (nat \<times> nat) \<times> database_manager \<times> world" where
  "getDb m w =
     (case (dm_db m, dm_conn m) of
        (Some db, Some conn) \<Rightarrow> ((db, conn), m, w)
      | _ \<Rightarrow>
          (let h = nextConn w
           in ((h, h), m\<lparr>dm_conn := Some h, dm_db := Some h\<rparr>,
               console_log ''DatabaseManager: New connection established''
                 (w\<lparr>nextConn := Suc h\<rparr>))))"

definition isConnected :: "database_manager \<Rightarrow> bool" where
  "isConnected m \<longleftrightarrow> dm_db m \<noteq> None \<and> dm_conn m \<noteq> None"

text \<open>\<open>conn.end()\<close>: the driver stops accepting queries on the connection at once; the
  call itself may still reject.\<close>

definition conn_end :: "nat \<Rightarrow> world \<Rightarrow> thrown option \<times> world" where
  "conn_end h w =
     (let w1 = w\<lparr>ended := ended w @ [h]\<rparr>
      in case faults w1 of
           [] \<Rightarrow> (None, w1)
         | None # fs \<Rightarrow> (None, w1\<lparr>faults := fs\<rparr>)
         | Some e # fs \<Rightarrow> (Some e, w1\<lparr>faults := fs\<rparr>))"

definition DatabaseManager_close :: "database_manager \<Rightarrow> world \<Rightarrow> database_manager \<times> world" where
  "DatabaseManager_close m w =
     (case dm_conn m of
        None \<Rightarrow> (m, w)
      | Some conn \<Rightarrow>
          (case conn_end conn w of
             (None, w1) \<Rightarrow>
               (m\<lparr>dm_db := None, dm_conn := None\<rparr>,
                console_log ''DatabaseManager: Connection closed'' w1)
           | (Some error, w1) \<Rightarrow>
               (m\<lparr>dm_db := None, dm_conn := None\<rparr>,
                console_warn ''DatabaseManager: Error closing connection:'' w1)))"

section \<open>Tool resolution (tools/index.ts)\<close>

text \<open>
  \<open>obj[key]\<close> on an object literal: an own property, a member inherited from
  \<open>Object.prototype\<close> (a function, or the prototype itself for \<open>__proto__\<close>; truthy and
  not iterable), or \<open>undefined\<close>.
\<close>

datatype 'a js_property = Own 'a | Inherited | Undefined

definition objectPrototype :: "string list" where
  "objectPrototype =
     [''constructor'', ''__defineGetter__'', ''__defineSetter__'', ''hasOwnProperty'',
      ''__lookupGetter__'', ''__lookupSetter__'', ''isPrototypeOf'', ''propertyIsEnumerable'',
      ''toString'', ''valueOf'', ''__proto__'', ''toLocaleString'']"

definition js_get :: "(string \<times> 'a) list \<Rightarrow> string \<Rightarrow> 'a js_property" where
  "js_get obj key =
     (case map_of obj key of
        Some v \<Rightarrow> Own v
      | None \<Rightarrow> if key \<in> set objectPrototype then Inherited else Undefined)"

text \<open>\<open>Object.assign(target, source)\<close>: a key of the target keeps its place and takes the
  new value, a new key is added last.\<close>

definition Object_assign :: "(string \<times> 'a) list \<Rightarrow> (string \<times> 'a) list \<Rightarrow> (string \<times> 'a) list" where
  "Object_assign target source = fold (\<lambda>(k, v). AList.update k v) source target"

record integration =
  int_name :: string
  int_description :: string
  int_category :: string
  int_tools :: "string list"
  int_status :: string
  int_authRequired :: bool

definition integrations :: "(string \<times> integration) list" where
  "integrations =
     [(''google-ads'',
       \<lparr>int_name = ''Google Ads'',
        int_description =
          ''Manage and analyze Google Ads campaigns, keywords, and performance metrics'',
        int_category = ''Advertising'',
        int_tools =
          [''getGoogleAdsStats'', ''getGoogleAdsPaymentInfo'', ''getGoogleAdsCampaigns'',
           ''getGoogleAdsKeywords'', ''getGoogleAdsAudienceInsights'',
           ''getGoogleAdsCompetitorAnalysis''],
        int_status = ''available'', int_authRequired = False\<rparr>),
      (''shopify'',
       \<lparr>int_name = ''Shopify'',
        int_description =
          ''Access store data including inventory, orders, customers, and analytics'',
        int_category = ''E-commerce'',
        int_tools =
          [''getShopifyStoreStats'', ''getShopifyInventory'', ''getShopifyOrders'',
           ''getShopifyCustomers'', ''getShopifyProducts'', ''getShopifyAnalytics''],
        int_status = ''available'', int_authRequired = False\<rparr>),
      (''posthog'',
       \<lparr>int_name = ''PostHog'',
        int_description =
          ''User analytics, event tracking, feature flags, and behavioral insights'',
        int_category = ''Analytics'',
        int_tools =
          [''getPostHogEvents'', ''getPostHogFunnelAnalysis'', ''getPostHogCohortAnalysis'',
           ''getPostHogUserSegments'', ''getPostHogFeatureFlags'', ''getPostHogInsights''],
        int_status = ''available'', int_authRequired = False\<rparr>)]"

text \<open>A tool descriptor: the key it is exported under and its \<open>name\<close> property, which
  \<open>googleAdsTools.getGoogleAdsStats\<close> does not have. Its description, schema and executor
  are opaque to the resolver.\<close>

record tool =
  tool_key :: string
  tool_name :: "string option"

type_synonym tools = "(string \<times> tool) list"

definition exported :: "string \<Rightarrow> string option \<Rightarrow> string \<times> tool" where
  "exported key name = (key, \<lparr>tool_key = key, tool_name = name\<rparr>)"

definition googleAdsTools :: tools where
  "googleAdsTools =
     [exported ''getGoogleAdsStats'' None,
      exported ''getPaymentInfo'' (Some ''getGoogleAdsPaymentInfo''),
      exported ''getCampaigns'' (Some ''getGoogleAdsCampaigns''),
      exported ''getKeywords'' (Some ''getGoogleAdsKeywords''),
      exported ''getAudienceInsights'' (Some ''getGoogleAdsAudienceInsights''),
      exported ''getCompetitorAnalysis'' (Some ''getGoogleAdsCompetitorAnalysis'')]"

definition shopifyTools :: tools where
  "shopifyTools =
     [exported ''getStoreStats'' (Some ''getShopifyStoreStats''),
      exported ''getInventory'' (Some ''getShopifyInventory''),
      exported ''getOrders'' (Some ''getShopifyOrders''),
      exported ''getCustomers'' (Some ''getShopifyCustomers''),
      exported ''getProducts'' (Some ''getShopifyProducts''),
      exported ''getAnalytics'' (Some ''getShopifyAnalytics'')]"

definition posthogTools :: tools where
  "posthogTools =
     [exported ''getEvents'' (Some ''getPostHogEvents''),
      exported ''getFunnelAnalysis'' (Some ''getPostHogFunnelAnalysis''),
      exported ''getCohortAnalysis'' (Some ''getPostHogCohortAnalysis''),
      exported ''getUserSegments'' (Some ''getPostHogUserSegments''),
      exported ''getFeatureFlags'' (Some ''getPostHogFeatureFlags''),
      exported ''getInsights'' (Some ''getPostHogInsights'')]"

definition getAllTools :: tools where
  "getAllTools =
     Object_assign (Object_assign (Object_assign [] googleAdsTools) shopifyTools) posthogTools"

definition agentToolMappings :: "(string \<times> string list) list" where
  "agentToolMappings =
     [(''auto-agent'', [''shopify'', ''posthog'']),
      (''campaign-agent'', [''google-ads'', ''shopify'', ''posthog''])]"

text \<open>The body of the \<open>forEach\<close> of \<open>getToolsByIntegration\<close>: the first tool of
  \<open>allTools\<close> whose \<open>name\<close> is \<open>toolName\<close> is stored under \<open>toolName\<close>.\<close>

definition addByName :: "tools \<Rightarrow> string \<Rightarrow> tools \<Rightarrow> tools" where
  "addByName allTools toolName integrationTools =
     (case find (\<lambda>(k, t). tool_name t = Some toolName) allTools of
        Some (k, t) \<Rightarrow> AList.update toolName t integrationTools
      | None \<Rightarrow> integrationTools)"

definition getToolsByIntegration :: "string \<Rightarrow> world \<Rightarrow> (thrown + tools) \<times> world" where
  "getToolsByIntegration integrationName w =
     (case js_get integrations integrationName of
        Undefined \<Rightarrow> (Inr [], w)
      | Inherited \<Rightarrow> (Inl (TypeError ''Cannot read properties of undefined (reading forEach)''), w)
      | Own integration \<Rightarrow>
          (Inr (fold (addByName getAllTools) (int_tools integration) []),
           console_log ''Found tools for integration'' w))"

definition convertToolsToAISDKFormat :: "tools \<Rightarrow> world \<Rightarrow> tools \<times> world" where
  "convertToolsToAISDKFormat ts w = (ts, console_log ''---tuls'' w)"

text \<open>The connection check at the head of the loop body of \<open>getToolsForAgent\<close>;
  \<open>sessionId && dbOps\<close> is false for a missing or empty session id and for a missing
  \<open>dbOps\<close>.\<close>

definition checkConnected ::
  "string option \<Rightarrow> db_operations option \<Rightarrow> string \<Rightarrow> world \<Rightarrow> bool \<times> world" where
  "checkConnected sessionId dbOps integrationName w =
     (case (sessionId, dbOps) of
        (Some sid, Some ops) \<Rightarrow>
          (if sid \<noteq> [] then
             (case getSessionIntegrations ops sid w of
                (Inr sessionIntegrations, w1) \<Rightarrow>
                  (list_ex (\<lambda>conn. conn_integrationName conn = integrationName
                                   \<and> conn_status conn = ''connected'') sessionIntegrations,
                   console_log ''Checking integrations for session'' w1)
              | (Inl error, w1) \<Rightarrow>
                  (True, console_warn ''Failed to check integration status'' w1))
           else (True, console_log ''No sessionId or dbOps provided, defaulting to connected'' w))
      | _ \<Rightarrow> (True, console_log ''No sessionId or dbOps provided, defaulting to connected'' w))"

text \<open>The \<open>for ... of\<close> loop of \<open>getToolsForAgent\<close> over the remaining integration names.\<close>

fun forIntegrationNames ::
  "string option \<Rightarrow> db_operations option \<Rightarrow> string list \<Rightarrow> tools \<Rightarrow> world \<Rightarrow> (thrown + tools) \<times> world" where
  "forIntegrationNames sessionId dbOps [] agentTools w = (Inr agentTools, w)"
| "forIntegrationNames sessionId dbOps (integrationName # rest) agentTools w =
     (case checkConnected sessionId dbOps integrationName w of
        (True, w1) \<Rightarrow>
          (case getToolsByIntegration integrationName w1 of
             (Inl error, w2) \<Rightarrow> (Inl error, w2)
           | (Inr ts, w2) \<Rightarrow>
               forIntegrationNames sessionId dbOps rest (Object_assign agentTools ts)
                 (console_log ''Added tools from integration'' w2))
      | (False, w1) \<Rightarrow>
          forIntegrationNames sessionId dbOps rest agentTools
            (console_log ''Skipping integration - not connected for session'' w1))"

definition getToolsForAgent ::
  "string \<Rightarrow> string option \<Rightarrow> db_operations option \<Rightarrow> world \<Rightarrow> (thrown + tools) \<times> world" where
  "getToolsForAgent agentType sessionId dbOps w =
     (case js_get agentToolMappings agentType of
        Own integrationNames \<Rightarrow>
          (case forIntegrationNames sessionId dbOps integrationNames [] w of
             (Inl error, w1) \<Rightarrow> (Inl error, w1)
           | (Inr agentTools, w1) \<Rightarrow>
               (case convertToolsToAISDKFormat agentTools
                       (console_log ''Total tools available for agent'' w1) of
                  (ts, w2) \<Rightarrow> (Inr ts, w2)))
      | _ \<Rightarrow> (Inl (TypeError ''integrationNames is not iterable''), w))"

section \<open>The chat agents (server.ts)\<close>

text \<open>
  \<open>RouterAgent\<close> and \<open>CampaignAgent\<close> are the same class text up to two strings: the agent
  type they store and resolve tools under, and the name they put into metadata. The model
  has one agent whose class gives the two strings.
\<close>

record agent_class =
  cls_agentType :: string
  cls_agentName :: string

definition RouterAgent :: agent_class where
  "RouterAgent = \<lparr>cls_agentType = ''router-agent'', cls_agentName = ''RouterAgent''\<rparr>"

definition CampaignAgent :: agent_class where
  "CampaignAgent = \<lparr>cls_agentType = ''campaign-agent'', cls_agentName = ''CampaignAgent''\<rparr>"

datatype message_id = ClientId string | RowId nat

record chat_message =
  cm_role :: string
  cm_content :: chat_content
  cm_id :: message_id

record agent =
  this_class :: agent_class
  this_dbManager :: "database_manager option"
  this_dbOps :: "db_operations option"
  this_sessionId :: string
  this_systemPrompt :: string
  this_messages :: "chat_message list"

text \<open>The constructor. \<open>stored\<close> is the transcript the base class \<open>AIChatAgent\<close> loads
  from the instance's own storage; \<open>hyperdrive\<close> is \<open>env.HYPERDRIVE\<close>, and reading its
  connection string throws inside the \<open>try\<close> when the binding is missing.\<close>

definition new_agent ::
  "agent_class \<Rightarrow> chat_message list \<Rightarrow> string option \<Rightarrow> world \<Rightarrow> agent \<times> world" where
  "new_agent cls stored hyperdrive w =
     (let this = \<lparr>this_class = cls, this_dbManager = None, this_dbOps = None,
                  this_sessionId = [], this_systemPrompt = [], this_messages = stored\<rparr>
      in case hyperdrive of
           None \<Rightarrow> (this, console_warn ''Database not available:'' w)
         | Some connectionString \<Rightarrow>
             (case getDb (DatabaseManager connectionString) w of
                ((db, conn), m, w1) \<Rightarrow>
                  (this\<lparr>this_dbManager := Some m, this_dbOps := Some \<lparr>ops_db = db\<rparr>\<rparr>,
                   console_log ''Database connection established'' w1)))"

definition toChat :: "message_row \<Rightarrow> chat_message" where
  "toChat dbMessage =
     \<lparr>cm_role = msg_role dbMessage, cm_content = msg_content dbMessage,
      cm_id = RowId (msg_id dbMessage)\<rparr>"

definition restoreConversationHistory :: "agent \<Rightarrow> world \<Rightarrow> agent \<times> world" where
  "restoreConversationHistory this w =
     (case this_dbOps this of
        None \<Rightarrow> (this, w)
      | Some ops \<Rightarrow>
          if this_sessionId this = [] then (this, w)
          else
            (case getAgentMessages ops (cls_agentType (this_class this)) 50 w of
               (Inr savedMessages, w1) \<Rightarrow>
                 if length savedMessages > 0 then
                   (this\<lparr>this_messages := map toChat (rev savedMessages)\<rparr>,
                    console_log ''Successfully restored messages''
                      (console_log ''Restoring previous messages'' w1))
                 else (this, console_log ''No previous conversation history found'' w1)
             | (Inl error, w1) \<Rightarrow>
                 (this,
                  console_log ''Continuing without restored history''
                    (console_error ''Failed to restore conversation history:'' w1))))"

definition onConnect :: "agent \<Rightarrow> string \<Rightarrow> nat \<Rightarrow> world \<Rightarrow> agent \<times> world" where
  "onConnect this0 connectionId now w0 =
     (let w = console_log ''connected'' w0;
          this = this0\<lparr>this_sessionId := cls_agentType (this_class this0) @ ''-persistent''\<rparr>
      in case this_dbOps this of
           None \<Rightarrow> (this, w)
         | Some ops \<Rightarrow>
             (case createSession ops
                     \<lparr>ns_id = this_sessionId this,
                      ns_agentType = cls_agentType (this_class this),
                      ns_agentName = this_sessionId this,
                      ns_metadata =
                        JObj [(''startedAt'', JDate now), (''connectionId'', JStr connectionId),
                              (''lastConnectionAt'', JDate now)]\<rparr>
                     now w of
                (Some session, w1) \<Rightarrow>
                  restoreConversationHistory this
                    (console_log ''session created/updated successfully'' w1)
              | (None, w1) \<Rightarrow> restoreConversationHistory this w1))"

text \<open>The loop of \<open>onClose\<close> over \<open>this.messages\<close>; the save of the message at position
  \<open>i\<close> reads the clock as \<open>clock i\<close>.\<close>

definition closeContent :: "chat_content \<Rightarrow> chat_content" where
  "closeContent c = (case c of Text s \<Rightarrow> Text s | Structured s \<Rightarrow> Text s)"

fun saveOnClose ::
  "agent \<Rightarrow> db_operations \<Rightarrow> (nat \<Rightarrow> nat) \<Rightarrow> nat \<Rightarrow> chat_message list \<Rightarrow> world \<Rightarrow> world" where
  "saveOnClose this ops clock i [] w = w"
| "saveOnClose this ops clock i (message # rest) w =
     saveOnClose this ops clock (Suc i) rest
       (snd (saveMessage ops
          \<lparr>nm_agentType = cls_agentType (this_class this),
           nm_sessionId = this_sessionId this,
           nm_role = cm_role message,
           nm_content = closeContent (cm_content message),
           nm_metadata =
             JObj [(''timestamp'', JDate (clock i)),
                   (''agentName'', JStr (cls_agentName (this_class this))),
                   (''savedOnClose'', JBool True)]\<rparr>
          (clock i) w))"

definition onClose :: "agent \<Rightarrow> (nat \<Rightarrow> nat) \<Rightarrow> world \<Rightarrow> agent \<times> world" where
  "onClose this clock w0 =
     (let w = console_log ''disconnected'' w0;
          w1 = (case this_dbOps this of
                  None \<Rightarrow> w
                | Some ops \<Rightarrow>
                    if this_sessionId this \<noteq> [] \<and> length (this_messages this) > 0 then
                      console_log ''Successfully saved all messages on close''
                        (saveOnClose this ops clock 0 (this_messages this)
                           (console_log ''Saving messages to database on close'' w))
                    else w)
      in case this_dbManager this of
           None \<Rightarrow> (this, w1)
         | Some m \<Rightarrow>
             (case DatabaseManager_close m w1 of
                (m', w2) \<Rightarrow> (this\<lparr>this_dbManager := Some m'\<rparr>, w2)))"

text \<open>The conditions under which the three saves of a chat turn run.\<close>

definition userGate :: "agent \<Rightarrow> bool" where
  "userGate this \<longleftrightarrow>
     this_dbOps this \<noteq> None \<and> this_sessionId this \<noteq> [] \<and>
     (this_messages this \<noteq> [] \<and> cm_role (last (this_messages this)) = ''user'') \<and>
     length (this_messages this) > 10"

definition replyGate :: "agent \<Rightarrow> bool" where
  "replyGate this \<longleftrightarrow>
     this_dbOps this \<noteq> None \<and> this_sessionId this \<noteq> [] \<and> length (this_messages this) > 10"

definition getMessageCount :: "agent \<Rightarrow> world \<Rightarrow> nat \<times> world" where
  "getMessageCount this w =
     (case this_dbOps this of
        None \<Rightarrow> (0, w)
      | Some ops \<Rightarrow>
          if this_sessionId this = [] then (0, w)
          else
            (case getSessionMessages ops (this_sessionId this) w of
               (Inr ms, w1) \<Rightarrow> (length ms, w1)
             | (Inl error, w1) \<Rightarrow> (0, console_warn ''Failed to get message count:'' w1)))"

text \<open>The first statement of \<open>onChatMessage\<close>: the save of the inbound user message.\<close>

definition saveUserMessage :: "agent \<Rightarrow> nat \<Rightarrow> world \<Rightarrow> world" where
  "saveUserMessage this now w =
     (case this_dbOps this of
        None \<Rightarrow> w
      | Some ops \<Rightarrow>
          if userGate this then
            console_log ''user message saved''
              (snd (saveMessage ops
                 \<lparr>nm_agentType = cls_agentType (this_class this),
                  nm_sessionId = this_sessionId this,
                  nm_role = ''user'',
                  nm_content = cm_content (last (this_messages this)),
                  nm_metadata =
                    JObj [(''timestamp'', JDate now),
                          (''agentName'', JStr (cls_agentName (this_class this)))]\<rparr>
                 now w))
          else w)"

text \<open>What the text generation reports to the callback \<open>onFinish\<close>.\<close>

record gen_result =
  res_text :: string
  res_finishReason :: string
  res_usage :: json

text \<open>The callback \<open>onFinish\<close> that \<open>onChatMessage\<close> hands to \<open>streamText\<close>. It ends by
  calling the callback of the base class, which is outside this program.\<close>

definition onFinish :: "agent \<Rightarrow> gen_result \<Rightarrow> nat \<Rightarrow> world \<Rightarrow> world" where
  "onFinish this result now w =
     (case this_dbOps this of
        None \<Rightarrow> w
      | Some ops \<Rightarrow>
          if replyGate this then
            (case saveMessage ops
                    \<lparr>nm_agentType = cls_agentType (this_class this),
                     nm_sessionId = this_sessionId this,
                     nm_role = ''assistant'',
                     nm_content = Text (res_text result),
                     nm_metadata =
                       JObj [(''timestamp'', JDate now),
                             (''agentName'', JStr (cls_agentName (this_class this))),
                             (''responseLength'', JNum (length (res_text result))),
                             (''finishReason'', JStr (res_finishReason result)),
                             (''usage'', res_usage result)]\<rparr>
                    now w of
               (savedResponse, w1) \<Rightarrow>
                 (case getMessageCount this (console_log ''assistant response saved'' w1) of
                    (messageCount, w2) \<Rightarrow>
                      (case updateSessionMetadata ops (this_sessionId this)
                              (JObj [(''lastActivity'', JDate now),
                                     (''messageCount'', JNum messageCount)])
                              now w2 of
                         (Inr updated, w3) \<Rightarrow> w3
                       | (Inl error, w3) \<Rightarrow>
                           console_error ''Failed to save assistant response:'' w3)))
          else w)"

text \<open>The \<open>catch\<close> block of the \<open>execute\<close> callback: it records the error as a system
  message and throws the error again.\<close>

definition onExecuteError :: "agent \<Rightarrow> thrown \<Rightarrow> nat \<Rightarrow> world \<Rightarrow> world" where
  "onExecuteError this error now w0 =
     (let w = console_error ''Error in onChatMessage:'' w0
      in case this_dbOps this of
           None \<Rightarrow> w
         | Some ops \<Rightarrow>
             if replyGate this then
               snd (saveMessage ops
                      \<lparr>nm_agentType = cls_agentType (this_class this),
                       nm_sessionId = this_sessionId this,
                       nm_role = ''system'',
                       nm_content = Text (''Error processing message: '' @ messageOrUnknown error),
                       nm_metadata = JObj [(''error'', JBool True), (''timestamp'', JDate now)]\<rparr>
                      now w)
             else w)"

text \<open>What \<open>streamText\<close> does with the transcript and the tools: it finishes and calls
  \<open>onFinish\<close>, it throws inside the \<open>try\<close>, or its stream ends without finishing (an
  abort), and then neither happens.\<close>

datatype generation = Finishes gen_result | Throws thrown | Unfinished

text \<open>\<open>onChatMessage\<close>: the save of the user message at time \<open>t0\<close>, then the \<open>execute\<close>
  callback, whose later save happens at time \<open>t1\<close>. The result is the error that
  \<open>execute\<close> throws to the data stream, if any.\<close>

definition onChatMessage ::
  "agent \<Rightarrow> generation \<Rightarrow> nat \<Rightarrow> nat \<Rightarrow> world \<Rightarrow> thrown option \<times> world" where
  "onChatMessage this gen t0 t1 w0 =
     (let w = saveUserMessage this t0 w0
      in case getToolsForAgent (cls_agentType (this_class this)) (Some (this_sessionId this))
                (this_dbOps this) w of
           (Inl error, w1) \<Rightarrow> (Some error, onExecuteError this error t1 w1)
         | (Inr ts, w1) \<Rightarrow>
             (let w2 = console_log ''available tools:'' w1
              in case gen of
                   Finishes result \<Rightarrow> (None, onFinish this result t1 w2)
                 | Throws error \<Rightarrow> (Some error, onExecuteError this error t1 w2)
                 | Unfinished \<Rightarrow> (None, w2)))"

section \<open>The HTTP handler (server.ts, \<open>fetch\<close>)\<close>

record request =
  req_method :: string
  req_pathname :: string
  req_sessionIdParam :: "string option"
  req_sessionIdHeader :: "string option"

record env =
  env_OPENAI_API_KEY :: "string option"
  env_HYPERDRIVE :: "string option"

record response =
  resp_status :: nat
  resp_body :: json

text \<open>What \<open>fetch\<close> returns: a response of its own, or whatever \<open>routeAgentRequest\<close>
  makes of the request.\<close>

datatype handled = Response response | RouteAgentRequest

definition startsWith :: "string \<Rightarrow> string \<Rightarrow> bool" where
  "startsWith s p \<longleftrightarrow> take (length p) s = p"

text \<open>\<open>pathname.split("/").pop()\<close>: what follows the last slash.\<close>

definition lastSegment :: "string \<Rightarrow> string" where
  "lastSegment pathname = rev (takeWhile (\<lambda>c. c \<noteq> CHR ''/'') (rev pathname))"

text \<open>\<open>a || b\<close> on strings that may be \<open>null\<close>: the empty string is falsy.\<close>

definition orElse :: "string option \<Rightarrow> string option \<Rightarrow> string option" where
  "orElse a b = (case a of Some s \<Rightarrow> if s \<noteq> [] then Some s else b | None \<Rightarrow> b)"

definition truthy :: "string option \<Rightarrow> bool" where
  "truthy a \<longleftrightarrow> (case a of Some s \<Rightarrow> s \<noteq> [] | None \<Rightarrow> False)"

definition isIntegrationConnected :: "string \<Rightarrow> bool" where
  "isIntegrationConnected integrationName = True"

text \<open>One element of the list of \<open>GET /api/integrations\<close>: \<open>{id, name,
  ...getIntegrationStatus(key)}\<close>.\<close>

definition integrationEntry :: "string \<Rightarrow> integration \<Rightarrow> nat \<Rightarrow> (string \<times> json) list" where
  "integrationEntry key i now =
     [(''id'', JStr key), (''name'', JStr (int_name i)),
      (''description'', JStr (int_description i)), (''category'', JStr (int_category i)),
      (''tools'', JArr (map JStr (int_tools i))), (''status'', JStr (int_status i)),
      (''authRequired'', JBool (int_authRequired i)),
      (''connected'', JBool (isIntegrationConnected key)),
      (''lastSync'', JDate now), (''toolsCount'', JNum (length (int_tools i)))]"

text \<open>The rewrite of one element with the session's rows: \<open>connected\<close> from the set of
  connected names, \<open>lastSync\<close> from the first row of that name (a property that is
  \<open>undefined\<close> is not serialised).\<close>

definition withStatus :: "integration_row list \<Rightarrow> string \<Rightarrow> (string \<times> json) list \<Rightarrow> (string \<times> json) list" where
  "withStatus sessionIntegrations key entry =
     (let connected = list_ex (\<lambda>conn. conn_status conn = ''connected''
                                      \<and> conn_integrationName conn = key) sessionIntegrations;
          entry1 = AList.update ''connected'' (JBool connected) entry
      in case find (\<lambda>conn. conn_integrationName conn = key) sessionIntegrations of
           None \<Rightarrow> AList.delete ''lastSync'' entry1
         | Some conn \<Rightarrow>
             AList.update ''lastSync''
               (case conn_lastSyncAt conn of None \<Rightarrow> JNull | Some t \<Rightarrow> JDate t) entry1)"

definition listIntegrations :: "env \<Rightarrow> string option \<Rightarrow> nat \<Rightarrow> world \<Rightarrow> response \<times> world" where
  "listIntegrations e sessionId now w =
     (let integrationList = map (\<lambda>(key, i). (key, integrationEntry key i now)) integrations;
          reply = (\<lambda>l. \<lparr>resp_status = 200,
                         resp_body = JObj [(''integrations'', JArr (map (\<lambda>(key, entry). JObj entry) l))]\<rparr>)
      in case sessionId of
           None \<Rightarrow> (reply integrationList, w)
         | Some sid \<Rightarrow>
             if sid = [] then (reply integrationList, w)
             else
               (case env_HYPERDRIVE e of
                  None \<Rightarrow>
                    (reply integrationList, console_error ''Failed to get session integrations:'' w)
                | Some connectionString \<Rightarrow>
                    (case getDb (DatabaseManager connectionString) w of
                       ((db, conn), m, w1) \<Rightarrow>
                         (case getSessionIntegrations \<lparr>ops_db = db\<rparr> sid w1 of
                            (Inl error, w2) \<Rightarrow>
                              (reply integrationList,
                               console_error ''Failed to get session integrations:'' w2)
                          | (Inr sessionIntegrations, w2) \<Rightarrow>
                              (reply (map (\<lambda>(key, entry).
                                        (key, withStatus sessionIntegrations key entry))
                                      integrationList),
                               snd (DatabaseManager_close m w2))))))"

definition errorResponse :: "nat \<Rightarrow> string \<Rightarrow> response" where
  "errorResponse status msg = \<lparr>resp_status = status, resp_body = JObj [(''error'', JStr msg)]\<rparr>"

definition failure :: "string \<Rightarrow> thrown \<Rightarrow> response" where
  "failure msg error =
     \<lparr>resp_status = 500,
      resp_body = JObj [(''error'', JStr msg), (''details'', JStr (messageOrUnknown error))]\<rparr>"

text \<open>The branch for \<open>POST /api/integrations/{name}\<close>.\<close>

definition postIntegration :: "request \<Rightarrow> env \<Rightarrow> string option \<Rightarrow> nat \<Rightarrow> world \<Rightarrow> response \<times> world" where
  "postIntegration r e sessionId now w =
     (let integrationName = lastSegment (req_pathname r)
      in if integrationName = [] \<or> js_get integrations integrationName = Undefined
         then (errorResponse 404 ''Integration not found'', w)
         else if \<not> truthy sessionId
         then (errorResponse 400 ''Session ID required'', w)
         else
           (case env_HYPERDRIVE e of
              None \<Rightarrow>
                (failure ''Failed to connect integration''
                   (TypeError ''Cannot read properties of undefined (reading connectionString)''),
                 console_error ''Failed to connect integration:'' w)
            | Some connectionString \<Rightarrow>
                (case getDb (DatabaseManager connectionString) w of
                   ((db, conn), m, w1) \<Rightarrow>
                     (case connectIntegration \<lparr>ops_db = db\<rparr> (case sessionId of Some sid \<Rightarrow> sid | None \<Rightarrow> []) integrationName
                             (Some (JObj [(''connectedAt'', JDate now), (''source'', JStr ''api'')]))
                             now w1 of
                        (Inl error, w2) \<Rightarrow>
                          (failure ''Failed to connect integration'' error,
                           console_error ''Failed to connect integration:'' w2)
                      | (Inr rows, w2) \<Rightarrow>
                          (\<lparr>resp_status = 200,
                            resp_body =
                              JObj [(''success'', JBool True),
                                    (''integration'', JStr integrationName),
                                    (''status'', JStr ''connected''),
                                    (''message'',
                                     JStr (''Successfully connected to '' @ integrationName))]\<rparr>,
                           snd (DatabaseManager_close m w2))))))"

text \<open>The branch for \<open>DELETE /api/integrations/{name}\<close>.\<close>

definition deleteIntegration :: "request \<Rightarrow> env \<Rightarrow> string option \<Rightarrow> nat \<Rightarrow> world \<Rightarrow> response \<times> world" where
  "deleteIntegration r e sessionId now w =
     (let integrationName = lastSegment (req_pathname r)
      in if integrationName = [] \<or> js_get integrations integrationName = Undefined
         then (errorResponse 404 ''Integration not found'', w)
         else if \<not> truthy sessionId
         then (errorResponse 400 ''Session ID required'', w)
         else
           (case env_HYPERDRIVE e of
              None \<Rightarrow>
                (failure ''Failed to disconnect integration''
                   (TypeError ''Cannot read properties of undefined (reading connectionString)''),
                 console_error ''Failed to disconnect integration:'' w)
            | Some connectionString \<Rightarrow>
                (case getDb (DatabaseManager connectionString) w of
                   ((db, conn), m, w1) \<Rightarrow>
                     (case disconnectIntegration \<lparr>ops_db = db\<rparr> (case sessionId of Some sid \<Rightarrow> sid | None \<Rightarrow> []) integrationName
                             now w1 of
                        (Inl error, w2) \<Rightarrow>
                          (failure ''Failed to disconnect integration'' error,
                           console_error ''Failed to disconnect integration:'' w2)
                      | (Inr rows, w2) \<Rightarrow>
                          (\<lparr>resp_status = 200,
                            resp_body =
                              JObj [(''success'', JBool True),
                                    (''integration'', JStr integrationName),
                                    (''status'', JStr ''disconnected''),
                                    (''message'',
                                     JStr (''Successfully disconnected from '' @ integrationName))]\<rparr>,
                           snd (DatabaseManager_close m w2))))))"

definition fetch :: "request \<Rightarrow> env \<Rightarrow> nat \<Rightarrow> world \<Rightarrow> handled \<times> world" where
  "fetch r e now w =
     (if req_method r = ''OPTIONS'' then
        (Response \<lparr>resp_status = 200, resp_body = JNull\<rparr>, w)
      else if req_pathname r = ''/check-open-ai-key'' then
        (Response \<lparr>resp_status = 200,
                   resp_body = JObj [(''success'', JBool (truthy (env_OPENAI_API_KEY e)))]\<rparr>, w)
      else if startsWith (req_pathname r) ''/api/integrations'' then
        (let sessionId = orElse (req_sessionIdParam r) (req_sessionIdHeader r)
         in if req_pathname r = ''/api/integrations'' \<and> req_method r = ''GET'' then
              (case listIntegrations e sessionId now w of (resp, w1) \<Rightarrow> (Response resp, w1))
            else if startsWith (req_pathname r) ''/api/integrations/'' \<and> req_method r = ''POST'' then
              (case postIntegration r e sessionId now w of (resp, w1) \<Rightarrow> (Response resp, w1))
            else if startsWith (req_pathname r) ''/api/integrations/'' \<and> req_method r = ''DELETE'' then
              (case deleteIntegration r e sessionId now w of (resp, w1) \<Rightarrow> (Response resp, w1))
            else (RouteAgentRequest, w))
      else (RouteAgentRequest, w))"

section \<open>Notions of the statements\<close>

text \<open>The world before anything happened: empty tables, no connection ended, and an
  environment that fails no call and leaves rows with equal keys as a stable sort lists
  them.\<close>

definition initialWorld :: world where
  "initialWorld =
     \<lparr>messagesT = [], sessionsT = [], integrationConnectionsT = [], nextId = 0, nextConn = 0,
      ended = [], faults = [], tieOrder = (\<lambda>keys. []), sleeps = [], console = []\<rparr>"

text \<open>The tools of one integration, as \<open>getToolsByIntegration\<close> returns them (its result does
  not depend on the world, which only receives its console line).\<close>

definition toolBundle :: "string \<Rightarrow> tools" where
  "toolBundle integrationName =
     (case fst (getToolsByIntegration integrationName initialWorld) of Inr ts \<Rightarrow> ts | Inl e \<Rightarrow> [])"

text \<open>In the words of the specification: the registry reports the integration as connected
  for the session, that is, it holds a row of the session for the integration whose status
  is \<open>connected\<close>.\<close>

definition reportsConnected :: "world \<Rightarrow> string \<Rightarrow> string \<Rightarrow> bool" where
  "reportsConnected w sessionId integrationName \<longleftrightarrow>
     list_ex (\<lambda>r. conn_sessionId r = sessionId \<and> conn_integrationName r = integrationName
                  \<and> conn_status r = ''connected'') (integrationConnectionsT w)"

text \<open>The row that \<open>connectIntegration\<close> inserts for a pair that has none.\<close>

definition connected_row :: "nat \<Rightarrow> string \<Rightarrow> string \<Rightarrow> json option \<Rightarrow> nat \<Rightarrow> integration_row" where
  "connected_row i S X meta now = \<lparr>conn_id = i, conn_sessionId = S,
                   conn_integrationName = X,
                   conn_status = ''connected'', conn_credentials = JNull,
                   conn_metadata = (case meta of None \<Rightarrow> JNull | Some m \<Rightarrow> m),
                   conn_lastSyncAt = Some now,
                   conn_createdAt = now, conn_updatedAt = now\<rparr>"

text \<open>For the proofs about the loop of \<open>getToolsForAgent\<close>. What decides a connection check
  is the ended connections, the script and the rows; in a \<open>stable\<close> world a check leaves
  all three as they are, so that every check of the loop sees the same environment.
  \<open>known\<close> are the names with an entry in \<open>integrations\<close>.\<close>

definition stable :: "string option \<Rightarrow> db_operations option \<Rightarrow> world \<Rightarrow> bool" where
  "stable sessionId dbOps w \<longleftrightarrow>
     faults w = [] \<or> sessionId = None \<or> sessionId = Some [] \<or>
     (case dbOps of None \<Rightarrow> True | Some ops \<Rightarrow> ops_db ops \<in> set (ended w))"

definition sameEnv :: "world \<Rightarrow> world \<Rightarrow> bool" where
  "sameEnv w w0 \<longleftrightarrow>
     ended w = ended w0 \<and> faults w = faults w0 \<and>
     integrationConnectionsT w = integrationConnectionsT w0"

definition known :: "string set" where
  "known = {''google-ads'', ''shopify'', ''posthog''}"

subsection \<open>Worked instances\<close>

text \<open>A storage handle on the connection 0 and the manager that holds it; a registry with a
  connected and a disconnected integration for the session \<open>s1\<close>; an error of another
  class than the connection-ended one, and a world whose next driver call fails with it;
  an agent of either class with a given transcript; a messages table with two rows of
  \<open>router-agent\<close> around one of \<open>campaign-agent\<close>. Further down: a database that lists
  rows with equal keys in the order of their insertion, as a sort that is stable over
  the heap does; the table after two saves within the same millisecond on such a
  database; a clock that advances by a millisecond from one reading to the next; an
  agent closed once, and closed again after its transcript has grown.\<close>

definition exampleOps :: db_operations where
  "exampleOps = \<lparr>ops_db = 0\<rparr>"

definition exampleManager :: database_manager where
  "exampleManager = \<lparr>dm_db = Some 0, dm_conn = Some 0, dm_connectionString = ''postgres://db''\<rparr>"

definition shopifyRow :: integration_row where
  "shopifyRow =
     \<lparr>conn_id = 0, conn_sessionId = ''s1'', conn_integrationName = ''shopify'',
      conn_status = ''connected'', conn_credentials = JNull, conn_metadata = JNull,
      conn_lastSyncAt = Some 5, conn_createdAt = 5, conn_updatedAt = 5\<rparr>"

definition posthogRow :: integration_row where
  "posthogRow =
     \<lparr>conn_id = 1, conn_sessionId = ''s1'', conn_integrationName = ''posthog'',
      conn_status = ''disconnected'', conn_credentials = JNull, conn_metadata = JNull,
      conn_lastSyncAt = Some 6, conn_createdAt = 6, conn_updatedAt = 7\<rparr>"

definition registryWorld :: world where
  "registryWorld = initialWorld\<lparr>integrationConnectionsT := [shopifyRow, posthogRow], nextId := 2\<rparr>"

definition timeout :: thrown where
  "timeout =
     ErrorObj \<lparr>err_message = ''canceling statement due to statement timeout'',
               err_code = Some ''57014'', err_errno = None\<rparr>"

definition failingWorld :: world where
  "failingWorld = initialWorld\<lparr>faults := [Some timeout]\<rparr>"

definition exampleSession :: new_session where
  "exampleSession =
     \<lparr>ns_id = ''router-agent-persistent'', ns_agentType = ''router-agent'',
      ns_agentName = ''router-agent-persistent'', ns_metadata = JNull\<rparr>"

definition userMessage :: chat_message where
  "userMessage = \<lparr>cm_role = ''user'', cm_content = Text ''hello'', cm_id = ClientId ''m1''\<rparr>"

definition assistantMessage :: chat_message where
  "assistantMessage =
     \<lparr>cm_role = ''assistant'', cm_content = Structured ''[]'', cm_id = ClientId ''m2''\<rparr>"

definition exampleAgent :: "agent_class \<Rightarrow> chat_message list \<Rightarrow> agent" where
  "exampleAgent cls transcript =
     \<lparr>this_class = cls, this_dbManager = Some exampleManager, this_dbOps = Some exampleOps,
      this_sessionId = cls_agentType cls @ ''-persistent'', this_systemPrompt = [],
      this_messages = transcript\<rparr>"

definition exampleResult :: gen_result where
  "exampleResult = \<lparr>res_text = ''hi'', res_finishReason = ''stop'', res_usage = JNull\<rparr>"

definition storedRow :: "nat \<Rightarrow> string \<Rightarrow> string \<Rightarrow> string \<Rightarrow> nat \<Rightarrow> message_row" where
  "storedRow i agentType role text createdAt =
     \<lparr>msg_id = i, msg_agentType = agentType, msg_sessionId = agentType @ ''-persistent'',
      msg_role = role, msg_content = Text text, msg_metadata = JNull,
      msg_createdAt = createdAt\<rparr>"

definition historyWorld :: world where
  "historyWorld =
     initialWorld
       \<lparr>messagesT :=
          [storedRow 0 ''router-agent'' ''user'' ''first'' 10,
           storedRow 1 ''campaign-agent'' ''user'' ''other'' 15,
           storedRow 2 ''router-agent'' ''assistant'' ''second'' 20],
        nextId := 3\<rparr>"

definition earliestFirst :: "nat list \<Rightarrow> nat list" where
  "earliestFirst keys = rev (sort_key (\<lambda>i. keys ! i) (rev [0..<length keys]))"

definition newMessage :: "string \<Rightarrow> string \<Rightarrow> new_message" where
  "newMessage role text =
     \<lparr>nm_agentType = ''router-agent'', nm_sessionId = ''router-agent-persistent'',
      nm_role = role, nm_content = Text text, nm_metadata = JNull\<rparr>"

definition tiedWorld :: world where
  "tiedWorld =
     snd (saveMessage exampleOps (newMessage ''assistant'' ''second'') 100
       (snd (saveMessage exampleOps (newMessage ''user'' ''first'') 100
          (initialWorld\<lparr>tieOrder := earliestFirst\<rparr>))))"

definition clockFrom :: "nat \<Rightarrow> nat \<Rightarrow> nat" where
  "clockFrom t i = t + i"

definition closedOnce :: "agent \<times> world" where
  "closedOnce = onClose (exampleAgent CampaignAgent [userMessage]) (clockFrom 100) initialWorld"

definition closedAgain :: "agent \<times> world" where
  "closedAgain =
     onClose ((fst closedOnce)\<lparr>this_messages := [userMessage, assistantMessage]\<rparr>)
       (clockFrom 200) (snd closedOnce)"

section \<open>Auxiliary facts\<close>

subsection \<open>What every listing of \<open>ORDER BY ... DESC\<close> has in common\<close>

text \<open>Whatever the database chooses, the listing holds the given rows, each as often as
  given, with the keys descending; rows with strictly increasing keys leave no choice.\<close>

lemma mset_orderByDesc: "mset (orderByDesc choice key rows) = mset rows"
proof (cases "listsDesc (map key rows) (choice (map key rows))")
  case True
  then have "mset (choice (map key rows)) = mset [0..<length rows]"
    by (simp add: listsDesc_def)
  then have "mset (map (\<lambda>i. rows ! i) (choice (map key rows))) = mset (map (\<lambda>i. rows ! i) [0..<length rows])"
    by (metis mset_map)
  then show ?thesis using True by (simp add: orderByDesc_def map_nth)
next
  case False
  then show ?thesis by (simp add: orderByDesc_def)
qed

lemma set_orderByDesc [simp]: "set (orderByDesc choice key rows) = set rows"
  using mset_orderByDesc [of choice key rows] by (rule mset_eq_setD)

lemma length_orderByDesc [simp]: "length (orderByDesc choice key rows) = length rows"
  using mset_orderByDesc [of choice key rows] by (rule mset_eq_length)

lemma orderByDesc_Nil [simp]: "orderByDesc choice key [] = []"
  by (metis length_orderByDesc length_0_conv list.size(3))

lemma list_ex_orderByDesc_filter:
  "list_ex P (orderByDesc choice key (filter Q rows)) = list_ex (\<lambda>r. Q r \<and> P r) rows"
  by (auto simp add: list_ex_iff)

lemma orderByDesc_descending:
  "sorted_wrt (\<lambda>a b. key b \<le> key a) (orderByDesc choice key rows)"
proof (cases "listsDesc (map key rows) (choice (map key rows))")
  case True
  let ?ps = "choice (map key rows)"
  from True have m: "mset ?ps = mset [0..<length rows]"
    and s: "sorted_wrt (\<lambda>i j. map key rows ! j \<le> map key rows ! i) ?ps"
    by (simp_all add: listsDesc_def)
  from m have "set ?ps = set [0..<length rows]" by (rule mset_eq_setD)
  then have inr: "\<And>i. i \<in> set ?ps \<Longrightarrow> i < length rows" by simp
  have "sorted_wrt (\<lambda>i j. key (rows ! j) \<le> key (rows ! i)) ?ps"
    by (rule sorted_wrt_mono_rel [OF _ s]) (simp add: inr)
  then have "sorted_wrt (\<lambda>a b. key b \<le> key a) (map (\<lambda>i. rows ! i) ?ps)"
    by (simp add: sorted_wrt_map)
  then show ?thesis using True by (simp add: orderByDesc_def)
next
  case False
  have "sorted (map key (sort_key key rows))" by simp
  then have "sorted_wrt (\<lambda>a b. key a \<le> key b) (sort_key key rows)"
    by (simp add: sorted_wrt_map)
  then have "sorted_wrt (\<lambda>a b. key b \<le> key a) (rev (sort_key key rows))"
    by (simp add: sorted_wrt_rev)
  then show ?thesis using False by (simp add: orderByDesc_def)
qed

lemma descending_unique:
  fixes key :: "'a \<Rightarrow> nat"
  assumes strict: "sorted_wrt (<) (map key rows)"
    and perm: "mset out = mset rows"
    and desc: "sorted_wrt (\<lambda>a b. key b \<le> key a) out"
  shows "out = rev rows"
proof -
  have "sorted_wrt (\<lambda>a b. key a \<le> key b) (rev out)"
    using desc by (simp add: sorted_wrt_rev)
  then have s1: "sorted (map key (rev out))" by (simp add: sorted_wrt_map)
  from strict have s2: "sorted (map key rows)" and d: "distinct (map key rows)"
    by (simp_all add: strict_sorted_iff)
  have m: "mset (map key (rev out)) = mset (map key rows)"
    using perm by simp
  have "sort (map key rows) = map key (rev out)"
    using m s1 by (rule properties_for_sort)
  then have keys: "map key (rev out) = map key rows"
    using s2 by (simp add: sorted_sort_id)
  have "set out = set rows" using perm by (rule mset_eq_setD)
  then have "set (rev out) = set rows" by simp
  moreover have "inj_on key (set rows)" using d by (simp add: distinct_map)
  ultimately have "inj_on key (set (rev out) \<union> set rows)" by simp
  then have "rev out = rows" using keys by (simp add: inj_on_map_eq_map)
  then show ?thesis by (metis rev_rev_ident)
qed

lemma orderByDesc_distinct:
  fixes key :: "'a \<Rightarrow> nat"
  assumes "sorted_wrt (<) (map key rows)"
  shows "orderByDesc choice key rows = rev rows"
  using assms mset_orderByDesc orderByDesc_descending by (rule descending_unique)

subsection \<open>Queries and the integration registry\<close>

lemma query_runs:
  "h \<notin> set (ended w) \<Longrightarrow> faults w = [] \<Longrightarrow> query h run w = (Inr (fst (run w)), snd (run w))"
  by (simp add: query_def split: prod.splits)

lemma query_rejects:
  "h \<notin> set (ended w) \<Longrightarrow> faults w = Some e # fs \<Longrightarrow> query h run w = (Inl e, w\<lparr>faults := fs\<rparr>)"
  by (simp add: query_def)

lemma query_passes:
  "h \<notin> set (ended w) \<Longrightarrow> faults w = None # fs \<Longrightarrow>
   query h run w = (Inr (fst (run (w\<lparr>faults := fs\<rparr>))), snd (run (w\<lparr>faults := fs\<rparr>)))"
  by (simp add: query_def split: prod.splits)

lemma query_ended:
  "h \<in> set (ended w) \<Longrightarrow> query h run w = (Inl CONNECTION_ENDED, w)"
  by (simp add: query_def)

lemma map_if_not_matching:
  "filter P xs = [] \<Longrightarrow> map (\<lambda>r. if P r then f r else r) xs = xs"
  by (induction xs) (auto split: if_splits)

lemma filter_map_if:
  "(\<And>r. P r \<Longrightarrow> P (f r)) \<Longrightarrow>
   filter P (map (\<lambda>r. if P r then f r else r) xs) = map f (filter P xs)"
  by (induction xs) auto

lemma connectIntegration_inserts:
  assumes "ops_db dbo \<notin> set (ended w)" and "faults w = []"
    and "filter (matches S X) (integrationConnectionsT w) = []"
  shows "connectIntegration dbo S X meta now w =
     (Inr [connected_row (nextId w) S X meta now],
      w\<lparr>integrationConnectionsT := integrationConnectionsT w @ [connected_row (nextId w) S X meta now],
        nextId := Suc (nextId w)\<rparr>)"
  using assms
  by (simp add: connectIntegration_def getIntegrationConnection_def query_runs
      saveIntegrationConnection_def connected_row_def Let_def)

lemma connectIntegration_updates:
  assumes "ops_db dbo \<notin> set (ended w)" and "faults w = []"
    and "filter (matches S X) (integrationConnectionsT w) \<noteq> []"
  shows "connectIntegration dbo S X meta now w =
     (Inr (map (applyUpdates \<lparr>upd_status = Some ''connected'', upd_lastSyncAt = Some now, upd_metadata = meta\<rparr> now)
             (filter (matches S X) (integrationConnectionsT w))),
      w\<lparr>integrationConnectionsT :=
          map (\<lambda>r. if matches S X r
                    then applyUpdates \<lparr>upd_status = Some ''connected'', upd_lastSyncAt = Some now, upd_metadata = meta\<rparr> now r
                    else r) (integrationConnectionsT w)\<rparr>)"
proof -
  obtain r rs where "filter (matches S X) (integrationConnectionsT w) = r # rs"
    using assms(3) by (cases "filter (matches S X) (integrationConnectionsT w)") auto
  then show ?thesis
    using assms(1,2)
    by (simp add: connectIntegration_def getIntegrationConnection_def query_runs
      updateIntegrationConnection_def updateWhere_def)
qed

lemma matches_applyUpdates [simp]: "matches S X (applyUpdates u now r) = matches S X r"
  by (simp add: matches_def applyUpdates_def)

lemma filter_not_map_if:
  "(\<And>r. P r \<Longrightarrow> P (f r)) \<Longrightarrow>
   filter (\<lambda>r. \<not> P r) (map (\<lambda>r. if P r then f r else r) xs) = filter (\<lambda>r. \<not> P r) xs"
  by (induction xs) auto

lemma connectIntegration_once:
  assumes live: "ops_db dbo \<notin> set (ended w)" and ok: "faults w = []"
    and uniq: "length (filter (matches S X) (integrationConnectionsT w)) \<le> 1"
  shows "(\<exists>row. filter (matches S X)
                   (integrationConnectionsT (snd (connectIntegration dbo S X meta now w))) = [row]
              \<and> conn_status row = ''connected'' \<and> conn_lastSyncAt row = Some now)
       \<and> faults (snd (connectIntegration dbo S X meta now w)) = []
       \<and> ended (snd (connectIntegration dbo S X meta now w)) = ended w
       \<and> filter (\<lambda>r. \<not> matches S X r)
            (integrationConnectionsT (snd (connectIntegration dbo S X meta now w)))
          = filter (\<lambda>r. \<not> matches S X r) (integrationConnectionsT w)"
proof (cases "filter (matches S X) (integrationConnectionsT w)")
  case Nil
  have m: "matches S X (connected_row (nextId w) S X meta now)"
    by (simp add: matches_def connected_row_def)
  show ?thesis
    using Nil m by (simp add: connectIntegration_inserts [OF live ok Nil] ok connected_row_def)
next
  case (Cons r rs)
  with uniq have rs: "rs = []" by simp
  let ?u = "\<lparr>upd_status = Some ''connected'', upd_lastSyncAt = Some now, upd_metadata = meta\<rparr>"
  have ne: "filter (matches S X) (integrationConnectionsT w) \<noteq> []" using Cons by simp
  have f: "filter (matches S X)
             (map (\<lambda>r. if matches S X r then applyUpdates ?u now r else r) (integrationConnectionsT w))
           = map (applyUpdates ?u now) (filter (matches S X) (integrationConnectionsT w))"
    by (rule filter_map_if) simp
  have g: "filter (\<lambda>r. \<not> matches S X r)
             (map (\<lambda>r. if matches S X r then applyUpdates ?u now r else r) (integrationConnectionsT w))
           = filter (\<lambda>r. \<not> matches S X r) (integrationConnectionsT w)"
    by (rule filter_not_map_if) simp
  show ?thesis
    using Cons rs by (simp add: connectIntegration_updates [OF live ok ne] ok f g applyUpdates_def)
qed

subsection \<open>The retry loops\<close>

text \<open>The loops are unfolded one attempt at a time.\<close>

declare createSession_from.simps [simp del] getAgentMessages_from.simps [simp del]

lemma console_fields [simp]:
  "sleeps (console_warn s w) = sleeps w" "sleeps (console_error s w) = sleeps w"
  "sleeps (console_log s w) = sleeps w"
  "faults (console_warn s w) = faults w" "faults (console_error s w) = faults w"
  "faults (console_log s w) = faults w"
  "ended (console_warn s w) = ended w" "ended (console_error s w) = ended w"
  "ended (console_log s w) = ended w"
  "messagesT (console_warn s w) = messagesT w" "messagesT (console_error s w) = messagesT w"
  "messagesT (console_log s w) = messagesT w"
  "sessionsT (console_warn s w) = sessionsT w" "sessionsT (console_error s w) = sessionsT w"
  "sessionsT (console_log s w) = sessionsT w"
  "integrationConnectionsT (console_warn s w) = integrationConnectionsT w"
  "integrationConnectionsT (console_error s w) = integrationConnectionsT w"
  "integrationConnectionsT (console_log s w) = integrationConnectionsT w"
  "nextId (console_warn s w) = nextId w" "nextId (console_error s w) = nextId w"
  "nextId (console_log s w) = nextId w"
  "tieOrder (console_warn s w) = tieOrder w" "tieOrder (console_error s w) = tieOrder w"
  "tieOrder (console_log s w) = tieOrder w"
  by (simp_all add: console_warn_def console_error_def console_log_def)

lemma setTimeout_fields [simp]:
  "sleeps (setTimeout ms w) = sleeps w @ [ms]"
  "faults (setTimeout ms w) = faults w"
  "ended (setTimeout ms w) = ended w"
  "messagesT (setTimeout ms w) = messagesT w"
  "sessionsT (setTimeout ms w) = sessionsT w"
  "tieOrder (setTimeout ms w) = tieOrder w"
  by (simp_all add: setTimeout_def)

lemma findAgentMessages_frame [simp]:
  "findAgentMessages agentType limit (w\<lparr>faults := fs\<rparr>) = findAgentMessages agentType limit w"
  "findAgentMessages agentType limit (setTimeout ms w) = findAgentMessages agentType limit w"
  "findAgentMessages agentType limit (console_warn s w) = findAgentMessages agentType limit w"
  "findAgentMessages agentType limit (console_log s w) = findAgentMessages agentType limit w"
  "findAgentMessages agentType limit (console_error s w) = findAgentMessages agentType limit w"
  by (simp_all add: findAgentMessages_def)

lemma createSession_from_retries:
  assumes "ops_db dbo \<notin> set (ended w)" and "faults w = Some e # fs"
    and "attempt < maxRetries" and "isConnectionEnded e"
  shows "createSession_from attempt dbo data now w =
         createSession_from (attempt + 1) dbo data now
           (setTimeout (100 * attempt)
              (console_warn ''Error creating session (attempt):'' (w\<lparr>faults := fs\<rparr>)))"
  using assms
  by (subst createSession_from.simps) (simp add: query_rejects Let_def)

lemma createSession_from_gives_up:
  assumes "ops_db dbo \<notin> set (ended w)" and "faults w = Some e # fs"
    and "attempt \<le> maxRetries" and "\<not> (attempt < maxRetries \<and> isConnectionEnded e)"
  shows "createSession_from attempt dbo data now w =
         (None, console_error ''Final error creating session:''
                  (console_warn ''Error creating session (attempt):'' (w\<lparr>faults := fs\<rparr>)))"
  using assms
  by (subst createSession_from.simps) (auto simp add: query_rejects Let_def)

lemma createSession_from_succeeds:
  assumes "ops_db dbo \<notin> set (ended w)" and "faults w = None # fs"
    and "attempt \<le> maxRetries"
  shows "createSession_from attempt dbo data now w =
         (Some (fst (upsertSession data now (w\<lparr>faults := fs\<rparr>))),
          snd (upsertSession data now (w\<lparr>faults := fs\<rparr>)))"
  using assms
  by (subst createSession_from.simps) (simp add: query_passes Let_def)

lemma getAgentMessages_from_retries:
  assumes "ops_db dbo \<notin> set (ended w)" and "faults w = Some e # fs"
    and "attempt < maxRetries" and "isConnectionEnded e"
  shows "getAgentMessages_from attempt dbo agentType limit w =
         getAgentMessages_from (attempt + 1) dbo agentType limit
           (setTimeout (100 * attempt)
              (console_warn ''Error getting agent messages (attempt):'' (w\<lparr>faults := fs\<rparr>)))"
  using assms
  by (subst getAgentMessages_from.simps) (simp add: query_rejects Let_def)

lemma getAgentMessages_from_gives_up:
  assumes "ops_db dbo \<notin> set (ended w)" and "faults w = Some e # fs"
    and "attempt \<le> maxRetries" and "\<not> (attempt < maxRetries \<and> isConnectionEnded e)"
  shows "getAgentMessages_from attempt dbo agentType limit w =
         (Inl e, console_warn ''Error getting agent messages (attempt):'' (w\<lparr>faults := fs\<rparr>))"
  using assms
  by (subst getAgentMessages_from.simps) (auto simp add: query_rejects Let_def)

lemma getAgentMessages_from_succeeds:
  assumes "ops_db dbo \<notin> set (ended w)" and "faults w = None # fs \<or> faults w = []"
    and "attempt \<le> maxRetries"
  shows "getAgentMessages_from attempt dbo agentType limit w =
         (Inr (findAgentMessages agentType limit w), w\<lparr>faults := tl (faults w)\<rparr>)"
  using assms
  by (subst getAgentMessages_from.simps) (auto simp add: query_passes query_runs Let_def)

lemma maxRetries_facts: "Suc 0 < maxRetries" "Suc 0 \<le> maxRetries" "Suc (Suc 0) \<le> maxRetries"
  "\<not> Suc (Suc 0) < maxRetries"
  by (simp_all add: maxRetries_def)

subsection \<open>The tool resolver\<close>

lemma Object_assign_lookup:
  "distinct (map fst src) \<Longrightarrow>
   map_of (Object_assign acc src) k = (case map_of src k of Some v \<Rightarrow> Some v | None \<Rightarrow> map_of acc k)"
proof (induction src arbitrary: acc)
  case Nil
  then show ?case by (simp add: Object_assign_def)
next
  case (Cons p src)
  obtain a b where p: "p = (a, b)" by (cases p)
  have step: "Object_assign acc ((a, b) # src) = Object_assign (AList.update a b acc) src"
    by (simp add: Object_assign_def)
  from Cons.prems have d: "distinct (map fst src)" and n: "a \<notin> fst ` set src"
    by (simp_all add: p)
  from n have none: "map_of src a = None" by (simp add: map_of_eq_None_iff)
  show ?case
    using Cons.IH [OF d, of "AList.update a b acc"] none
    by (auto simp add: step p update_conv' split: option.splits)
qed

lemma fold_assign_lookup:
  assumes "\<forall>X\<in>set names. distinct (map fst (B X))"
    and "\<forall>X\<in>set names. \<forall>k v. map_of (B X) k = Some v \<longrightarrow> G k = Some v"
  shows "map_of (fold (\<lambda>X acc. if c X then Object_assign acc (B X) else acc) names acc) k =
         (if \<exists>X\<in>set names. c X \<and> map_of (B X) k \<noteq> None then G k else map_of acc k)"
  using assms
proof (induction names arbitrary: acc)
  case Nil
  then show ?case by simp
next
  case (Cons X names)
  have d: "distinct (map fst (B X))" using Cons.prems(1) by simp
  have g: "\<And>v. map_of (B X) k = Some v \<Longrightarrow> G k = Some v" using Cons.prems(2) by simp
  have ih: "\<And>acc. map_of (fold (\<lambda>X acc. if c X then Object_assign acc (B X) else acc) names acc) k =
         (if \<exists>X\<in>set names. c X \<and> map_of (B X) k \<noteq> None then G k else map_of acc k)"
    using Cons.IH Cons.prems by simp
  show ?case
    using g by (auto simp add: ih Object_assign_lookup [OF d] split: option.splits)
qed

lemma sameEnv_refl [simp]: "sameEnv w w"
  by (simp add: sameEnv_def)

lemma sameEnv_console [simp]: "sameEnv (console_log s w) w0 = sameEnv w w0"
  by (simp add: sameEnv_def)

lemma checkConnected_decision:
  "sameEnv w w0 \<Longrightarrow>
   fst (checkConnected sessionId dbOps X w) = fst (checkConnected sessionId dbOps X w0)"
  by (auto simp add: sameEnv_def checkConnected_def getSessionIntegrations_def query_def
      list_ex_orderByDesc_filter split: option.splits list.splits prod.splits sum.splits)

lemma checkConnected_stable:
  "stable sessionId dbOps w0 \<Longrightarrow> sameEnv w w0 \<Longrightarrow>
   sameEnv (snd (checkConnected sessionId dbOps X w)) w0"
  by (auto simp add: sameEnv_def stable_def checkConnected_def getSessionIntegrations_def query_def
      split: option.splits list.splits prod.splits sum.splits)

lemma getToolsByIntegration_own:
  "js_get integrations X = Own i \<Longrightarrow>
   getToolsByIntegration X w = (Inr (toolBundle X), console_log ''Found tools for integration'' w)"
  by (simp add: getToolsByIntegration_def toolBundle_def)

lemma forIntegrationNames_stable:
  assumes "stable sessionId dbOps w0"
    and "\<forall>X\<in>set names. \<exists>i. js_get integrations X = Own i"
    and "sameEnv w w0"
  shows "fst (forIntegrationNames sessionId dbOps names acc w) =
         Inr (fold (\<lambda>X acc. if fst (checkConnected sessionId dbOps X w0)
                             then Object_assign acc (toolBundle X) else acc) names acc)"
  using assms(2,3)
proof (induction names arbitrary: acc w)
  case Nil
  then show ?case by simp
next
  case (Cons X names)
  obtain c w1 where cc: "checkConnected sessionId dbOps X w = (c, w1)"
    by (cases "checkConnected sessionId dbOps X w")
  have c: "c = fst (checkConnected sessionId dbOps X w0)"
    using checkConnected_decision [OF Cons.prems(2), of sessionId dbOps X] by (simp add: cc)
  have s1: "sameEnv w1 w0"
    using checkConnected_stable [OF assms(1) Cons.prems(2), of X] by (simp add: cc)
  obtain i where i: "js_get integrations X = Own i" using Cons.prems(1) by auto
  have rest: "\<forall>X\<in>set names. \<exists>i. js_get integrations X = Own i" using Cons.prems(1) by simp
  show ?case
  proof (cases c)
    case True
    then show ?thesis
      using Cons.IH [OF rest, of "console_log ''Added tools from integration''
                                   (console_log ''Found tools for integration'' w1)"] s1 c
      by (simp add: cc getToolsByIntegration_own [OF i])
  next
    case False
    then show ?thesis
      using Cons.IH [OF rest, of "console_log ''Skipping integration - not connected for session'' w1"] s1 c
      by (simp add: cc)
  qed
qed

lemma getAllTools_eq: "getAllTools = googleAdsTools @ shopifyTools @ posthogTools"
  by (simp add: getAllTools_def Object_assign_def googleAdsTools_def shopifyTools_def posthogTools_def exported_def)

lemma toolBundle_google_ads:
  "toolBundle ''google-ads'' =
     [(''getGoogleAdsPaymentInfo'', \<lparr>tool_key = ''getPaymentInfo'', tool_name = Some ''getGoogleAdsPaymentInfo''\<rparr>),
      (''getGoogleAdsCampaigns'', \<lparr>tool_key = ''getCampaigns'', tool_name = Some ''getGoogleAdsCampaigns''\<rparr>),
      (''getGoogleAdsKeywords'', \<lparr>tool_key = ''getKeywords'', tool_name = Some ''getGoogleAdsKeywords''\<rparr>),
      (''getGoogleAdsAudienceInsights'', \<lparr>tool_key = ''getAudienceInsights'', tool_name = Some ''getGoogleAdsAudienceInsights''\<rparr>),
      (''getGoogleAdsCompetitorAnalysis'', \<lparr>tool_key = ''getCompetitorAnalysis'', tool_name = Some ''getGoogleAdsCompetitorAnalysis''\<rparr>)]"
  by (simp add: toolBundle_def getToolsByIntegration_def js_get_def integrations_def addByName_def
      getAllTools_eq googleAdsTools_def shopifyTools_def posthogTools_def exported_def)

lemma toolBundle_shopify:
  "toolBundle ''shopify'' =
     [(''getShopifyStoreStats'', \<lparr>tool_key = ''getStoreStats'', tool_name = Some ''getShopifyStoreStats''\<rparr>),
      (''getShopifyInventory'', \<lparr>tool_key = ''getInventory'', tool_name = Some ''getShopifyInventory''\<rparr>),
      (''getShopifyOrders'', \<lparr>tool_key = ''getOrders'', tool_name = Some ''getShopifyOrders''\<rparr>),
      (''getShopifyCustomers'', \<lparr>tool_key = ''getCustomers'', tool_name = Some ''getShopifyCustomers''\<rparr>),
      (''getShopifyProducts'', \<lparr>tool_key = ''getProducts'', tool_name = Some ''getShopifyProducts''\<rparr>),
      (''getShopifyAnalytics'', \<lparr>tool_key = ''getAnalytics'', tool_name = Some ''getShopifyAnalytics''\<rparr>)]"
  by (simp add: toolBundle_def getToolsByIntegration_def js_get_def integrations_def addByName_def
      getAllTools_eq googleAdsTools_def shopifyTools_def posthogTools_def exported_def)

lemma toolBundle_posthog:
  "toolBundle ''posthog'' =
     [(''getPostHogEvents'', \<lparr>tool_key = ''getEvents'', tool_name = Some ''getPostHogEvents''\<rparr>),
      (''getPostHogFunnelAnalysis'', \<lparr>tool_key = ''getFunnelAnalysis'', tool_name = Some ''getPostHogFunnelAnalysis''\<rparr>),
      (''getPostHogCohortAnalysis'', \<lparr>tool_key = ''getCohortAnalysis'', tool_name = Some ''getPostHogCohortAnalysis''\<rparr>),
      (''getPostHogUserSegments'', \<lparr>tool_key = ''getUserSegments'', tool_name = Some ''getPostHogUserSegments''\<rparr>),
      (''getPostHogFeatureFlags'', \<lparr>tool_key = ''getFeatureFlags'', tool_name = Some ''getPostHogFeatureFlags''\<rparr>),
      (''getPostHogInsights'', \<lparr>tool_key = ''getInsights'', tool_name = Some ''getPostHogInsights''\<rparr>)]"
  by (simp add: toolBundle_def getToolsByIntegration_def js_get_def integrations_def addByName_def
      getAllTools_eq googleAdsTools_def shopifyTools_def posthogTools_def exported_def)

lemmas toolBundles = toolBundle_google_ads toolBundle_shopify toolBundle_posthog

lemma known_own: "X \<in> known \<Longrightarrow> \<exists>i. js_get integrations X = Own i"
  by (auto simp add: known_def js_get_def integrations_def)

lemma known_distinct: "X \<in> known \<Longrightarrow> distinct (map fst (toolBundle X))"
  by (auto simp add: known_def toolBundles)

lemma google_ads_keys: "map_of (toolBundle ''google-ads'') k = Some v \<Longrightarrow> k ! 3 = CHR ''G''"
  by (simp add: toolBundles split: if_splits)

lemma shopify_keys: "map_of (toolBundle ''shopify'') k = Some v \<Longrightarrow> k ! 3 = CHR ''S''"
  by (simp add: toolBundles split: if_splits)

lemma posthog_keys: "map_of (toolBundle ''posthog'') k = Some v \<Longrightarrow> k ! 3 = CHR ''P''"
  by (simp add: toolBundles split: if_splits)

lemma known_disjoint:
  assumes "X \<in> known" and "Y \<in> known" and "map_of (toolBundle X) k = Some v"
    and "map_of (toolBundle Y) k = Some v'"
  shows "X = Y"
proof -
  have x: "X = ''google-ads'' \<and> k ! 3 = CHR ''G'' \<or> X = ''shopify'' \<and> k ! 3 = CHR ''S''
           \<or> X = ''posthog'' \<and> k ! 3 = CHR ''P''"
    using assms(1,3) google_ads_keys shopify_keys posthog_keys unfolding known_def by blast
  have y: "Y = ''google-ads'' \<and> k ! 3 = CHR ''G'' \<or> Y = ''shopify'' \<and> k ! 3 = CHR ''S''
           \<or> Y = ''posthog'' \<and> k ! 3 = CHR ''P''"
    using assms(2,4) google_ads_keys shopify_keys posthog_keys unfolding known_def by blast
  from x y show ?thesis by auto
qed

lemma checkConnected_answered:
  assumes "sid \<noteq> []" and "ops_db ops \<notin> set (ended w)"
    and "faults w = [] \<or> (\<exists>fs. faults w = None # fs)"
  shows "fst (checkConnected (Some sid) (Some ops) X w) = reportsConnected w sid X"
  using assms
  by (auto simp add: checkConnected_def getSessionIntegrations_def query_def reportsConnected_def
      list_ex_orderByDesc_filter conj_ac)

lemma checkConnected_thrown:
  assumes "sid \<noteq> []" and "ops_db ops \<in> set (ended w) \<or> (\<exists>e fs. faults w = Some e # fs)"
  shows "fst (checkConnected (Some sid) (Some ops) X w)"
  using assms
  by (auto simp add: checkConnected_def getSessionIntegrations_def query_def)

lemma checkConnected_no_context:
  assumes "sessionId = None \<or> sessionId = Some [] \<or> dbOps = None"
  shows "fst (checkConnected sessionId dbOps X w)"
  using assms
  by (auto simp add: checkConnected_def split: option.splits)

lemma agentToolMappings_own:
  assumes "js_get agentToolMappings agentType = Own names"
  shows "set names \<subseteq> known"
  using assms
  by (auto simp add: js_get_def agentToolMappings_def known_def split: if_splits)

lemma getToolsForAgent_stable:
  assumes own: "js_get agentToolMappings agentType = Own names"
    and st: "stable sessionId dbOps w"
  shows "\<exists>ts. fst (getToolsForAgent agentType sessionId dbOps w) = Inr ts
       \<and> (\<forall>X\<in>set names. \<forall>k v. map_of (toolBundle X) k = Some v \<longrightarrow>
             map_of ts k = (if fst (checkConnected sessionId dbOps X w) then Some v else None))
       \<and> (\<forall>k. map_of ts k \<noteq> None \<longrightarrow> (\<exists>X\<in>set names. map_of (toolBundle X) k \<noteq> None))"
proof -
  let ?c = "\<lambda>X. fst (checkConnected sessionId dbOps X w)"
  let ?ts = "fold (\<lambda>X acc. if ?c X then Object_assign acc (toolBundle X) else acc) names []"
  define G where "G = (\<lambda>k. if \<exists>X\<in>known. map_of (toolBundle X) k \<noteq> None
                 then map_of (toolBundle (SOME X. X \<in> known \<and> map_of (toolBundle X) k \<noteq> None)) k
                 else None)"
  have kn: "set names \<subseteq> known" by (rule agentToolMappings_own [OF own])
  have owns: "\<forall>X\<in>set names. \<exists>i. js_get integrations X = Own i"
    using kn known_own by blast
  have loop: "fst (forIntegrationNames sessionId dbOps names [] w) = Inr ?ts"
    by (rule forIntegrationNames_stable [OF st owns]) simp
  obtain r w1 where run: "forIntegrationNames sessionId dbOps names [] w = (r, w1)"
    by (cases "forIntegrationNames sessionId dbOps names [] w")
  have res: "fst (getToolsForAgent agentType sessionId dbOps w) = Inr ?ts"
    using loop
    by (simp add: getToolsForAgent_def own convertToolsToAISDKFormat_def run)
  have G: "\<And>X k v. X \<in> known \<Longrightarrow> map_of (toolBundle X) k = Some v \<Longrightarrow> G k = Some v"
  proof -
    fix X k v assume X: "X \<in> known" and v: "map_of (toolBundle X) k = Some v"
    let ?Y = "SOME X. X \<in> known \<and> map_of (toolBundle X) k \<noteq> None"
    have ex: "\<exists>X. X \<in> known \<and> map_of (toolBundle X) k \<noteq> None" using X v by auto
    have Y: "?Y \<in> known \<and> map_of (toolBundle ?Y) k \<noteq> None" by (rule someI_ex [OF ex])
    then obtain v' where "map_of (toolBundle ?Y) k = Some v'" by auto
    with Y X v have "?Y = X" using known_disjoint by blast
    then show "G k = Some v" using ex v by (auto simp add: G_def)
  qed
  have lookup: "\<And>k. map_of ?ts k =
      (if \<exists>X\<in>set names. ?c X \<and> map_of (toolBundle X) k \<noteq> None then G k else map_of [] k)"
    by (rule fold_assign_lookup) (use kn known_distinct G in blast)+
  have incl: "\<forall>X\<in>set names. \<forall>k v. map_of (toolBundle X) k = Some v \<longrightarrow>
             map_of ?ts k = (if ?c X then Some v else None)"
  proof (intro ballI allI impI)
    fix X k v assume X: "X \<in> set names" and v: "map_of (toolBundle X) k = Some v"
    have Xk: "X \<in> known" using X kn by auto
    show "map_of ?ts k = (if ?c X then Some v else None)"
    proof (cases "?c X")
      case True
      then have "\<exists>X\<in>set names. ?c X \<and> map_of (toolBundle X) k \<noteq> None" using X v by auto
      then show ?thesis using True G [OF Xk v] by (simp add: lookup)
    next
      case False
      have "\<not> (\<exists>Y\<in>set names. ?c Y \<and> map_of (toolBundle Y) k \<noteq> None)"
      proof
        assume "\<exists>Y\<in>set names. ?c Y \<and> map_of (toolBundle Y) k \<noteq> None"
        then obtain Y v' where Y: "Y \<in> set names" "?c Y" "map_of (toolBundle Y) k = Some v'"
          by auto
        then have "Y = X" using known_disjoint [of Y X k v' v] kn Xk v by auto
        with Y False show False by simp
      qed
      then show ?thesis using False by (auto simp add: lookup)
    qed
  qed
  have only: "\<forall>k. map_of ?ts k \<noteq> None \<longrightarrow> (\<exists>X\<in>set names. map_of (toolBundle X) k \<noteq> None)"
    by (auto simp add: lookup split: if_splits)
  show ?thesis using res incl only by blast
qed

subsection \<open>What a chat turn leaves unchanged, and what it writes\<close>

lemma getSessionIntegrations_frame:
  "messagesT (snd (getSessionIntegrations ops sid w)) = messagesT w"
  "sessionsT (snd (getSessionIntegrations ops sid w)) = sessionsT w"
  "ended (snd (getSessionIntegrations ops sid w)) = ended w"
  by (auto simp add: getSessionIntegrations_def query_def split: list.splits option.splits)

lemma checkConnected_frame:
  "messagesT (snd (checkConnected sessionId dbOps X w)) = messagesT w"
  "ended (snd (checkConnected sessionId dbOps X w)) = ended w"
proof -
  have "messagesT (snd (checkConnected sessionId dbOps X w)) = messagesT w \<and>
        ended (snd (checkConnected sessionId dbOps X w)) = ended w"
  proof (cases sessionId)
    case None
    then show ?thesis by (simp add: checkConnected_def)
  next
    case (Some sid)
    show ?thesis
    proof (cases dbOps)
      case None
      then show ?thesis by (simp add: checkConnected_def Some)
    next
      case (Some ops)
      obtain r w1 where q: "getSessionIntegrations ops sid w = (r, w1)"
        by (cases "getSessionIntegrations ops sid w")
      have "messagesT w1 = messagesT w" "ended w1 = ended w"
        using getSessionIntegrations_frame [of ops sid w] by (simp_all add: q)
      then show ?thesis
        by (cases r) (simp_all add: checkConnected_def \<open>sessionId = Some sid\<close> Some q)
    qed
  qed
  then show "messagesT (snd (checkConnected sessionId dbOps X w)) = messagesT w"
    and "ended (snd (checkConnected sessionId dbOps X w)) = ended w" by simp_all
qed

lemma getToolsByIntegration_frame:
  "messagesT (snd (getToolsByIntegration X w)) = messagesT w"
  "ended (snd (getToolsByIntegration X w)) = ended w"
  by (auto simp add: getToolsByIntegration_def split: js_property.splits)

lemma forIntegrationNames_frame:
  "messagesT (snd (forIntegrationNames sessionId dbOps names acc w)) = messagesT w \<and>
   ended (snd (forIntegrationNames sessionId dbOps names acc w)) = ended w"
proof (induction names arbitrary: acc w)
  case Nil
  then show ?case by simp
next
  case (Cons X names)
  obtain c w1 where cc: "checkConnected sessionId dbOps X w = (c, w1)"
    by (cases "checkConnected sessionId dbOps X w")
  obtain r w2 where gt: "getToolsByIntegration X w1 = (r, w2)"
    by (cases "getToolsByIntegration X w1")
  have f1: "messagesT w1 = messagesT w" "ended w1 = ended w"
    using checkConnected_frame [of sessionId dbOps X w] by (simp_all add: cc)
  have f2: "messagesT w2 = messagesT w1" "ended w2 = ended w1"
    using getToolsByIntegration_frame [of X w1] by (simp_all add: gt)
  show ?case
    using Cons.IH f1 f2 by (cases c; cases r) (simp_all add: cc gt)
qed

lemma getToolsForAgent_frame:
  "messagesT (snd (getToolsForAgent agentType sessionId dbOps w)) = messagesT w"
  "ended (snd (getToolsForAgent agentType sessionId dbOps w)) = ended w"
proof -
  have "messagesT (snd (getToolsForAgent agentType sessionId dbOps w)) = messagesT w \<and>
        ended (snd (getToolsForAgent agentType sessionId dbOps w)) = ended w"
  proof (cases "js_get agentToolMappings agentType")
    case (Own names)
    obtain r w1 where run: "forIntegrationNames sessionId dbOps names [] w = (r, w1)"
      by (cases "forIntegrationNames sessionId dbOps names [] w")
    show ?thesis
      using forIntegrationNames_frame [of sessionId dbOps names "[]" w]
      by (cases r) (simp_all add: getToolsForAgent_def Own run convertToolsToAISDKFormat_def)
  qed (simp_all add: getToolsForAgent_def)
  then show "messagesT (snd (getToolsForAgent agentType sessionId dbOps w)) = messagesT w"
    and "ended (snd (getToolsForAgent agentType sessionId dbOps w)) = ended w" by simp_all
qed

lemma saveMessage_runs:
  assumes "ops_db ops \<notin> set (ended w)" and "faults w = []"
  shows "saveMessage ops data now w =
     (Some (fst (insertMessage data now w)), snd (insertMessage data now w))"
  using assms by (simp add: saveMessage_def query_runs)

lemma saveMessage_rejected:
  assumes "ops_db ops \<in> set (ended w)"
  shows "saveMessage ops data now w = (None, console_error ''Error saving message:'' w)"
  using assms by (simp add: saveMessage_def query_ended)

lemma insertMessage_fields [simp]:
  "messagesT (snd (insertMessage data now w)) =
     messagesT w @ [\<lparr>msg_id = nextId w, msg_agentType = nm_agentType data,
                 msg_sessionId = nm_sessionId data, msg_role = nm_role data,
                 msg_content = nm_content data, msg_metadata = nm_metadata data,
                 msg_createdAt = now\<rparr>]"
  "faults (snd (insertMessage data now w)) = faults w"
  "ended (snd (insertMessage data now w)) = ended w"
  "sessionsT (snd (insertMessage data now w)) = sessionsT w"
  "integrationConnectionsT (snd (insertMessage data now w)) = integrationConnectionsT w"
  by (simp_all add: insertMessage_def Let_def)

lemma below_threshold:
  assumes "length (this_messages this) \<le> 10"
  shows "saveUserMessage this t0 w = w"
    and "onFinish this result t1 w = w"
    and "messagesT (onExecuteError this error t1 w) = messagesT w"
  using assms
  by (simp_all add: saveUserMessage_def onFinish_def onExecuteError_def userGate_def replyGate_def
      Let_def split: option.splits)

lemma turn_below_threshold:
  assumes "length (this_messages this) \<le> 10"
  shows "messagesT (snd (onChatMessage this gen t0 t1 w)) = messagesT w"
proof -
  let ?g = "getToolsForAgent (cls_agentType (this_class this)) (Some (this_sessionId this))
              (this_dbOps this) w"
  obtain r w1 where g: "?g = (r, w1)" by (cases ?g)
  have m: "messagesT w1 = messagesT w"
    using getToolsForAgent_frame(1) [of "cls_agentType (this_class this)"
        "Some (this_sessionId this)" "this_dbOps this" w] by (simp add: g)
  show ?thesis
    using m below_threshold [OF assms]
    by (cases r; cases gen) (simp_all add: onChatMessage_def g Let_def)
qed

lemma getMessageCount_frame:
  assumes "faults w = []"
  shows "messagesT (snd (getMessageCount this w)) = messagesT w"
    and "faults (snd (getMessageCount this w)) = []"
    and "ended (snd (getMessageCount this w)) = ended w"
  using assms
  by (auto simp add: getMessageCount_def getSessionMessages_def query_def split: option.splits)

lemma updateSessionMetadata_frame:
  "messagesT (snd (updateSessionMetadata ops sid metadata now w)) = messagesT w"
  by (auto simp add: updateSessionMetadata_def query_def Let_def split: list.splits option.splits)

lemma onFinish_writes:
  assumes gate: "replyGate this" and ops: "this_dbOps this = Some ops"
    and live: "ops_db ops \<notin> set (ended w)" and ok: "faults w = []"
  shows "messagesT (onFinish this result t1 w) =
     messagesT w @
       [\<lparr>msg_id = nextId w, msg_agentType = cls_agentType (this_class this),
         msg_sessionId = this_sessionId this, msg_role = ''assistant'',
         msg_content = Text (res_text result),
         msg_metadata =
           JObj [(''timestamp'', JDate t1),
                 (''agentName'', JStr (cls_agentName (this_class this))),
                 (''responseLength'', JNum (length (res_text result))),
                 (''finishReason'', JStr (res_finishReason result)),
                 (''usage'', res_usage result)],
         msg_createdAt = t1\<rparr>]"
proof -
  let ?data = "\<lparr>nm_agentType = cls_agentType (this_class this),
                 nm_sessionId = this_sessionId this, nm_role = ''assistant'',
                 nm_content = Text (res_text result),
                 nm_metadata =
                   JObj [(''timestamp'', JDate t1),
                         (''agentName'', JStr (cls_agentName (this_class this))),
                         (''responseLength'', JNum (length (res_text result))),
                         (''finishReason'', JStr (res_finishReason result)),
                         (''usage'', res_usage result)]\<rparr>"
  let ?w1 = "console_log ''assistant response saved'' (snd (insertMessage ?data t1 w))"
  obtain n w2 where c: "getMessageCount this ?w1 = (n, w2)" by (cases "getMessageCount this ?w1")
  have f1: "faults ?w1 = []" using ok by simp
  have m2: "messagesT w2 = messagesT ?w1"
    using getMessageCount_frame(1) [OF f1, of this] by (simp add: c)
  let ?u = "updateSessionMetadata ops (this_sessionId this)
              (JObj [(''lastActivity'', JDate t1), (''messageCount'', JNum n)]) t1 w2"
  obtain r w3 where u: "?u = (r, w3)" by (cases ?u)
  have m3: "messagesT w3 = messagesT w2"
    using updateSessionMetadata_frame
      [of ops "this_sessionId this"
          "JObj [(''lastActivity'', JDate t1), (''messageCount'', JNum n)]" t1 w2]
    by (simp add: u)
  show ?thesis
    using gate m2 m3
    by (cases r) (simp_all add: onFinish_def ops saveMessage_runs [OF live ok] c u)
qed

lemma saveUserMessage_writes:
  assumes gate: "userGate this" and ops: "this_dbOps this = Some ops"
    and live: "ops_db ops \<notin> set (ended w)" and ok: "faults w = []"
  shows "messagesT (saveUserMessage this t0 w) =
     messagesT w @
       [\<lparr>msg_id = nextId w, msg_agentType = cls_agentType (this_class this),
         msg_sessionId = this_sessionId this, msg_role = ''user'',
         msg_content = cm_content (last (this_messages this)),
         msg_metadata =
           JObj [(''timestamp'', JDate t0),
                 (''agentName'', JStr (cls_agentName (this_class this)))],
         msg_createdAt = t0\<rparr>]"
  using gate by (simp add: saveUserMessage_def ops saveMessage_runs [OF live ok])

lemma onExecuteError_writes:
  assumes gate: "replyGate this" and ops: "this_dbOps this = Some ops"
    and live: "ops_db ops \<notin> set (ended w)" and ok: "faults w = []"
  shows "messagesT (onExecuteError this error t1 w) =
     messagesT w @
       [\<lparr>msg_id = nextId w, msg_agentType = cls_agentType (this_class this),
         msg_sessionId = this_sessionId this, msg_role = ''system'',
         msg_content = Text (''Error processing message: '' @ messageOrUnknown error),
         msg_metadata = JObj [(''error'', JBool True), (''timestamp'', JDate t1)],
         msg_createdAt = t1\<rparr>]"
proof -
  let ?w = "console_error ''Error in onChatMessage:'' w"
  have live': "ops_db ops \<notin> set (ended ?w)" and ok': "faults ?w = []"
    using live ok by simp_all
  show ?thesis
    using gate by (simp add: onExecuteError_def ops saveMessage_runs [OF live' ok'] Let_def)
qed

subsection \<open>Fetching and restoring\<close>

lemma findAgentMessages_all:
  assumes "length (filter (\<lambda>m. msg_agentType m = role) (messagesT w)) \<le> limit"
  shows "mset (findAgentMessages role limit w)
           = mset (filter (\<lambda>m. msg_agentType m = role) (messagesT w))"
    and "sorted (map msg_createdAt (rev (findAgentMessages role limit w)))"
proof -
  let ?xs = "filter (\<lambda>m. msg_agentType m = role) (messagesT w)"
  have all: "findAgentMessages role limit w = orderByDesc (tieOrder w) msg_createdAt ?xs"
    using assms by (simp add: findAgentMessages_def)
  show "mset (findAgentMessages role limit w) = mset ?xs"
    by (simp only: all mset_orderByDesc)
  have "sorted_wrt (\<lambda>a b. msg_createdAt b \<le> msg_createdAt a) (findAgentMessages role limit w)"
    by (simp only: all orderByDesc_descending)
  then have "sorted_wrt (\<lambda>a b. msg_createdAt a \<le> msg_createdAt b)
               (rev (findAgentMessages role limit w))"
    by (simp add: sorted_wrt_rev)
  then show "sorted (map msg_createdAt (rev (findAgentMessages role limit w)))"
    by (simp add: sorted_wrt_map)
qed

lemma findAgentMessages_chronological:
  assumes "sorted_wrt (<) (map msg_createdAt (filter (\<lambda>m. msg_agentType m = role) (messagesT w)))"
    and "length (filter (\<lambda>m. msg_agentType m = role) (messagesT w)) \<le> limit"
  shows "rev (findAgentMessages role limit w) = filter (\<lambda>m. msg_agentType m = role) (messagesT w)"
proof -
  let ?xs = "filter (\<lambda>m. msg_agentType m = role) (messagesT w)"
  have "findAgentMessages role limit w = take limit (rev ?xs)"
    by (simp add: findAgentMessages_def orderByDesc_distinct [OF assms(1)])
  also have "\<dots> = rev ?xs" using assms(2) by simp
  finally show ?thesis by simp
qed

lemma getAgentMessages_runs:
  assumes "ops_db ops \<notin> set (ended w)" and "faults w = []"
  shows "getAgentMessages ops agentType limit w = (Inr (findAgentMessages agentType limit w), w)"
proof -
  have "getAgentMessages ops agentType limit w =
        (Inr (findAgentMessages agentType limit w), w\<lparr>faults := tl (faults w)\<rparr>)"
    using getAgentMessages_from_succeeds
      [where dbo = ops and w = w and attempt = "Suc 0" and agentType = agentType and limit = limit]
      assms
    by (simp add: getAgentMessages_def maxRetries_def)
  then show ?thesis using assms(2) by simp
qed

lemma getAgentMessages_fails:
  assumes "ops_db ops \<notin> set (ended w)" and "faults w = Some e # fs"
    and "\<not> isConnectionEnded e"
  shows "getAgentMessages ops agentType limit w =
         (Inl e, console_warn ''Error getting agent messages (attempt):'' (w\<lparr>faults := fs\<rparr>))"
  using getAgentMessages_from_gives_up [OF assms(1,2) maxRetries_facts(2)] assms(3)
  by (simp add: getAgentMessages_def)

lemma restoreConversationHistory_cases:
  assumes ops: "this_dbOps this = Some ops" and sid: "this_sessionId this \<noteq> []"
  shows "(\<forall>rows. fst (getAgentMessages ops (cls_agentType (this_class this)) 50 w) = Inr rows
                \<and> rows \<noteq> [] \<longrightarrow>
            this_messages (fst (restoreConversationHistory this w)) = map toChat (rev rows))
       \<and> (fst (getAgentMessages ops (cls_agentType (this_class this)) 50 w) = Inr [] \<longrightarrow>
            this_messages (fst (restoreConversationHistory this w)) = this_messages this)
       \<and> (\<forall>error. fst (getAgentMessages ops (cls_agentType (this_class this)) 50 w) = Inl error \<longrightarrow>
            this_messages (fst (restoreConversationHistory this w)) = this_messages this
          \<and> (ERROR, ''Failed to restore conversation history:'')
              \<in> set (console (snd (restoreConversationHistory this w))))"
proof -
  obtain r w1 where g: "getAgentMessages ops (cls_agentType (this_class this)) 50 w = (r, w1)"
    by (cases "getAgentMessages ops (cls_agentType (this_class this)) 50 w")
  show ?thesis
    using sid
    by (cases r) (auto simp add: restoreConversationHistory_def ops g console_log_def console_error_def)
qed

subsection \<open>Closing\<close>

lemma insertMessage_nextId: "nextId (snd (insertMessage data now w)) = Suc (nextId w)"
  by (simp add: insertMessage_def Let_def)

lemma closeContent_text:
  "closeContent c = Text (case c of Text s \<Rightarrow> s | Structured s \<Rightarrow> s)"
  by (simp add: closeContent_def split: chat_content.splits)

lemma saveOnClose_rows:
  assumes "ops_db ops \<notin> set (ended w)" and "faults w = []"
  shows "messagesT (saveOnClose this ops clock i msgs w)
           = messagesT w @
             map (\<lambda>k. \<lparr>msg_id = nextId w + k,
                        msg_agentType = cls_agentType (this_class this),
                        msg_sessionId = this_sessionId this,
                        msg_role = cm_role (msgs ! k),
                        msg_content =
                          Text (case cm_content (msgs ! k) of Text s \<Rightarrow> s | Structured s \<Rightarrow> s),
                        msg_metadata =
                          JObj [(''timestamp'', JDate (clock (i + k))),
                                (''agentName'', JStr (cls_agentName (this_class this))),
                                (''savedOnClose'', JBool True)],
                        msg_createdAt = clock (i + k)\<rparr>) [0..<length msgs]
       \<and> faults (saveOnClose this ops clock i msgs w) = []
       \<and> ended (saveOnClose this ops clock i msgs w) = ended w"
  using assms
proof (induction msgs arbitrary: i w)
  case Nil
  then show ?case by simp
next
  case (Cons m msgs)
  let ?data = "\<lparr>nm_agentType = cls_agentType (this_class this),
                 nm_sessionId = this_sessionId this, nm_role = cm_role m,
                 nm_content = closeContent (cm_content m),
                 nm_metadata =
                   JObj [(''timestamp'', JDate (clock i)),
                         (''agentName'', JStr (cls_agentName (this_class this))),
                         (''savedOnClose'', JBool True)]\<rparr>"
  let ?w1 = "snd (insertMessage ?data (clock i) w)"
  have step: "saveOnClose this ops clock i (m # msgs) w = saveOnClose this ops clock (Suc i) msgs ?w1"
    by (simp add: saveMessage_runs [OF Cons.prems])
  have live1: "ops_db ops \<notin> set (ended ?w1)" and ok1: "faults ?w1 = []"
    using Cons.prems by simp_all
  have w1: "messagesT ?w1 = messagesT w @
      [\<lparr>msg_id = nextId w, msg_agentType = cls_agentType (this_class this),
        msg_sessionId = this_sessionId this, msg_role = cm_role m,
        msg_content = Text (case cm_content m of Text s \<Rightarrow> s | Structured s \<Rightarrow> s),
        msg_metadata =
          JObj [(''timestamp'', JDate (clock i)),
                (''agentName'', JStr (cls_agentName (this_class this))),
                (''savedOnClose'', JBool True)],
        msg_createdAt = clock i\<rparr>]"
    and n1: "nextId ?w1 = Suc (nextId w)" and e1: "ended ?w1 = ended w"
    by (simp_all add: insertMessage_def Let_def closeContent_text)
  have upt: "map f [0..<length (m # msgs)] = f 0 # map (\<lambda>k. f (Suc k)) [0..<length msgs]" for f :: "nat \<Rightarrow> message_row"
    by (simp only: list.size add_Suc_right add_0_right map_upt_Suc)
  show ?case
    unfolding step upt
    using Cons.IH [OF live1 ok1, of "Suc i"]
    by (simp add: insertMessage_nextId closeContent_text)
qed

lemma saveOnClose_rejected:
  assumes "ops_db ops \<in> set (ended w)"
  shows "messagesT (saveOnClose this ops clock i msgs w) = messagesT w
       \<and> sessionsT (saveOnClose this ops clock i msgs w) = sessionsT w
       \<and> integrationConnectionsT (saveOnClose this ops clock i msgs w) = integrationConnectionsT w
       \<and> ended (saveOnClose this ops clock i msgs w) = ended w
       \<and> faults (saveOnClose this ops clock i msgs w) = faults w"
  using assms
proof (induction msgs arbitrary: i w)
  case Nil
  then show ?case by simp
next
  case (Cons m msgs)
  let ?w1 = "console_error ''Error saving message:'' w"
  have dead1: "ops_db ops \<in> set (ended ?w1)" using Cons.prems by simp
  show ?case
    using Cons.IH [OF dead1, of "Suc i"] by (simp add: saveMessage_rejected [OF Cons.prems])
qed

lemma DatabaseManager_close_releases:
  assumes "dm_conn m = Some c"
  shows "fst (DatabaseManager_close m w) = m\<lparr>dm_db := None, dm_conn := None\<rparr>"
    and "ended (snd (DatabaseManager_close m w)) = ended w @ [c]"
    and "messagesT (snd (DatabaseManager_close m w)) = messagesT w"
    and "sessionsT (snd (DatabaseManager_close m w)) = sessionsT w"
    and "integrationConnectionsT (snd (DatabaseManager_close m w)) = integrationConnectionsT w"
  using assms
  by (auto simp add: DatabaseManager_close_def conn_end_def Let_def split: list.splits option.splits)

lemma DatabaseManager_close_again:
  assumes "dm_conn m = None"
  shows "DatabaseManager_close m w = (m, w)"
  using assms by (simp add: DatabaseManager_close_def)

text \<open>\<open>onClose\<close> over a live connection, and over one that was ended and whose manager was
  cleared.\<close>

lemma onClose_live:
  assumes ops: "this_dbOps this = Some ops" and sid: "this_sessionId this \<noteq> []"
    and man: "this_dbManager this = Some m" and conn: "dm_conn m = Some (ops_db ops)"
    and live: "ops_db ops \<notin> set (ended w)" and ok: "faults w = []"
  shows "fst (onClose this clock w)
           = this\<lparr>this_dbManager := Some (m\<lparr>dm_db := None, dm_conn := None\<rparr>)\<rparr>"
    and "messagesT (snd (onClose this clock w))
           = messagesT w @
             map (\<lambda>k. \<lparr>msg_id = nextId w + k,
                        msg_agentType = cls_agentType (this_class this),
                        msg_sessionId = this_sessionId this,
                        msg_role = cm_role (this_messages this ! k),
                        msg_content =
                          Text (case cm_content (this_messages this ! k) of
                                  Text s \<Rightarrow> s | Structured s \<Rightarrow> s),
                        msg_metadata =
                          JObj [(''timestamp'', JDate (clock k)),
                                (''agentName'', JStr (cls_agentName (this_class this))),
                                (''savedOnClose'', JBool True)],
                        msg_createdAt = clock k\<rparr>) [0..<length (this_messages this)]"
    and "ended (snd (onClose this clock w)) = ended w @ [ops_db ops]"
proof -
  define s where "s = console_log ''Saving messages to database on close''
                        (console_log ''disconnected'' w)"
  define flushed where "flushed =
      (if length (this_messages this) > 0
       then console_log ''Successfully saved all messages on close''
              (saveOnClose this ops clock 0 (this_messages this) s)
       else console_log ''disconnected'' w)"
  define this1 where "this1 = this\<lparr>this_dbManager := Some (m\<lparr>dm_db := None, dm_conn := None\<rparr>)\<rparr>"
  define w1 where "w1 = snd (DatabaseManager_close m flushed)"
  have released: "DatabaseManager_close m flushed = (m\<lparr>dm_db := None, dm_conn := None\<rparr>, w1)"
    using DatabaseManager_close_releases(1) [OF conn, of flushed]
    by (cases "DatabaseManager_close m flushed") (simp add: w1_def)
  have close1: "onClose this clock w = (this1, w1)"
  proof (cases "this_messages this = []")
    case True
    then have "flushed = console_log ''disconnected'' w" by (simp add: flushed_def)
    with released True show ?thesis
      by (simp add: onClose_def ops sid man Let_def this1_def)
  next
    case False
    then have "flushed = console_log ''Successfully saved all messages on close''
              (saveOnClose this ops clock 0 (this_messages this) s)" by (simp add: flushed_def)
    with released False show ?thesis
      by (simp add: onClose_def ops sid man Let_def this1_def s_def)
  qed
  have live_s: "ops_db ops \<notin> set (ended s)" and ok_s: "faults s = []"
    and next_s: "nextId s = nextId w" and rows_s: "messagesT s = messagesT w"
    using live ok by (simp_all add: s_def)
  note fl = saveOnClose_rows [OF live_s ok_s, of this clock 0 "this_messages this",
      unfolded next_s rows_s add_0]
  have rows: "messagesT flushed = messagesT w @
             map (\<lambda>k. \<lparr>msg_id = nextId w + k,
                        msg_agentType = cls_agentType (this_class this),
                        msg_sessionId = this_sessionId this,
                        msg_role = cm_role (this_messages this ! k),
                        msg_content =
                          Text (case cm_content (this_messages this ! k) of
                                  Text s \<Rightarrow> s | Structured s \<Rightarrow> s),
                        msg_metadata =
                          JObj [(''timestamp'', JDate (clock k)),
                                (''agentName'', JStr (cls_agentName (this_class this))),
                                (''savedOnClose'', JBool True)],
                        msg_createdAt = clock k\<rparr>) [0..<length (this_messages this)]"
  proof (cases "this_messages this = []")
    case True
    then show ?thesis by (simp add: flushed_def)
  next
    case False
    then show ?thesis using fl by (simp add: flushed_def)
  qed
  have ended_f: "ended flushed = ended w" using fl by (simp add: flushed_def s_def)
  have w1_m: "messagesT w1 = messagesT flushed"
    and w1_e: "ended w1 = ended w @ [ops_db ops]"
    using DatabaseManager_close_releases(2,3) [OF conn, of flushed] ended_f
    by (simp_all add: w1_def)
  show "fst (onClose this clock w)
           = this\<lparr>this_dbManager := Some (m\<lparr>dm_db := None, dm_conn := None\<rparr>)\<rparr>"
    by (simp add: close1 this1_def)
  show "ended (snd (onClose this clock w)) = ended w @ [ops_db ops]"
    by (simp add: close1 w1_e)
  show "messagesT (snd (onClose this clock w))
           = messagesT w @
             map (\<lambda>k. \<lparr>msg_id = nextId w + k,
                        msg_agentType = cls_agentType (this_class this),
                        msg_sessionId = this_sessionId this,
                        msg_role = cm_role (this_messages this ! k),
                        msg_content =
                          Text (case cm_content (this_messages this ! k) of
                                  Text s \<Rightarrow> s | Structured s \<Rightarrow> s),
                        msg_metadata =
                          JObj [(''timestamp'', JDate (clock k)),
                                (''agentName'', JStr (cls_agentName (this_class this))),
                                (''savedOnClose'', JBool True)],
                        msg_createdAt = clock k\<rparr>) [0..<length (this_messages this)]"
    by (simp only: close1 snd_conv w1_m rows)
qed

lemma onClose_released:
  assumes ops: "this_dbOps this = Some ops" and dead: "ops_db ops \<in> set (ended w)"
    and man: "this_dbManager this = Some m" and conn: "dm_conn m = None"
  shows "fst (onClose this clock w) = this"
    and "messagesT (snd (onClose this clock w)) = messagesT w"
    and "sessionsT (snd (onClose this clock w)) = sessionsT w"
    and "integrationConnectionsT (snd (onClose this clock w)) = integrationConnectionsT w"
    and "ended (snd (onClose this clock w)) = ended w"
proof -
  define v where "v = console_log ''Saving messages to database on close''
                        (console_log ''disconnected'' w)"
  define again where "again =
      (if this_sessionId this \<noteq> [] \<and> length (this_messages this) > 0
       then console_log ''Successfully saved all messages on close''
              (saveOnClose this ops clock 0 (this_messages this) v)
       else console_log ''disconnected'' w)"
  have close2: "onClose this clock w = (this, again)"
    by (simp add: onClose_def ops man DatabaseManager_close_again [OF conn] Let_def again_def v_def)
  have dead_v: "ops_db ops \<in> set (ended v)" using dead by (simp add: v_def)
  note rej = saveOnClose_rejected [OF dead_v, of this clock 0 "this_messages this"]
  have again: "messagesT again = messagesT w" "ended again = ended w"
    "sessionsT again = sessionsT w"
    "integrationConnectionsT again = integrationConnectionsT w"
    using rej by (simp_all add: again_def v_def)
  show "fst (onClose this clock w) = this" by (simp add: close2)
  show "messagesT (snd (onClose this clock w)) = messagesT w" by (simp add: close2 again)
  show "sessionsT (snd (onClose this clock w)) = sessionsT w" by (simp add: close2 again)
  show "integrationConnectionsT (snd (onClose this clock w)) = integrationConnectionsT w"
    by (simp add: close2 again)
  show "ended (snd (onClose this clock w)) = ended w" by (simp add: close2 again)
qed

subsection \<open>The rows of a whole turn\<close>

lemma forIntegrationNames_faults:
  "faults w = [] \<Longrightarrow> faults (snd (forIntegrationNames sessionId dbOps names acc w)) = []"
proof (induction names arbitrary: acc w)
  case Nil
  then show ?case by simp
next
  case (Cons X names)
  obtain c w1 where cc: "checkConnected sessionId dbOps X w = (c, w1)"
    by (cases "checkConnected sessionId dbOps X w")
  have st: "stable sessionId dbOps w" using Cons.prems by (simp add: stable_def)
  have "sameEnv w1 w"
    using checkConnected_stable [OF st sameEnv_refl, of X] by (simp add: cc)
  then have f1: "faults w1 = []" using Cons.prems by (simp add: sameEnv_def)
  obtain r w2 where gt: "getToolsByIntegration X w1 = (r, w2)"
    by (cases "getToolsByIntegration X w1")
  have f2: "faults w2 = []"
    using f1 gt by (auto simp add: getToolsByIntegration_def split: js_property.splits)
  show ?case
    using Cons.IH f1 f2 by (cases c; cases r) (simp_all add: cc gt)
qed

lemma getToolsForAgent_faults:
  assumes "faults w = []"
  shows "faults (snd (getToolsForAgent agentType sessionId dbOps w)) = []"
proof (cases "js_get agentToolMappings agentType")
  case (Own names)
  obtain r w1 where run: "forIntegrationNames sessionId dbOps names [] w = (r, w1)"
    by (cases "forIntegrationNames sessionId dbOps names [] w")
  show ?thesis
    using forIntegrationNames_faults [OF assms, of sessionId dbOps names "[]"]
    by (cases r) (simp_all add: getToolsForAgent_def Own run convertToolsToAISDKFormat_def)
qed (simp_all add: getToolsForAgent_def assms)

lemma saveMessage_frame:
  assumes "faults w = []"
  shows "faults (snd (saveMessage ops data now w)) = []"
    and "ended (snd (saveMessage ops data now w)) = ended w"
proof -
  have "faults (snd (saveMessage ops data now w)) = [] \<and>
        ended (snd (saveMessage ops data now w)) = ended w"
  proof (cases "ops_db ops \<in> set (ended w)")
    case True
    then show ?thesis using assms by (simp add: saveMessage_rejected)
  next
    case False
    then show ?thesis using assms by (simp add: saveMessage_runs)
  qed
  then show "faults (snd (saveMessage ops data now w)) = []"
    and "ended (snd (saveMessage ops data now w)) = ended w" by simp_all
qed

lemma saveUserMessage_frame:
  assumes "faults w = []"
  shows "faults (saveUserMessage this t0 w) = []"
    and "ended (saveUserMessage this t0 w) = ended w"
  using assms
  by (simp_all add: saveUserMessage_def saveMessage_frame split: option.splits)

lemma saveUserMessage_skips:
  assumes "\<not> userGate this"
  shows "saveUserMessage this t0 w = w"
  using assms by (simp add: saveUserMessage_def split: option.splits)

lemma getToolsForAgent_throws:
  assumes "\<forall>names. js_get agentToolMappings agentType \<noteq> Own names"
  shows "getToolsForAgent agentType sessionId dbOps w =
         (Inl (TypeError ''integrationNames is not iterable''), w)"
  using assms
  by (cases "js_get agentToolMappings agentType") (simp_all add: getToolsForAgent_def)

lemma turn_rows:
  assumes len: "10 < length (this_messages this)" and ops: "this_dbOps this = Some ops"
    and sid: "this_sessionId this \<noteq> []"
    and live: "ops_db ops \<notin> set (ended w)" and ok: "faults w = []"
  shows "length (messagesT (snd (onChatMessage this gen t0 t1 w))) =
         length (messagesT w)
         + (if cm_role (last (this_messages this)) = ''user'' then 1 else 0)
         + (case js_get agentToolMappings (cls_agentType (this_class this)) of
              Own names \<Rightarrow>
                (case gen of Finishes result \<Rightarrow> 1 | Throws error \<Rightarrow> 1 | Unfinished \<Rightarrow> 0)
            | _ \<Rightarrow> 1)"
proof -
  let ?u = "saveUserMessage this t0 w"
  let ?T = "cls_agentType (this_class this)"
  have ne: "this_messages this \<noteq> []" using len by auto
  have reply: "replyGate this" using len ops sid by (simp add: replyGate_def)
  have user: "userGate this \<longleftrightarrow> cm_role (last (this_messages this)) = ''user''"
    using len ops sid ne by (simp add: userGate_def)
  have u_len: "length (messagesT ?u) =
        length (messagesT w) + (if cm_role (last (this_messages this)) = ''user'' then 1 else 0)"
  proof (cases "userGate this")
    case True
    then show ?thesis using user by (simp add: saveUserMessage_writes [OF True ops live ok])
  next
    case False
    then show ?thesis using user by (simp add: saveUserMessage_skips)
  qed
  have u_ok: "faults ?u = []" and u_live: "ops_db ops \<notin> set (ended ?u)"
    using saveUserMessage_frame [OF ok, of this t0] live by simp_all
  obtain r w1 where g: "getToolsForAgent ?T (Some (this_sessionId this)) (this_dbOps this) ?u = (r, w1)"
    by (cases "getToolsForAgent ?T (Some (this_sessionId this)) (this_dbOps this) ?u")
  have w1: "messagesT w1 = messagesT ?u" "ended w1 = ended ?u" "faults w1 = []"
    using getToolsForAgent_frame [of ?T "Some (this_sessionId this)" "this_dbOps this" ?u]
      getToolsForAgent_faults [OF u_ok, of ?T "Some (this_sessionId this)" "this_dbOps this"]
    by (simp_all add: g)
  have live1: "ops_db ops \<notin> set (ended w1)" using w1 u_live by simp
  let ?w2 = "console_log ''available tools:'' w1"
  have live2: "ops_db ops \<notin> set (ended ?w2)" and ok2: "faults ?w2 = []"
    using live1 w1 by simp_all
  show ?thesis
  proof (cases "js_get agentToolMappings ?T")
    case (Own names)
    have "stable (Some (this_sessionId this)) (this_dbOps this) ?u"
      using u_ok by (simp add: stable_def)
    from getToolsForAgent_stable [OF Own this] obtain ts where "r = Inr ts"
      by (auto simp add: g)
    then show ?thesis
      using u_len w1
      by (cases gen)
        (simp_all add: onChatMessage_def g Let_def Own
          onFinish_writes [OF reply ops live2 ok2]
          onExecuteError_writes [OF reply ops live2 ok2])
  next
    case Inherited
    then have "\<forall>names. js_get agentToolMappings ?T \<noteq> Own names" by simp
    from getToolsForAgent_throws [OF this, of "Some (this_sessionId this)" "this_dbOps this" ?u]
    have "r = Inl (TypeError ''integrationNames is not iterable'')" and "w1 = ?u"
      by (simp_all add: g)
    then show ?thesis
      using u_len
      by (simp add: onChatMessage_def g Let_def Inherited
          onExecuteError_writes [OF reply ops u_live u_ok])
  next
    case Undefined
    then have "\<forall>names. js_get agentToolMappings ?T \<noteq> Own names" by simp
    from getToolsForAgent_throws [OF this, of "Some (this_sessionId this)" "this_dbOps this" ?u]
    have "r = Inl (TypeError ''integrationNames is not iterable'')" and "w1 = ?u"
      by (simp_all add: g)
    then show ?thesis
      using u_len
      by (simp add: onChatMessage_def g Let_def Undefined
          onExecuteError_writes [OF reply ops u_live u_ok])
  qed
qed

section \<open>The claims\<close>

subsection \<open>Disconnecting an integration\<close>

text \<open>
  Claim C7. For a session \<open>S\<close> and an integration name \<open>X\<close> with no row for \<open>(S, X)\<close>,
  \<open>disconnectIntegration\<close> changes nothing: it returns the empty list, the world is the one
  it started from (so no row was created) and nothing is thrown. In general its update
  sets the status of every row of \<open>(S, X)\<close> to \<open>disconnected\<close>, returns the rewritten rows
  and leaves the number of rows as it was. This holds whenever the query reaches the
  database: the connection is live and the environment does not fail the call.
\<close>

theorem disconnectIntegration_noop_or_update:
  assumes "ops_db dbo \<notin> set (ended w)" and "faults w = []"
  shows "(filter (matches sessionId X) (integrationConnectionsT w) = [] \<longrightarrow>
            disconnectIntegration dbo sessionId X now w = (Inr [], w)) \<and>
         fst (disconnectIntegration dbo sessionId X now w) =
           Inr (map (\<lambda>r. r\<lparr>conn_status := ''disconnected'', conn_updatedAt := now\<rparr>)
                  (filter (matches sessionId X) (integrationConnectionsT w))) \<and>
         integrationConnectionsT (snd (disconnectIntegration dbo sessionId X now w)) =
           map (\<lambda>r. if matches sessionId X r
                     then r\<lparr>conn_status := ''disconnected'', conn_updatedAt := now\<rparr> else r)
             (integrationConnectionsT w) \<and>
         length (integrationConnectionsT (snd (disconnectIntegration dbo sessionId X now w))) =
           length (integrationConnectionsT w) \<and>
         list_all (\<lambda>r. conn_status r = ''disconnected'')
           (filter (matches sessionId X)
              (integrationConnectionsT (snd (disconnectIntegration dbo sessionId X now w))))"
proof -
  let ?off = "\<lambda>r. r\<lparr>conn_status := ''disconnected'', conn_updatedAt := now\<rparr>"
  have run: "disconnectIntegration dbo sessionId X now w =
      (Inr (map ?off (filter (matches sessionId X) (integrationConnectionsT w))),
       w\<lparr>integrationConnectionsT :=
           map (\<lambda>r. if matches sessionId X r then ?off r else r) (integrationConnectionsT w)\<rparr>)"
    using assms by (simp add: disconnectIntegration_def query_runs updateWhere_def)
  have keep: "\<And>r. matches sessionId X r \<Longrightarrow> matches sessionId X (?off r)"
    by (simp add: matches_def)
  have "filter (matches sessionId X)
          (map (\<lambda>r. if matches sessionId X r then ?off r else r) (integrationConnectionsT w))
        = map ?off (filter (matches sessionId X) (integrationConnectionsT w))"
    by (rule filter_map_if) (rule keep)
  then show ?thesis
    by (simp add: run map_if_not_matching list_all_iff)
qed

theorem disconnectIntegration_noop_or_update_witness:
  "disconnectIntegration exampleOps ''s1'' ''google-ads'' 9 registryWorld = (Inr [], registryWorld)
   \<and> map conn_status
         (integrationConnectionsT (snd (disconnectIntegration exampleOps ''s1'' ''shopify'' 9 registryWorld)))
       = [''disconnected'', ''disconnected'']
   \<and> length (integrationConnectionsT (snd (disconnectIntegration exampleOps ''s1'' ''shopify'' 9 registryWorld)))
       = 2"
proof -
  have live: "ops_db exampleOps \<notin> set (ended registryWorld)"
    by (simp add: exampleOps_def registryWorld_def initialWorld_def)
  have ok: "faults registryWorld = []"
    by (simp add: registryWorld_def initialWorld_def)
  have none: "filter (matches ''s1'' ''google-ads'') (integrationConnectionsT registryWorld) = []"
    by (simp add: registryWorld_def initialWorld_def matches_def shopifyRow_def posthogRow_def)
  note absent = disconnectIntegration_noop_or_update [OF live ok, of "''s1''" "''google-ads''" 9]
  note present = disconnectIntegration_noop_or_update [OF live ok, of "''s1''" "''shopify''" 9]
  have rows: "integrationConnectionsT registryWorld = [shopifyRow, posthogRow]"
    by (simp add: registryWorld_def initialWorld_def)
  show ?thesis
    using absent none present
    by (simp add: rows matches_def shopifyRow_def posthogRow_def)
qed

subsection \<open>Connecting an integration twice\<close>

text \<open>
  Claim C6. \<open>connectIntegration\<close> is idempotent on the rows of a pair. Take a session \<open>S\<close>
  and a name \<open>X\<close> with at most one row (the data model's uniqueness, which the calls
  keep), a live connection and an environment that fails no call. After two consecutive
  calls, at the times \<open>t1\<close> and \<open>t2\<close>, there is exactly one row for \<open>(S, X)\<close>; its status
  is \<open>connected\<close> and its \<open>lastSyncAt\<close> is \<open>t2\<close>, where after the first call it was \<open>t1\<close>.
  The first call adds one row when there was none and adds none when there was one;
  the second call never adds a row; the rows of other pairs are untouched.
\<close>

theorem connectIntegration_idempotent:
  assumes live: "ops_db dbo \<notin> set (ended w)" and ok: "faults w = []"
    and uniq: "length (filter (matches S X) (integrationConnectionsT w)) \<le> 1"
  shows
    "let w1 = snd (connectIntegration dbo S X meta1 t1 w);
         w2 = snd (connectIntegration dbo S X meta2 t2 w1)
     in (\<exists>row. filter (matches S X) (integrationConnectionsT w2) = [row]
                \<and> conn_status row = ''connected'' \<and> conn_lastSyncAt row = Some t2)
      \<and> (\<exists>row. filter (matches S X) (integrationConnectionsT w1) = [row]
                \<and> conn_status row = ''connected'' \<and> conn_lastSyncAt row = Some t1)
      \<and> (filter (matches S X) (integrationConnectionsT w) = [] \<longrightarrow>
           length (integrationConnectionsT w1) = Suc (length (integrationConnectionsT w)))
      \<and> (filter (matches S X) (integrationConnectionsT w) \<noteq> [] \<longrightarrow>
           length (integrationConnectionsT w1) = length (integrationConnectionsT w))
      \<and> length (integrationConnectionsT w2) = length (integrationConnectionsT w1)
      \<and> filter (\<lambda>r. \<not> matches S X r) (integrationConnectionsT w2)
          = filter (\<lambda>r. \<not> matches S X r) (integrationConnectionsT w)"
proof -
  let ?w1 = "snd (connectIntegration dbo S X meta1 t1 w)"
  let ?w2 = "snd (connectIntegration dbo S X meta2 t2 ?w1)"
  note first = connectIntegration_once [OF live ok uniq, of meta1 t1]
  from first obtain row1 where
    r1: "filter (matches S X) (integrationConnectionsT ?w1) = [row1]" by blast
  have live1: "ops_db dbo \<notin> set (ended ?w1)" using first live by simp
  have ok1: "faults ?w1 = []" using first by simp
  have uniq1: "length (filter (matches S X) (integrationConnectionsT ?w1)) \<le> 1"
    using r1 by simp
  note second = connectIntegration_once [OF live1 ok1 uniq1, of meta2 t2]
  have ne1: "filter (matches S X) (integrationConnectionsT ?w1) \<noteq> []" using r1 by simp
  have len2: "length (integrationConnectionsT ?w2) = length (integrationConnectionsT ?w1)"
    by (simp add: connectIntegration_updates [OF live1 ok1 ne1])
  have len1a: "filter (matches S X) (integrationConnectionsT w) = [] \<Longrightarrow>
           length (integrationConnectionsT ?w1) = Suc (length (integrationConnectionsT w))"
    by (simp add: connectIntegration_inserts [OF live ok])
  have len1b: "filter (matches S X) (integrationConnectionsT w) \<noteq> [] \<Longrightarrow>
           length (integrationConnectionsT ?w1) = length (integrationConnectionsT w)"
    by (simp add: connectIntegration_updates [OF live ok])
  show ?thesis
    unfolding Let_def using first second len2 len1a len1b by simp
qed

theorem connectIntegration_idempotent_witness:
  "map (\<lambda>r. (conn_sessionId r, conn_integrationName r, conn_status r, conn_lastSyncAt r))
     (integrationConnectionsT
        (snd (connectIntegration exampleOps ''s1'' ''google-ads'' None 2
           (snd (connectIntegration exampleOps ''s1'' ''google-ads'' None 1 initialWorld)))))
   = [(''s1'', ''google-ads'', ''connected'', Some 2)]"
proof -
  have live: "ops_db exampleOps \<notin> set (ended initialWorld)"
    by (simp add: exampleOps_def initialWorld_def)
  have ok: "faults initialWorld = []"
    by (simp add: initialWorld_def)
  have uniq: "length (filter (matches ''s1'' ''google-ads'') (integrationConnectionsT initialWorld)) \<le> 1"
    by (simp add: initialWorld_def)
  let ?w1 = "snd (connectIntegration exampleOps ''s1'' ''google-ads'' None 1 initialWorld)"
  let ?w2 = "snd (connectIntegration exampleOps ''s1'' ''google-ads'' None 2 ?w1)"
  from connectIntegration_idempotent [OF live ok uniq, of None 1 None 2]
  obtain row where one: "filter (matches ''s1'' ''google-ads'') (integrationConnectionsT ?w2) = [row]"
    and st: "conn_status row = ''connected''" and sync: "conn_lastSyncAt row = Some 2"
    and len1: "length (integrationConnectionsT ?w1) = Suc (length (integrationConnectionsT initialWorld))"
    and len2: "length (integrationConnectionsT ?w2) = length (integrationConnectionsT ?w1)"
    unfolding Let_def by (auto simp add: initialWorld_def)
  have "length (integrationConnectionsT ?w2) = 1" using len1 len2 by (simp add: initialWorld_def)
  then obtain r where single: "integrationConnectionsT ?w2 = [r]"
    by (cases "integrationConnectionsT ?w2") auto
  have "r = row \<and> matches ''s1'' ''google-ads'' r"
    using one single by (auto split: if_splits)
  then show ?thesis using single st sync by (auto simp add: matches_def)
qed

subsection \<open>The retry loops\<close>

text \<open>
  Claim C3. The storage calls wrapped in the retry loop make at most two attempts. On a
  live connection:
  \<^item> when the first attempt fails with the connection-ended class (the \<open>code\<close> or the
    \<open>errno\<close> of what was thrown, an \<open>Error\<close> or any other object, is the string
    \<open>CONNECTION_ENDED\<close>) and the second attempt fails too, the loop waited once, 100 ms
    (100 times the attempt number 1), consumed exactly two outcomes of the environment
    and made no third attempt; \<open>createSession\<close> then returns \<open>null\<close> without throwing and
    \<open>getAgentMessages\<close> throws the second error;
  \<^item> when the first attempt fails in that class and the second goes through, the result
    of the second attempt is returned, after the same single wait;
  \<^item> when the first attempt fails with an error of any other class, there is no wait and
    no second attempt: \<open>createSession\<close> returns \<open>null\<close> and \<open>getAgentMessages\<close> throws that
    error at once.
\<close>

theorem retry_policy:
  assumes live: "ops_db dbo \<notin> set (ended w)"
  shows
    "(faults w = Some e1 # Some e2 # fs \<and> isConnectionEnded e1 \<longrightarrow>
        fst (createSession dbo data now w) = None
      \<and> faults (snd (createSession dbo data now w)) = fs
      \<and> sleeps (snd (createSession dbo data now w)) = sleeps w @ [100]
      \<and> fst (getAgentMessages dbo agentType limit w) = Inl e2
      \<and> faults (snd (getAgentMessages dbo agentType limit w)) = fs
      \<and> sleeps (snd (getAgentMessages dbo agentType limit w)) = sleeps w @ [100])
   \<and> (faults w = Some e1 # None # fs \<and> isConnectionEnded e1 \<longrightarrow>
        fst (createSession dbo data now w) \<noteq> None
      \<and> faults (snd (createSession dbo data now w)) = fs
      \<and> sleeps (snd (createSession dbo data now w)) = sleeps w @ [100]
      \<and> fst (getAgentMessages dbo agentType limit w)
          = Inr (findAgentMessages agentType limit w)
      \<and> faults (snd (getAgentMessages dbo agentType limit w)) = fs
      \<and> sleeps (snd (getAgentMessages dbo agentType limit w)) = sleeps w @ [100])
   \<and> (faults w = Some e1 # fs \<and> \<not> isConnectionEnded e1 \<longrightarrow>
        fst (createSession dbo data now w) = None
      \<and> faults (snd (createSession dbo data now w)) = fs
      \<and> sleeps (snd (createSession dbo data now w)) = sleeps w
      \<and> fst (getAgentMessages dbo agentType limit w) = Inl e1
      \<and> faults (snd (getAgentMessages dbo agentType limit w)) = fs
      \<and> sleeps (snd (getAgentMessages dbo agentType limit w)) = sleeps w)"
proof (intro conjI impI; elim conjE)
  let ?c = "console_warn ''Error creating session (attempt):''"
  let ?g = "console_warn ''Error getting agent messages (attempt):''"
  {
    assume f: "faults w = Some e1 # Some e2 # fs" and t: "isConnectionEnded e1"
    let ?w1 = "setTimeout 100 (?c (w\<lparr>faults := Some e2 # fs\<rparr>))"
    let ?v1 = "setTimeout 100 (?g (w\<lparr>faults := Some e2 # fs\<rparr>))"
    have c1: "createSession dbo data now w = createSession_from (Suc (Suc 0)) dbo data now ?w1"
      using createSession_from_retries [OF live f maxRetries_facts(1) t, of data now]
      by (simp add: createSession_def)
    have c2: "createSession_from (Suc (Suc 0)) dbo data now ?w1 =
              (None, console_error ''Final error creating session:'' (?c (?w1\<lparr>faults := fs\<rparr>)))"
      by (rule createSession_from_gives_up) (use live in \<open>simp_all add: maxRetries_def\<close>)
    have g1: "getAgentMessages dbo agentType limit w
              = getAgentMessages_from (Suc (Suc 0)) dbo agentType limit ?v1"
      using getAgentMessages_from_retries [OF live f maxRetries_facts(1) t, of agentType limit]
      by (simp add: getAgentMessages_def)
    have g2: "getAgentMessages_from (Suc (Suc 0)) dbo agentType limit ?v1 =
              (Inl e2, ?g (?v1\<lparr>faults := fs\<rparr>))"
      by (rule getAgentMessages_from_gives_up) (use live in \<open>simp_all add: maxRetries_def\<close>)
    show "fst (createSession dbo data now w) = None" by (simp add: c1 c2)
    show "faults (snd (createSession dbo data now w)) = fs" by (simp add: c1 c2)
    show "sleeps (snd (createSession dbo data now w)) = sleeps w @ [100]" by (simp add: c1 c2)
    show "fst (getAgentMessages dbo agentType limit w) = Inl e2" by (simp add: g1 g2)
    show "faults (snd (getAgentMessages dbo agentType limit w)) = fs" by (simp add: g1 g2)
    show "sleeps (snd (getAgentMessages dbo agentType limit w)) = sleeps w @ [100]"
      by (simp add: g1 g2)
  }
  {
    assume f: "faults w = Some e1 # None # fs" and t: "isConnectionEnded e1"
    let ?w1 = "setTimeout 100 (?c (w\<lparr>faults := None # fs\<rparr>))"
    let ?v1 = "setTimeout 100 (?g (w\<lparr>faults := None # fs\<rparr>))"
    have c1: "createSession dbo data now w = createSession_from (Suc (Suc 0)) dbo data now ?w1"
      using createSession_from_retries [OF live f maxRetries_facts(1) t, of data now]
      by (simp add: createSession_def)
    have c2: "createSession_from (Suc (Suc 0)) dbo data now ?w1 =
              (Some (fst (upsertSession data now (?w1\<lparr>faults := fs\<rparr>))),
               snd (upsertSession data now (?w1\<lparr>faults := fs\<rparr>)))"
      by (rule createSession_from_succeeds) (use live in \<open>simp_all add: maxRetries_def\<close>)
    have g1: "getAgentMessages dbo agentType limit w
              = getAgentMessages_from (Suc (Suc 0)) dbo agentType limit ?v1"
      using getAgentMessages_from_retries [OF live f maxRetries_facts(1) t, of agentType limit]
      by (simp add: getAgentMessages_def)
    have g2: "getAgentMessages_from (Suc (Suc 0)) dbo agentType limit ?v1 =
              (Inr (findAgentMessages agentType limit ?v1),
               ?v1\<lparr>faults := tl (faults ?v1)\<rparr>)"
      by (rule getAgentMessages_from_succeeds) (use live in \<open>simp_all add: maxRetries_def\<close>)
    have u: "\<And>v. faults (snd (upsertSession data now v)) = faults v"
            "\<And>v. sleeps (snd (upsertSession data now v)) = sleeps v"
      by (simp_all add: upsertSession_def Let_def split: option.splits)
    show "fst (createSession dbo data now w) \<noteq> None" by (simp add: c1 c2)
    show "faults (snd (createSession dbo data now w)) = fs" by (simp add: c1 c2 u)
    show "sleeps (snd (createSession dbo data now w)) = sleeps w @ [100]" by (simp add: c1 c2 u)
    show "fst (getAgentMessages dbo agentType limit w)
          = Inr (findAgentMessages agentType limit w)" by (simp add: g1 g2)
    show "faults (snd (getAgentMessages dbo agentType limit w)) = fs" by (simp add: g1 g2)
    show "sleeps (snd (getAgentMessages dbo agentType limit w)) = sleeps w @ [100]"
      by (simp add: g1 g2)
  }
  {
    assume f: "faults w = Some e1 # fs" and t: "\<not> isConnectionEnded e1"
    have c: "createSession dbo data now w =
             (None, console_error ''Final error creating session:'' (?c (w\<lparr>faults := fs\<rparr>)))"
      using createSession_from_gives_up [OF live f maxRetries_facts(2), of data now] t
      by (simp add: createSession_def)
    have g: "getAgentMessages dbo agentType limit w = (Inl e1, ?g (w\<lparr>faults := fs\<rparr>))"
      using getAgentMessages_from_gives_up [OF live f maxRetries_facts(2), of agentType limit] t
      by (simp add: getAgentMessages_def)
    show "fst (createSession dbo data now w) = None" by (simp add: c)
    show "faults (snd (createSession dbo data now w)) = fs" by (simp add: c)
    show "sleeps (snd (createSession dbo data now w)) = sleeps w" by (simp add: c)
    show "fst (getAgentMessages dbo agentType limit w) = Inl e1" by (simp add: g)
    show "faults (snd (getAgentMessages dbo agentType limit w)) = fs" by (simp add: g)
    show "sleeps (snd (getAgentMessages dbo agentType limit w)) = sleeps w" by (simp add: g)
  }
qed

theorem retry_policy_witness:
  "fst (createSession exampleOps exampleSession 0
          (initialWorld\<lparr>faults := [Some CONNECTION_ENDED, Some CONNECTION_ENDED, None]\<rparr>)) = None
   \<and> sleeps (snd (createSession exampleOps exampleSession 0
          (initialWorld\<lparr>faults := [Some CONNECTION_ENDED, Some CONNECTION_ENDED, None]\<rparr>))) = [100]
   \<and> faults (snd (createSession exampleOps exampleSession 0
          (initialWorld\<lparr>faults := [Some CONNECTION_ENDED, Some CONNECTION_ENDED, None]\<rparr>))) = [None]
   \<and> fst (getAgentMessages exampleOps ''router-agent'' 50
          (initialWorld\<lparr>faults := [Some CONNECTION_ENDED, Some timeout, None]\<rparr>)) = Inl timeout
   \<and> fst (getAgentMessages exampleOps ''router-agent'' 50
          (initialWorld\<lparr>faults := [Some CONNECTION_ENDED, None]\<rparr>)) = Inr []
   \<and> fst (getAgentMessages exampleOps ''router-agent'' 50
          (initialWorld\<lparr>faults := [Some timeout, None]\<rparr>)) = Inl timeout
   \<and> sleeps (snd (getAgentMessages exampleOps ''router-agent'' 50
          (initialWorld\<lparr>faults := [Some timeout, None]\<rparr>))) = []
   \<and> fst (createSession exampleOps exampleSession 0
          (initialWorld\<lparr>faults := [Some timeout, None]\<rparr>)) = None
   \<and> fst (getAgentMessages exampleOps ''router-agent'' 50
          (initialWorld\<lparr>faults :=
             [Some (NonError (JObj [(''code'', JStr ''CONNECTION_ENDED'')])), None]\<rparr>)) = Inr []
   \<and> sleeps (snd (getAgentMessages exampleOps ''router-agent'' 50
          (initialWorld\<lparr>faults :=
             [Some (NonError (JObj [(''code'', JStr ''CONNECTION_ENDED'')])), None]\<rparr>))) = [100]
   \<and> fst (createSession exampleOps exampleSession 0
          (initialWorld\<lparr>faults :=
             [Some (NonError (JObj [(''errno'', JStr ''CONNECTION_ENDED'')])),
              Some (NonError (JObj [(''errno'', JStr ''CONNECTION_ENDED'')])), None]\<rparr>)) = None
   \<and> sleeps (snd (createSession exampleOps exampleSession 0
          (initialWorld\<lparr>faults :=
             [Some (NonError (JObj [(''errno'', JStr ''CONNECTION_ENDED'')])),
              Some (NonError (JObj [(''errno'', JStr ''CONNECTION_ENDED'')])), None]\<rparr>))) = [100]
   \<and> sleeps (snd (getAgentMessages exampleOps ''router-agent'' 50
          (initialWorld\<lparr>faults := [Some (NonError (JStr ''CONNECTION_ENDED'')), None]\<rparr>))) = []"
proof -
  let ?code = "NonError (JObj [(''code'', JStr ''CONNECTION_ENDED'')])"
  let ?errno = "NonError (JObj [(''errno'', JStr ''CONNECTION_ENDED'')])"
  let ?string = "NonError (JStr ''CONNECTION_ENDED'')"
  have t: "isConnectionEnded CONNECTION_ENDED" "isConnectionEnded ?code" "isConnectionEnded ?errno"
    and n: "\<not> isConnectionEnded timeout" "\<not> isConnectionEnded ?string"
    by (simp_all add: isConnectionEnded_def CONNECTION_ENDED_def timeout_def)
  have live: "\<And>fs. ops_db exampleOps \<notin> set (ended (initialWorld\<lparr>faults := fs\<rparr>))"
    by (simp add: exampleOps_def initialWorld_def)
  note twice = retry_policy [OF live, of "[Some CONNECTION_ENDED, Some CONNECTION_ENDED, None]"
      CONNECTION_ENDED CONNECTION_ENDED "[None]" exampleSession 0 "''router-agent''" 50]
  note second = retry_policy [OF live, of "[Some CONNECTION_ENDED, Some timeout, None]"
      CONNECTION_ENDED timeout "[None]" exampleSession 0 "''router-agent''" 50]
  note recovers = retry_policy [OF live, of "[Some CONNECTION_ENDED, None]"
      CONNECTION_ENDED timeout "[]" exampleSession 0 "''router-agent''" 50]
  note other = retry_policy [OF live, of "[Some timeout, None]"
      timeout timeout "[None]" exampleSession 0 "''router-agent''" 50]
  note object = retry_policy [OF live, of "[Some ?code, None]"
      ?code timeout "[]" exampleSession 0 "''router-agent''" 50]
  note objects = retry_policy [OF live, of "[Some ?errno, Some ?errno, None]"
      ?errno ?errno "[None]" exampleSession 0 "''router-agent''" 50]
  note string = retry_policy [OF live, of "[Some ?string, None]"
      ?string timeout "[None]" exampleSession 0 "''router-agent''" 50]
  show ?thesis
    using twice second recovers other object objects string t n
    by (simp add: initialWorld_def findAgentMessages_def)
qed

subsection \<open>The write threshold of a chat turn\<close>



subsection \<open>Agent types without a candidate list\<close>

text \<open>
  Claim C9, as amended. \<open>agentToolMappings\<close> has own entries for \<open>auto-agent\<close> and
  \<open>campaign-agent\<close> only. For every other agent type the lookup yields no candidate
  list: \<open>undefined\<close>, except for the names that every object inherits from
  \<open>Object.prototype\<close> (\<open>constructor\<close>, \<open>toString\<close>, ...), for which it yields the inherited
  member, which is not iterable either. In both cases iterating the value throws a
  \<open>TypeError\<close> and \<open>getToolsForAgent\<close> returns no tool mapping. \<open>router-agent\<close>, the type
  \<open>RouterAgent.onChatMessage\<close> passes, yields \<open>undefined\<close>, so every chat turn of a
  \<open>RouterAgent\<close> takes the error path: \<open>execute\<close> throws that \<open>TypeError\<close> after the
  \<open>catch\<close> block has run, whatever the generation would have done.
\<close>

theorem getToolsForAgent_unmapped:
  "map fst agentToolMappings = [''auto-agent'', ''campaign-agent'']
   \<and> (agentType \<noteq> ''auto-agent'' \<and> agentType \<noteq> ''campaign-agent'' \<longrightarrow>
        (\<forall>names. js_get agentToolMappings agentType \<noteq> Own names)
      \<and> (agentType \<notin> set objectPrototype \<longrightarrow> js_get agentToolMappings agentType = Undefined)
      \<and> (agentType \<in> set objectPrototype \<longrightarrow> js_get agentToolMappings agentType = Inherited)
      \<and> getToolsForAgent agentType sessionId dbOps w =
          (Inl (TypeError ''integrationNames is not iterable''), w))
   \<and> js_get agentToolMappings ''router-agent'' = Undefined
   \<and> (this_class this = RouterAgent \<longrightarrow>
        onChatMessage this gen t0 t1 w =
          (Some (TypeError ''integrationNames is not iterable''),
           onExecuteError this (TypeError ''integrationNames is not iterable'') t1
             (saveUserMessage this t0 w)))"
proof (intro conjI impI)
  show "map fst agentToolMappings = [''auto-agent'', ''campaign-agent'']"
    by (simp add: agentToolMappings_def)
  show u: "js_get agentToolMappings ''router-agent'' = Undefined"
    by (simp add: js_get_def agentToolMappings_def objectPrototype_def)
  {
    assume "agentType \<noteq> ''auto-agent'' \<and> agentType \<noteq> ''campaign-agent''"
    then have none: "map_of agentToolMappings agentType = None"
      by (simp add: agentToolMappings_def)
    show no: "\<forall>names. js_get agentToolMappings agentType \<noteq> Own names"
      by (simp add: js_get_def none)
    show "getToolsForAgent agentType sessionId dbOps w =
          (Inl (TypeError ''integrationNames is not iterable''), w)"
      by (rule getToolsForAgent_throws [OF no])
    {
      assume "agentType \<notin> set objectPrototype"
      then show "js_get agentToolMappings agentType = Undefined"
        by (simp add: js_get_def none)
    }
    {
      assume "agentType \<in> set objectPrototype"
      then show "js_get agentToolMappings agentType = Inherited"
        by (simp add: js_get_def none)
    }
  }
  {
    assume "this_class this = RouterAgent"
    then have t: "cls_agentType (this_class this) = ''router-agent''"
      by (simp add: RouterAgent_def)
    have "\<forall>names. js_get agentToolMappings ''router-agent'' \<noteq> Own names"
      by (simp add: u)
    from getToolsForAgent_throws [OF this]
    show "onChatMessage this gen t0 t1 w =
          (Some (TypeError ''integrationNames is not iterable''),
           onExecuteError this (TypeError ''integrationNames is not iterable'') t1
             (saveUserMessage this t0 w))"
      by (simp add: onChatMessage_def t Let_def)
  }
qed

theorem getToolsForAgent_unmapped_witness:
  "getToolsForAgent ''router-agent'' (Some ''router-agent-persistent'') (Some exampleOps) initialWorld
     = (Inl (TypeError ''integrationNames is not iterable''), initialWorld)
   \<and> getToolsForAgent ''toString'' (Some ''router-agent-persistent'') (Some exampleOps) initialWorld
     = (Inl (TypeError ''integrationNames is not iterable''), initialWorld)
   \<and> js_get agentToolMappings ''toString'' = Inherited
   \<and> fst (onChatMessage (exampleAgent RouterAgent (replicate 11 userMessage))
            (Finishes exampleResult) 1 2 initialWorld)
     = Some (TypeError ''integrationNames is not iterable'')"
proof -
  have r: "''router-agent'' \<noteq> ''auto-agent'' \<and> ''router-agent'' \<noteq> ''campaign-agent''" by simp
  have s: "''toString'' \<noteq> ''auto-agent'' \<and> ''toString'' \<noteq> ''campaign-agent''" by simp
  have p: "''toString'' \<in> set objectPrototype" by (simp add: objectPrototype_def)
  have c: "this_class (exampleAgent RouterAgent (replicate 11 userMessage)) = RouterAgent"
    by (simp add: exampleAgent_def)
  note router = getToolsForAgent_unmapped [of "''router-agent''" "Some ''router-agent-persistent''"
      "Some exampleOps" initialWorld "exampleAgent RouterAgent (replicate 11 userMessage)"
      "Finishes exampleResult" 1 2]
  note inherited = getToolsForAgent_unmapped [of "''toString''" "Some ''router-agent-persistent''"
      "Some exampleOps" initialWorld "exampleAgent RouterAgent (replicate 11 userMessage)"
      "Finishes exampleResult" 1 2]
  show ?thesis
    using router inherited r s p c by simp
qed

text \<open>The claim as first stated has the lookup yield \<open>undefined\<close> for every agent type
  other than the two keys; \<open>constructor\<close> is such a type, and the lookup yields the
  inherited \<open>Object\<close> function.\<close>

theorem lookup_not_undefined_counterexample:
  "''constructor'' \<noteq> ''auto-agent'' \<and> ''constructor'' \<noteq> ''campaign-agent''
   \<and> js_get agentToolMappings ''constructor'' \<noteq> Undefined"
  by (simp add: js_get_def agentToolMappings_def objectPrototype_def)

subsection \<open>Validation order of the integration endpoints\<close>

text \<open>
  For \<open>POST\<close> and \<open>DELETE\<close> on \<open>/api/integrations/{name}\<close> the name check comes first:
  a name that fails it gets 404 whether or not a session id was sent, and only a name
  that passes it can get 400 for a missing session id.
\<close>

lemma fetch_name_check_first:
  assumes "req_method r = ''POST'' \<or> req_method r = ''DELETE''"
    and "startsWith (req_pathname r) ''/api/integrations/''"
    and "req_pathname r \<noteq> ''/check-open-ai-key''"
  shows "(lastSegment (req_pathname r) = []
            \<or> js_get integrations (lastSegment (req_pathname r)) = Undefined \<longrightarrow>
          fetch r e now w = (Response (errorResponse 404 ''Integration not found''), w))
       \<and> (lastSegment (req_pathname r) \<noteq> []
            \<and> js_get integrations (lastSegment (req_pathname r)) \<noteq> Undefined
            \<and> \<not> truthy (orElse (req_sessionIdParam r) (req_sessionIdHeader r)) \<longrightarrow>
          fetch r e now w = (Response (errorResponse 400 ''Session ID required''), w))"
proof -
  have p: "startsWith (req_pathname r) ''/api/integrations''"
    using assms(2) by (auto simp add: startsWith_def dest: arg_cong [where f = "take 17"])
  have q: "req_pathname r \<noteq> ''/api/integrations''"
    using assms(2) by (auto simp add: startsWith_def)
  show ?thesis
    using assms p q
    by (auto simp add: fetch_def postIntegration_def deleteIntegration_def Let_def)
qed

text \<open>
  Claim C10. The claim is that an unknown integration name without a session id always
  gets 404. The name check is \<open>!integrations[integrationName]\<close>, and \<open>integrations\<close> is an
  object literal: for a name inherited from \<open>Object.prototype\<close> the lookup is truthy, the
  name passes as if it were an integration, and the request gets 400 for its missing
  session id. \<open>constructor\<close> and \<open>toString\<close> are no integrations, and both requests below
  are answered with 400.
\<close>

theorem fetch_inherited_name:
  "fetch \<lparr>req_method = ''POST'', req_pathname = ''/api/integrations/constructor'',
           req_sessionIdParam = None, req_sessionIdHeader = None\<rparr> e now w
     = (Response (errorResponse 400 ''Session ID required''), w)
   \<and> fetch \<lparr>req_method = ''DELETE'', req_pathname = ''/api/integrations/toString'',
           req_sessionIdParam = None, req_sessionIdHeader = None\<rparr> e now w
     = (Response (errorResponse 400 ''Session ID required''), w)
   \<and> ''constructor'' \<notin> set (map fst integrations)
   \<and> ''toString'' \<notin> set (map fst integrations)"
  by (simp add: fetch_def startsWith_def postIntegration_def deleteIntegration_def
      lastSegment_def js_get_def integrations_def objectPrototype_def orElse_def truthy_def)

subsection \<open>Restoring the transcript\<close>

text \<open>
  Claim C4, as amended. \<open>restoreConversationHistory\<close> of an agent with a storage handle and
  a session id fetches the latest 50 messages of its agent type. When the fetch returns
  at least one message, the transcript becomes exactly the fetched messages, oldest
  first: the previous transcript is dropped. When the fetch returns no message,
  and when it fails, the transcript stays as it was (it is not emptied); a failure is
  logged on \<open>console.error\<close>, and the agent carries on.
\<close>

theorem restoreConversationHistory_replaces_or_keeps:
  assumes "this_dbOps this = Some ops" and "this_sessionId this \<noteq> []"
  shows "(\<forall>rows. fst (getAgentMessages ops (cls_agentType (this_class this)) 50 w) = Inr rows
                \<and> rows \<noteq> [] \<longrightarrow>
            this_messages (fst (restoreConversationHistory this w)) = map toChat (rev rows))
       \<and> (fst (getAgentMessages ops (cls_agentType (this_class this)) 50 w) = Inr [] \<longrightarrow>
            this_messages (fst (restoreConversationHistory this w)) = this_messages this)
       \<and> (\<forall>error. fst (getAgentMessages ops (cls_agentType (this_class this)) 50 w) = Inl error \<longrightarrow>
            this_messages (fst (restoreConversationHistory this w)) = this_messages this
          \<and> (ERROR, ''Failed to restore conversation history:'')
              \<in> set (console (snd (restoreConversationHistory this w))))
       \<and> (ops_db ops \<notin> set (ended w) \<and> faults w = [] \<longrightarrow>
            fst (getAgentMessages ops (cls_agentType (this_class this)) 50 w)
              = Inr (findAgentMessages (cls_agentType (this_class this)) 50 w))"
  using restoreConversationHistory_cases [OF assms, of w] getAgentMessages_runs [of ops w]
  by simp

theorem restoreConversationHistory_replaces_or_keeps_witness:
  "this_messages (fst (restoreConversationHistory (exampleAgent RouterAgent [userMessage]) historyWorld))
     = [\<lparr>cm_role = ''user'', cm_content = Text ''first'', cm_id = RowId 0\<rparr>,
        \<lparr>cm_role = ''assistant'', cm_content = Text ''second'', cm_id = RowId 2\<rparr>]
   \<and> this_messages (fst (restoreConversationHistory (exampleAgent RouterAgent [userMessage]) initialWorld))
     = [userMessage]
   \<and> this_messages (fst (restoreConversationHistory (exampleAgent RouterAgent [userMessage]) failingWorld))
     = [userMessage]
   \<and> (ERROR, ''Failed to restore conversation history:'')
       \<in> set (console (snd (restoreConversationHistory (exampleAgent RouterAgent [userMessage]) failingWorld)))"
proof -
  let ?a = "exampleAgent RouterAgent [userMessage]"
  have ops: "this_dbOps ?a = Some exampleOps" and sid: "this_sessionId ?a \<noteq> []"
    and cls: "cls_agentType (this_class ?a) = ''router-agent''"
    and msgs: "this_messages ?a = [userMessage]"
    by (simp_all add: exampleAgent_def RouterAgent_def)
  have live: "\<And>fs. ops_db exampleOps \<notin> set (ended (initialWorld\<lparr>faults := fs\<rparr>))"
    "ops_db exampleOps \<notin> set (ended historyWorld)" "ops_db exampleOps \<notin> set (ended initialWorld)"
    "ops_db exampleOps \<notin> set (ended failingWorld)"
    by (simp_all add: exampleOps_def initialWorld_def historyWorld_def failingWorld_def)
  have n: "\<not> isConnectionEnded timeout" by (simp add: isConnectionEnded_def timeout_def)
  have script: "faults failingWorld = Some timeout # []"
    by (simp add: failingWorld_def initialWorld_def)
  have fails: "fst (getAgentMessages exampleOps ''router-agent'' 50 failingWorld) = Inl timeout"
    by (simp add: getAgentMessages_fails [OF live(4) script n])
  have found: "findAgentMessages ''router-agent'' 50 historyWorld
      = [storedRow 2 ''router-agent'' ''assistant'' ''second'' 20,
         storedRow 0 ''router-agent'' ''user'' ''first'' 10]"
    by (simp add: findAgentMessages_def orderByDesc_def listsDesc_def historyWorld_def
        initialWorld_def storedRow_def)
  have no_rows: "findAgentMessages ''router-agent'' 50 initialWorld = []"
    by (simp add: findAgentMessages_def initialWorld_def)
  note history = restoreConversationHistory_replaces_or_keeps [OF ops sid, of historyWorld]
  note fresh = restoreConversationHistory_replaces_or_keeps [OF ops sid, of initialWorld]
  note failing = restoreConversationHistory_replaces_or_keeps [OF ops sid, of failingWorld]
  have h: "faults historyWorld = []" "faults initialWorld = []"
    by (simp_all add: historyWorld_def initialWorld_def)
  have "fst (getAgentMessages exampleOps (cls_agentType (this_class ?a)) 50 historyWorld)
      = Inr (findAgentMessages (cls_agentType (this_class ?a)) 50 historyWorld)"
    using history live(2) h(1) by blast
  then have fetched: "fst (getAgentMessages exampleOps ''router-agent'' 50 historyWorld)
      = Inr [storedRow 2 ''router-agent'' ''assistant'' ''second'' 20,
             storedRow 0 ''router-agent'' ''user'' ''first'' 10]"
    unfolding cls found .
  have "this_messages (fst (restoreConversationHistory ?a historyWorld))
      = map toChat (rev [storedRow 2 ''router-agent'' ''assistant'' ''second'' 20,
                         storedRow 0 ''router-agent'' ''user'' ''first'' 10])"
    using history fetched unfolding cls by blast
  then have one: "this_messages (fst (restoreConversationHistory ?a historyWorld))
     = [\<lparr>cm_role = ''user'', cm_content = Text ''first'', cm_id = RowId 0\<rparr>,
        \<lparr>cm_role = ''assistant'', cm_content = Text ''second'', cm_id = RowId 2\<rparr>]"
    by (simp add: toChat_def storedRow_def)
  have "fst (getAgentMessages exampleOps (cls_agentType (this_class ?a)) 50 initialWorld)
      = Inr (findAgentMessages (cls_agentType (this_class ?a)) 50 initialWorld)"
    using fresh live(3) h(2) by blast
  then have "fst (getAgentMessages exampleOps ''router-agent'' 50 initialWorld) = Inr []"
    unfolding cls no_rows .
  then have two: "this_messages (fst (restoreConversationHistory ?a initialWorld)) = [userMessage]"
    using fresh unfolding cls msgs by blast
  have three: "this_messages (fst (restoreConversationHistory ?a failingWorld)) = [userMessage]
     \<and> (ERROR, ''Failed to restore conversation history:'')
       \<in> set (console (snd (restoreConversationHistory ?a failingWorld)))"
    using failing fails unfolding cls msgs by blast
  show ?thesis using one two three by simp
qed

text \<open>The claim as first stated has the agent continue with an empty transcript when the
  fetch fails. Here the fetch fails and the transcript still holds the message it held
  before.\<close>

theorem restore_failure_counterexample:
  "fst (getAgentMessages exampleOps ''router-agent'' 50 failingWorld) = Inl timeout
   \<and> this_messages (fst (restoreConversationHistory (exampleAgent RouterAgent [userMessage]) failingWorld))
       = [userMessage]
   \<and> this_messages (fst (restoreConversationHistory (exampleAgent RouterAgent [userMessage]) failingWorld))
       \<noteq> []"
proof -
  have live: "ops_db exampleOps \<notin> set (ended failingWorld)"
    by (simp add: exampleOps_def failingWorld_def initialWorld_def)
  have f: "faults failingWorld = Some timeout # []" by (simp add: failingWorld_def initialWorld_def)
  have n: "\<not> (Suc 0 < maxRetries \<and> isConnectionEnded timeout)"
    by (simp add: isConnectionEnded_def timeout_def)
  have fails: "getAgentMessages exampleOps ''router-agent'' 50 failingWorld =
      (Inl timeout, console_warn ''Error getting agent messages (attempt):'' (failingWorld\<lparr>faults := []\<rparr>))"
    using getAgentMessages_from_gives_up [OF live f maxRetries_facts(2) n]
    by (simp add: getAgentMessages_def)
  show ?thesis
    by (simp add: restoreConversationHistory_def exampleAgent_def RouterAgent_def fails)
qed

subsection \<open>Round trip of the stored messages\<close>

text \<open>
  Claim C5, as amended. Let \<open>N\<close> messages be stored for one agent type, and let the limit
  be at least \<open>N\<close>. Whatever order the database gives to rows with equal creation times,
  \<open>getAgentMessages\<close> retrieves exactly these \<open>N\<close> rows, and their reversal is in the
  order of the creation times. When the creation times are strictly increasing in the
  order in which the rows were stored (no two of them equal), the reversal is exactly
  the \<open>N\<close> rows in the order of their creation, whatever rows of other agent types lie
  between them; and then, when the fetch goes through, \<open>restoreConversationHistory\<close>
  (whose limit is 50) of an agent of that type with \<open>0 < N \<le> 50\<close> makes the transcript
  these \<open>N\<close> messages in the order of their creation, each with the role and the content
  of its row and the row's id.
\<close>

theorem restore_roundtrip:
  assumes "length (filter (\<lambda>m. msg_agentType m = role) (messagesT w)) \<le> limit"
  shows "mset (findAgentMessages role limit w)
           = mset (filter (\<lambda>m. msg_agentType m = role) (messagesT w))
       \<and> sorted (map msg_createdAt (rev (findAgentMessages role limit w)))
       \<and> (sorted_wrt (<) (map msg_createdAt (filter (\<lambda>m. msg_agentType m = role) (messagesT w))) \<longrightarrow>
            rev (findAgentMessages role limit w)
              = filter (\<lambda>m. msg_agentType m = role) (messagesT w))
       \<and> (sorted_wrt (<) (map msg_createdAt (filter (\<lambda>m. msg_agentType m = role) (messagesT w)))
            \<and> this_dbOps this = Some ops \<and> this_sessionId this \<noteq> []
            \<and> cls_agentType (this_class this) = role
            \<and> ops_db ops \<notin> set (ended w) \<and> faults w = []
            \<and> 0 < length (filter (\<lambda>m. msg_agentType m = role) (messagesT w))
            \<and> length (filter (\<lambda>m. msg_agentType m = role) (messagesT w)) \<le> 50 \<longrightarrow>
            this_messages (fst (restoreConversationHistory this w))
              = map (\<lambda>r. \<lparr>cm_role = msg_role r, cm_content = msg_content r,
                            cm_id = RowId (msg_id r)\<rparr>)
                  (filter (\<lambda>m. msg_agentType m = role) (messagesT w)))"
proof (intro conjI impI)
  show "mset (findAgentMessages role limit w)
           = mset (filter (\<lambda>m. msg_agentType m = role) (messagesT w))"
    using assms by (rule findAgentMessages_all(1))
  show "sorted (map msg_createdAt (rev (findAgentMessages role limit w)))"
    using assms by (rule findAgentMessages_all(2))
next
  assume "sorted_wrt (<) (map msg_createdAt (filter (\<lambda>m. msg_agentType m = role) (messagesT w)))"
  then show "rev (findAgentMessages role limit w)
              = filter (\<lambda>m. msg_agentType m = role) (messagesT w)"
    using assms by (rule findAgentMessages_chronological)
next
  let ?mine = "filter (\<lambda>m. msg_agentType m = role) (messagesT w)"
  assume h: "sorted_wrt (<) (map msg_createdAt ?mine)
            \<and> this_dbOps this = Some ops \<and> this_sessionId this \<noteq> []
            \<and> cls_agentType (this_class this) = role
            \<and> ops_db ops \<notin> set (ended w) \<and> faults w = []
            \<and> 0 < length ?mine \<and> length ?mine \<le> 50"
  then have strict: "sorted_wrt (<) (map msg_createdAt ?mine)"
    and ops: "this_dbOps this = Some ops" and sid: "this_sessionId this \<noteq> []"
    and role: "cls_agentType (this_class this) = role"
    and live: "ops_db ops \<notin> set (ended w)" and ok: "faults w = []"
    and some: "?mine \<noteq> []" and fits: "length ?mine \<le> 50"
    by auto
  have chrono: "rev (findAgentMessages role 50 w) = ?mine"
    using strict fits by (rule findAgentMessages_chronological)
  from chrono have ne: "findAgentMessages role 50 w \<noteq> []" using some by auto
  have fetch: "fst (getAgentMessages ops (cls_agentType (this_class this)) 50 w)
      = Inr (findAgentMessages role 50 w)"
    by (simp add: getAgentMessages_runs [OF live ok] role)
  from restoreConversationHistory_cases [OF ops sid, of w] fetch ne
  have "this_messages (fst (restoreConversationHistory this w))
      = map toChat (rev (findAgentMessages role 50 w))" by blast
  then have "this_messages (fst (restoreConversationHistory this w)) = map toChat ?mine"
    by (simp only: chrono)
  then show "this_messages (fst (restoreConversationHistory this w))
              = map (\<lambda>r. \<lparr>cm_role = msg_role r, cm_content = msg_content r,
                            cm_id = RowId (msg_id r)\<rparr>) ?mine"
    by (simp add: toChat_def)
qed

theorem restore_roundtrip_witness:
  "rev (findAgentMessages ''router-agent'' 2 historyWorld)
     = [\<lparr>msg_id = 0, msg_agentType = ''router-agent'', msg_sessionId = ''router-agent-persistent'',
         msg_role = ''user'', msg_content = Text ''first'', msg_metadata = JNull,
         msg_createdAt = 10\<rparr>,
        \<lparr>msg_id = 2, msg_agentType = ''router-agent'', msg_sessionId = ''router-agent-persistent'',
         msg_role = ''assistant'', msg_content = Text ''second'', msg_metadata = JNull,
         msg_createdAt = 20\<rparr>]
   \<and> this_messages (fst (restoreConversationHistory (exampleAgent RouterAgent []) historyWorld))
     = [\<lparr>cm_role = ''user'', cm_content = Text ''first'', cm_id = RowId 0\<rparr>,
        \<lparr>cm_role = ''assistant'', cm_content = Text ''second'', cm_id = RowId 2\<rparr>]"
proof -
  let ?a = "exampleAgent RouterAgent []"
  have mine: "filter (\<lambda>m. msg_agentType m = ''router-agent'') (messagesT historyWorld)
      = [storedRow 0 ''router-agent'' ''user'' ''first'' 10,
         storedRow 2 ''router-agent'' ''assistant'' ''second'' 20]"
    by (simp add: historyWorld_def initialWorld_def storedRow_def)
  have fits: "length (filter (\<lambda>m. msg_agentType m = ''router-agent'') (messagesT historyWorld)) \<le> 2"
    by (simp add: mine)
  have sorted: "sorted_wrt (<) (map msg_createdAt
      (filter (\<lambda>m. msg_agentType m = ''router-agent'') (messagesT historyWorld)))"
    by (simp add: mine storedRow_def)
  have agent: "this_dbOps ?a = Some exampleOps \<and> this_sessionId ?a \<noteq> []
            \<and> cls_agentType (this_class ?a) = ''router-agent''
            \<and> ops_db exampleOps \<notin> set (ended historyWorld) \<and> faults historyWorld = []"
    by (simp add: exampleAgent_def RouterAgent_def exampleOps_def historyWorld_def initialWorld_def)
  from restore_roundtrip [OF fits, of ?a exampleOps] sorted agent
  show ?thesis by (simp add: mine storedRow_def)
qed

text \<open>The claim as first stated is for every sequence of stored messages. Here two
  messages are saved within the same millisecond, on a database that lists rows with
  equal creation times in the order of their insertion: the restored transcript has
  the second message before the first.\<close>

theorem restore_ties_counterexample:
  "messagesT tiedWorld
     = [\<lparr>msg_id = 0, msg_agentType = ''router-agent'', msg_sessionId = ''router-agent-persistent'',
         msg_role = ''user'', msg_content = Text ''first'', msg_metadata = JNull,
         msg_createdAt = 100\<rparr>,
        \<lparr>msg_id = 1, msg_agentType = ''router-agent'', msg_sessionId = ''router-agent-persistent'',
         msg_role = ''assistant'', msg_content = Text ''second'', msg_metadata = JNull,
         msg_createdAt = 100\<rparr>]
   \<and> this_messages (fst (restoreConversationHistory (exampleAgent RouterAgent []) tiedWorld))
     = [\<lparr>cm_role = ''assistant'', cm_content = Text ''second'', cm_id = RowId 1\<rparr>,
        \<lparr>cm_role = ''user'', cm_content = Text ''first'', cm_id = RowId 0\<rparr>]
   \<and> this_messages (fst (restoreConversationHistory (exampleAgent RouterAgent []) tiedWorld))
     \<noteq> map toChat (messagesT tiedWorld)"
proof -
  let ?w0 = "initialWorld\<lparr>tieOrder := earliestFirst\<rparr>"
  let ?first = "\<lparr>msg_id = 0, msg_agentType = ''router-agent'',
      msg_sessionId = ''router-agent-persistent'',
      msg_role = ''user'', msg_content = Text ''first'', msg_metadata = JNull,
      msg_createdAt = 100\<rparr>"
  let ?second = "\<lparr>msg_id = 1, msg_agentType = ''router-agent'',
      msg_sessionId = ''router-agent-persistent'',
      msg_role = ''assistant'', msg_content = Text ''second'', msg_metadata = JNull,
      msg_createdAt = 100\<rparr>"
  have live0: "ops_db exampleOps \<notin> set (ended ?w0)" and ok0: "faults ?w0 = []"
    by (simp_all add: exampleOps_def initialWorld_def)
  let ?w1 = "snd (insertMessage (newMessage ''user'' ''first'') 100 ?w0)"
  have live1: "ops_db exampleOps \<notin> set (ended ?w1)" and ok1: "faults ?w1 = []"
    using live0 ok0 by simp_all
  have tied: "tiedWorld = snd (insertMessage (newMessage ''assistant'' ''second'') 100 ?w1)"
    by (simp add: tiedWorld_def saveMessage_runs [OF live0 ok0] saveMessage_runs [OF live1 ok1])
  have rows: "messagesT tiedWorld = [?first, ?second]"
    and order: "tieOrder tiedWorld = earliestFirst"
    and live: "ops_db exampleOps \<notin> set (ended tiedWorld)" and ok: "faults tiedWorld = []"
    by (simp_all add: tied insertMessage_def Let_def newMessage_def initialWorld_def exampleOps_def)
  have found: "findAgentMessages ''router-agent'' 50 tiedWorld = [?first, ?second]"
    by (simp add: findAgentMessages_def rows order orderByDesc_def listsDesc_def earliestFirst_def)
  have fetched: "getAgentMessages exampleOps ''router-agent'' 50 tiedWorld
      = (Inr [?first, ?second], tiedWorld)"
    by (simp add: getAgentMessages_runs [OF live ok] found)
  have restored: "this_messages (fst (restoreConversationHistory (exampleAgent RouterAgent []) tiedWorld))
     = [\<lparr>cm_role = ''assistant'', cm_content = Text ''second'', cm_id = RowId 1\<rparr>,
        \<lparr>cm_role = ''user'', cm_content = Text ''first'', cm_id = RowId 0\<rparr>]"
    by (simp add: restoreConversationHistory_def exampleAgent_def RouterAgent_def fetched toChat_def)
  have differs: "this_messages (fst (restoreConversationHistory (exampleAgent RouterAgent []) tiedWorld))
     \<noteq> map toChat (messagesT tiedWorld)"
    unfolding restored rows by (simp add: toChat_def)
  show ?thesis using rows restored differs by simp
qed

subsection \<open>Closing\<close>

text \<open>
  Claim C8, as amended. \<open>onClose\<close> of an agent with a storage handle, a session id and a
  manager that holds the handle's connection, on a live connection and in an environment
  that fails no call (as at the first close of an instance), appends one row per message
  of the transcript, in order, whatever the length of the transcript (the threshold of
  ten plays no part): the row has the role of the message, its content when that is a
  string and the \<open>JSON.stringify\<close> of its content otherwise, the agent's type and session
  id, and the metadata of a save on close. It then ends the connection: \<open>end()\<close> is called
  once and the manager's handle is cleared. A second \<open>onClose\<close>, whatever the transcript
  has become, calls \<open>end()\<close> no more and changes neither the agent nor any table; a
  second \<open>DatabaseManager.close\<close> returns the same manager and world.
\<close>

theorem onClose_flushes_and_releases_once:
  assumes ops: "this_dbOps this = Some ops" and sid: "this_sessionId this \<noteq> []"
    and man: "this_dbManager this = Some m" and conn: "dm_conn m = Some (ops_db ops)"
    and live: "ops_db ops \<notin> set (ended w)" and ok: "faults w = []"
  shows
    "let this1 = fst (onClose this clock w); w1 = snd (onClose this clock w);
         this2 = fst (onClose (this1\<lparr>this_messages := later\<rparr>) clock2 w1);
         w2 = snd (onClose (this1\<lparr>this_messages := later\<rparr>) clock2 w1)
     in messagesT w1
          = messagesT w @
             map (\<lambda>k. \<lparr>msg_id = nextId w + k,
                        msg_agentType = cls_agentType (this_class this),
                        msg_sessionId = this_sessionId this,
                        msg_role = cm_role (this_messages this ! k),
                        msg_content =
                          Text (case cm_content (this_messages this ! k) of
                                  Text s \<Rightarrow> s | Structured s \<Rightarrow> s),
                        msg_metadata =
                          JObj [(''timestamp'', JDate (clock k)),
                                (''agentName'', JStr (cls_agentName (this_class this))),
                                (''savedOnClose'', JBool True)],
                        msg_createdAt = clock k\<rparr>) [0..<length (this_messages this)]
      \<and> ended w1 = ended w @ [ops_db ops]
      \<and> this1 = this\<lparr>this_dbManager := Some (m\<lparr>dm_db := None, dm_conn := None\<rparr>)\<rparr>
      \<and> this2 = this1\<lparr>this_messages := later\<rparr>
      \<and> ended w2 = ended w1
      \<and> messagesT w2 = messagesT w1
      \<and> sessionsT w2 = sessionsT w1
      \<and> integrationConnectionsT w2 = integrationConnectionsT w1
      \<and> DatabaseManager_close (fst (DatabaseManager_close m w)) w1
          = (fst (DatabaseManager_close m w), w1)"
proof -
  define this1 where "this1 = fst (onClose this clock w)"
  define w1 where "w1 = snd (onClose this clock w)"
  define again where "again = this1\<lparr>this_messages := later\<rparr>"
  note first = onClose_live [OF ops sid man conn live ok, of clock, folded this1_def w1_def]
  have a_ops: "this_dbOps again = Some ops"
    and a_man: "this_dbManager again = Some (m\<lparr>dm_db := None, dm_conn := None\<rparr>)"
    by (simp_all add: again_def first(1) ops)
  have cleared: "dm_conn (m\<lparr>dm_db := None, dm_conn := None\<rparr>) = None" by simp
  have dead: "ops_db ops \<in> set (ended w1)" by (simp add: first(3))
  note second = onClose_released [OF a_ops dead a_man cleared, of clock2]
  have idem: "DatabaseManager_close (fst (DatabaseManager_close m w)) w1
          = (fst (DatabaseManager_close m w), w1)"
    by (rule DatabaseManager_close_again)
      (simp add: DatabaseManager_close_releases(1) [OF conn])
  show ?thesis
    unfolding Let_def this1_def [symmetric] w1_def [symmetric] again_def [symmetric]
    using first second idem by (simp add: again_def)
qed

theorem onClose_flushes_and_releases_once_witness:
  "messagesT (snd (onClose (exampleAgent CampaignAgent [userMessage, assistantMessage])
                     (clockFrom 100) initialWorld))
     = [\<lparr>msg_id = 0, msg_agentType = ''campaign-agent'',
         msg_sessionId = ''campaign-agent-persistent'', msg_role = ''user'',
         msg_content = Text ''hello'',
         msg_metadata = JObj [(''timestamp'', JDate 100), (''agentName'', JStr ''CampaignAgent''),
                              (''savedOnClose'', JBool True)],
         msg_createdAt = 100\<rparr>,
        \<lparr>msg_id = 1, msg_agentType = ''campaign-agent'',
         msg_sessionId = ''campaign-agent-persistent'', msg_role = ''assistant'',
         msg_content = Text ''[]'',
         msg_metadata = JObj [(''timestamp'', JDate 101), (''agentName'', JStr ''CampaignAgent''),
                              (''savedOnClose'', JBool True)],
         msg_createdAt = 101\<rparr>]
   \<and> ended (snd (onClose (exampleAgent CampaignAgent [userMessage, assistantMessage])
                    (clockFrom 100) initialWorld)) = [0]
   \<and> ended (snd (onClose (fst (onClose (exampleAgent CampaignAgent [userMessage, assistantMessage])
                                     (clockFrom 100) initialWorld)) (clockFrom 200)
                     (snd (onClose (exampleAgent CampaignAgent [userMessage, assistantMessage])
                             (clockFrom 100) initialWorld)))) = [0]
   \<and> length (messagesT (snd (onClose (fst (onClose (exampleAgent CampaignAgent [userMessage, assistantMessage])
                                     (clockFrom 100) initialWorld)) (clockFrom 200)
                     (snd (onClose (exampleAgent CampaignAgent [userMessage, assistantMessage])
                             (clockFrom 100) initialWorld))))) = 2"
proof -
  let ?a = "exampleAgent CampaignAgent [userMessage, assistantMessage]"
  let ?a1 = "fst (onClose ?a (clockFrom 100) initialWorld)"
  let ?w1 = "snd (onClose ?a (clockFrom 100) initialWorld)"
  have ops: "this_dbOps ?a = Some exampleOps" and sid: "this_sessionId ?a \<noteq> []"
    and man: "this_dbManager ?a = Some exampleManager"
    and msgs: "this_messages ?a = [userMessage, assistantMessage]"
    and cls: "this_class ?a = CampaignAgent"
    and session: "this_sessionId ?a = ''campaign-agent-persistent''"
    by (simp_all add: exampleAgent_def CampaignAgent_def)
  have conn: "dm_conn exampleManager = Some (ops_db exampleOps)"
    by (simp add: exampleManager_def exampleOps_def)
  have live: "ops_db exampleOps \<notin> set (ended initialWorld)" and ok: "faults initialWorld = []"
    by (simp_all add: initialWorld_def)
  note close = onClose_flushes_and_releases_once [OF ops sid man conn live ok,
      of "clockFrom 100" "[userMessage, assistantMessage]" "clockFrom 200", unfolded Let_def]
  have same: "?a1\<lparr>this_messages := [userMessage, assistantMessage]\<rparr> = ?a1"
    using close msgs by simp
  have upt: "[0..<length (this_messages ?a)] = [0, 1]"
    by (simp add: msgs upt_rec)
  have m0: "messagesT initialWorld = []" and e0: "ended initialWorld = []"
    and n0: "nextId initialWorld = 0"
    by (simp_all add: initialWorld_def)
  from close have "messagesT ?w1 = messagesT initialWorld @
      map (\<lambda>k. \<lparr>msg_id = nextId initialWorld + k,
                 msg_agentType = cls_agentType (this_class ?a),
                 msg_sessionId = this_sessionId ?a,
                 msg_role = cm_role (this_messages ?a ! k),
                 msg_content =
                   Text (case cm_content (this_messages ?a ! k) of
                           Text s \<Rightarrow> s | Structured s \<Rightarrow> s),
                 msg_metadata =
                   JObj [(''timestamp'', JDate (clockFrom 100 k)),
                         (''agentName'', JStr (cls_agentName (this_class ?a))),
                         (''savedOnClose'', JBool True)],
                 msg_createdAt = clockFrom 100 k\<rparr>) [0..<length (this_messages ?a)]"
    by blast
  then have one: "messagesT ?w1
     = [\<lparr>msg_id = 0, msg_agentType = ''campaign-agent'',
         msg_sessionId = ''campaign-agent-persistent'', msg_role = ''user'',
         msg_content = Text ''hello'',
         msg_metadata = JObj [(''timestamp'', JDate 100), (''agentName'', JStr ''CampaignAgent''),
                              (''savedOnClose'', JBool True)],
         msg_createdAt = 100\<rparr>,
        \<lparr>msg_id = 1, msg_agentType = ''campaign-agent'',
         msg_sessionId = ''campaign-agent-persistent'', msg_role = ''assistant'',
         msg_content = Text ''[]'',
         msg_metadata = JObj [(''timestamp'', JDate 101), (''agentName'', JStr ''CampaignAgent''),
                              (''savedOnClose'', JBool True)],
         msg_createdAt = 101\<rparr>]"
    unfolding upt m0 n0 cls session msgs
    by (simp add: CampaignAgent_def userMessage_def assistantMessage_def clockFrom_def)
  have two: "ended ?w1 = [0]"
    using close unfolding e0 by (simp add: exampleOps_def)
  let ?w2 = "snd (onClose ?a1 (clockFrom 200) ?w1)"
  from close have "ended (snd (onClose (?a1\<lparr>this_messages := [userMessage, assistantMessage]\<rparr>)
                                 (clockFrom 200) ?w1)) = ended ?w1"
    and "messagesT (snd (onClose (?a1\<lparr>this_messages := [userMessage, assistantMessage]\<rparr>)
                                 (clockFrom 200) ?w1)) = messagesT ?w1"
    by blast+
  then have three: "ended ?w2 = ended ?w1" and four: "messagesT ?w2 = messagesT ?w1"
    unfolding same .
  show ?thesis
    unfolding three four two one by simp
qed

text \<open>The claim as first stated has every message of the transcript written on close.
  Here the insert of the one message of the transcript is rejected on a first close,
  and nothing is stored; and an agent that was closed once is closed again after its
  transcript has grown by a message, and the table still holds the one row of the first
  close.\<close>

theorem close_unwritten_counterexample:
  "this_messages (exampleAgent CampaignAgent [userMessage]) = [userMessage]
   \<and> messagesT (snd (onClose (exampleAgent CampaignAgent [userMessage]) (clockFrom 100)
                       failingWorld)) = []
   \<and> this_messages (fst closedAgain) = [userMessage, assistantMessage]
   \<and> map msg_content (messagesT (snd closedAgain)) = [Text ''hello'']"
proof -
  let ?a = "exampleAgent CampaignAgent [userMessage]"
  have ops: "this_dbOps ?a = Some exampleOps" and sid: "this_sessionId ?a \<noteq> []"
    and man: "this_dbManager ?a = Some exampleManager"
    and msgs: "this_messages ?a = [userMessage]"
    by (simp_all add: exampleAgent_def)
  have conn: "dm_conn exampleManager = Some (ops_db exampleOps)"
    by (simp add: exampleManager_def exampleOps_def)
  have live: "ops_db exampleOps \<notin> set (ended initialWorld)" and ok: "faults initialWorld = []"
    by (simp_all add: initialWorld_def)
  have rejected: "messagesT (snd (onClose ?a (clockFrom 100) failingWorld)) = []"
    by (simp add: onClose_def exampleAgent_def exampleOps_def exampleManager_def Let_def
        saveMessage_def query_def failingWorld_def initialWorld_def console_log_def
        console_error_def DatabaseManager_close_def conn_end_def clockFrom_def)
  note first = onClose_live [OF ops sid man conn live ok, of "clockFrom 100",
      folded closedOnce_def]
  let ?again = "(fst closedOnce)\<lparr>this_messages := [userMessage, assistantMessage]\<rparr>"
  have a_ops: "this_dbOps ?again = Some exampleOps"
    and a_man: "this_dbManager ?again = Some (exampleManager\<lparr>dm_db := None, dm_conn := None\<rparr>)"
    by (simp_all add: first(1) ops)
  have cleared: "dm_conn (exampleManager\<lparr>dm_db := None, dm_conn := None\<rparr>) = None" by simp
  have dead: "ops_db exampleOps \<in> set (ended (snd closedOnce))" by (simp add: first(3))
  note second = onClose_released [OF a_ops dead a_man cleared, of "clockFrom 200",
      folded closedAgain_def]
  have stored: "map msg_content (messagesT (snd closedOnce)) = [Text ''hello'']"
    unfolding first(2) msgs by (simp add: initialWorld_def userMessage_def)
  show ?thesis
    using msgs rejected second(1,2) stored by simp
qed

subsection \<open>Tool resolution\<close>

text \<open>
  Claim C1. Let the agent type have a candidate list in \<open>agentToolMappings\<close>. For every
  candidate integration the resolver puts the tools of the integration (what
  \<open>getToolsByIntegration\<close> returns for it, under their tool names) into its result if and
  only if the registry holds a row of the session for that integration with status
  \<open>connected\<close>: with a session id, a storage handle on a live connection and an
  environment that fails no call, every tool of a connected candidate is in the result
  under its name, no tool of a candidate that is not connected is, and the result holds
  nothing else. The resolver defaults to connected when it cannot ask: when the query of
  a candidate throws (one failing call, or an ended connection, for which every query
  throws), and when no session id (none, or the empty string) or no storage handle is
  given; then every candidate's tools are in the result.
\<close>

theorem getToolsForAgent_connected_iff:
  assumes "js_get agentToolMappings agentType = Own names"
  shows
    "(\<forall>X\<in>set names. toolBundle X \<noteq> [])
   \<and> (sid \<noteq> [] \<and> ops_db ops \<notin> set (ended w) \<and> faults w = [] \<longrightarrow>
        (\<exists>ts. fst (getToolsForAgent agentType (Some sid) (Some ops) w) = Inr ts
           \<and> (\<forall>X\<in>set names. \<forall>k v. map_of (toolBundle X) k = Some v \<longrightarrow>
                 map_of ts k = (if reportsConnected w sid X then Some v else None))
           \<and> (\<forall>k. map_of ts k \<noteq> None \<longrightarrow>
                 (\<exists>X\<in>set names. reportsConnected w sid X \<and> map_of (toolBundle X) k \<noteq> None))))
   \<and> (sid \<noteq> [] \<and> ops_db ops \<in> set (ended w) \<longrightarrow>
        (\<exists>ts. fst (getToolsForAgent agentType (Some sid) (Some ops) w) = Inr ts
           \<and> (\<forall>X\<in>set names. \<forall>k v. map_of (toolBundle X) k = Some v \<longrightarrow> map_of ts k = Some v)))
   \<and> (sessionId = None \<or> sessionId = Some [] \<or> dbOps = None \<longrightarrow>
        (\<exists>ts. fst (getToolsForAgent agentType sessionId dbOps w) = Inr ts
           \<and> (\<forall>X\<in>set names. \<forall>k v. map_of (toolBundle X) k = Some v \<longrightarrow> map_of ts k = Some v)))
   \<and> (sid \<noteq> [] \<and> ops_db ops \<notin> set (ended w) \<and> (faults w = [] \<or> (\<exists>fs. faults w = None # fs)) \<longrightarrow>
        fst (checkConnected (Some sid) (Some ops) X w) = reportsConnected w sid X)
   \<and> (sid \<noteq> [] \<and> (ops_db ops \<in> set (ended w) \<or> (\<exists>e fs. faults w = Some e # fs)) \<longrightarrow>
        fst (checkConnected (Some sid) (Some ops) X w))
   \<and> (sessionId = None \<or> sessionId = Some [] \<or> dbOps = None \<longrightarrow>
        fst (checkConnected sessionId dbOps X w))"
proof (intro conjI impI)
  have kn: "set names \<subseteq> known" by (rule agentToolMappings_own [OF assms])
  show "\<forall>X\<in>set names. toolBundle X \<noteq> []"
    using kn by (auto simp add: known_def toolBundles)
  {
    assume h: "sid \<noteq> [] \<and> ops_db ops \<notin> set (ended w) \<and> faults w = []"
    then have st: "stable (Some sid) (Some ops) w" by (simp add: stable_def)
    have dec: "\<And>X. fst (checkConnected (Some sid) (Some ops) X w) = reportsConnected w sid X"
      using h by (simp add: checkConnected_answered)
    from getToolsForAgent_stable [OF assms st] obtain ts where
      ts: "fst (getToolsForAgent agentType (Some sid) (Some ops) w) = Inr ts"
      and incl: "\<forall>X\<in>set names. \<forall>k v. map_of (toolBundle X) k = Some v \<longrightarrow>
             map_of ts k = (if fst (checkConnected (Some sid) (Some ops) X w) then Some v else None)"
      and only: "\<forall>k. map_of ts k \<noteq> None \<longrightarrow> (\<exists>X\<in>set names. map_of (toolBundle X) k \<noteq> None)"
      by blast
    have only': "\<forall>k. map_of ts k \<noteq> None \<longrightarrow>
                 (\<exists>X\<in>set names. reportsConnected w sid X \<and> map_of (toolBundle X) k \<noteq> None)"
    proof (intro allI impI)
      fix k assume k: "map_of ts k \<noteq> None"
      with only obtain X v where X: "X \<in> set names" "map_of (toolBundle X) k = Some v" by auto
      with incl have "map_of ts k = (if reportsConnected w sid X then Some v else None)"
        by (simp add: dec)
      with k have "reportsConnected w sid X" by (auto split: if_splits)
      with X show "\<exists>X\<in>set names. reportsConnected w sid X \<and> map_of (toolBundle X) k \<noteq> None"
        by auto
    qed
    show "\<exists>ts. fst (getToolsForAgent agentType (Some sid) (Some ops) w) = Inr ts
           \<and> (\<forall>X\<in>set names. \<forall>k v. map_of (toolBundle X) k = Some v \<longrightarrow>
                 map_of ts k = (if reportsConnected w sid X then Some v else None))
           \<and> (\<forall>k. map_of ts k \<noteq> None \<longrightarrow>
                 (\<exists>X\<in>set names. reportsConnected w sid X \<and> map_of (toolBundle X) k \<noteq> None))"
      using ts incl only' by (auto simp add: dec)
  }
  {
    assume h: "sid \<noteq> [] \<and> ops_db ops \<in> set (ended w)"
    then have st: "stable (Some sid) (Some ops) w" by (simp add: stable_def)
    have dec: "\<And>X. fst (checkConnected (Some sid) (Some ops) X w)"
      using h by (simp add: checkConnected_thrown)
    from getToolsForAgent_stable [OF assms st]
    show "\<exists>ts. fst (getToolsForAgent agentType (Some sid) (Some ops) w) = Inr ts
           \<and> (\<forall>X\<in>set names. \<forall>k v. map_of (toolBundle X) k = Some v \<longrightarrow> map_of ts k = Some v)"
      by (auto simp add: dec)
  }
  {
    assume h: "sessionId = None \<or> sessionId = Some [] \<or> dbOps = None"
    then have st: "stable sessionId dbOps w" by (auto simp add: stable_def)
    have dec: "\<And>X. fst (checkConnected sessionId dbOps X w)"
      using h by (rule checkConnected_no_context)
    from getToolsForAgent_stable [OF assms st]
    show "\<exists>ts. fst (getToolsForAgent agentType sessionId dbOps w) = Inr ts
           \<and> (\<forall>X\<in>set names. \<forall>k v. map_of (toolBundle X) k = Some v \<longrightarrow> map_of ts k = Some v)"
      by (auto simp add: dec)
    show "fst (checkConnected sessionId dbOps X w)" by (rule dec)
  }
  {
    assume "sid \<noteq> [] \<and> ops_db ops \<notin> set (ended w) \<and> (faults w = [] \<or> (\<exists>fs. faults w = None # fs))"
    then show "fst (checkConnected (Some sid) (Some ops) X w) = reportsConnected w sid X"
      by (simp add: checkConnected_answered)
  }
  {
    assume "sid \<noteq> [] \<and> (ops_db ops \<in> set (ended w) \<or> (\<exists>e fs. faults w = Some e # fs))"
    then show "fst (checkConnected (Some sid) (Some ops) X w)"
      by (simp add: checkConnected_thrown)
  }
qed

theorem getToolsForAgent_connected_iff_witness:
  "(\<exists>ts. fst (getToolsForAgent ''campaign-agent'' (Some ''s1'') (Some exampleOps) registryWorld) = Inr ts
       \<and> map_of ts ''getShopifyOrders''
           = Some \<lparr>tool_key = ''getOrders'', tool_name = Some ''getShopifyOrders''\<rparr>
       \<and> map_of ts ''getPostHogEvents'' = None
       \<and> map_of ts ''getGoogleAdsCampaigns'' = None)
   \<and> (\<exists>ts. fst (getToolsForAgent ''campaign-agent'' None None registryWorld) = Inr ts
       \<and> map_of ts ''getPostHogEvents''
           = Some \<lparr>tool_key = ''getEvents'', tool_name = Some ''getPostHogEvents''\<rparr>)"
proof -
  let ?names = "[''google-ads'', ''shopify'', ''posthog'']"
  have own: "js_get agentToolMappings ''campaign-agent'' = Own ?names"
    by (simp add: js_get_def agentToolMappings_def)
  have healthy: "''s1'' \<noteq> [] \<and> ops_db exampleOps \<notin> set (ended registryWorld)
                 \<and> faults registryWorld = []"
    by (simp add: exampleOps_def registryWorld_def initialWorld_def)
  have rows: "integrationConnectionsT registryWorld = [shopifyRow, posthogRow]"
    by (simp add: registryWorld_def initialWorld_def)
  have s: "reportsConnected registryWorld ''s1'' ''shopify''"
    and p: "\<not> reportsConnected registryWorld ''s1'' ''posthog''"
    and g: "\<not> reportsConnected registryWorld ''s1'' ''google-ads''"
    by (simp_all add: reportsConnected_def rows shopifyRow_def posthogRow_def)
  have so: "map_of (toolBundle ''shopify'') ''getShopifyOrders''
      = Some \<lparr>tool_key = ''getOrders'', tool_name = Some ''getShopifyOrders''\<rparr>"
    by (simp add: toolBundle_shopify)
  have pe: "map_of (toolBundle ''posthog'') ''getPostHogEvents''
      = Some \<lparr>tool_key = ''getEvents'', tool_name = Some ''getPostHogEvents''\<rparr>"
    by (simp add: toolBundle_posthog)
  have gc: "map_of (toolBundle ''google-ads'') ''getGoogleAdsCampaigns''
      = Some \<lparr>tool_key = ''getCampaigns'', tool_name = Some ''getGoogleAdsCampaigns''\<rparr>"
    by (simp add: toolBundle_google_ads)
  note resolved = getToolsForAgent_connected_iff [OF own, of "''s1''" exampleOps registryWorld
      None None]
  from resolved healthy obtain ts where
    ts: "fst (getToolsForAgent ''campaign-agent'' (Some ''s1'') (Some exampleOps) registryWorld) = Inr ts"
    and incl: "\<forall>X\<in>set ?names. \<forall>k v. map_of (toolBundle X) k = Some v \<longrightarrow>
                 map_of ts k = (if reportsConnected registryWorld ''s1'' X then Some v else None)"
    by blast
  have a: "map_of ts ''getShopifyOrders''
      = Some \<lparr>tool_key = ''getOrders'', tool_name = Some ''getShopifyOrders''\<rparr>"
    using incl so s by (simp del: map_of.simps)
  have b: "map_of ts ''getPostHogEvents'' = None"
    using incl pe p by (simp del: map_of.simps)
  have c: "map_of ts ''getGoogleAdsCampaigns'' = None"
    using incl gc g by (simp del: map_of.simps)
  from resolved obtain us where
    us: "fst (getToolsForAgent ''campaign-agent'' None None registryWorld) = Inr us"
    and all: "\<forall>X\<in>set ?names. \<forall>k v. map_of (toolBundle X) k = Some v \<longrightarrow> map_of us k = Some v"
    by blast
  have d: "map_of us ''getPostHogEvents''
      = Some \<lparr>tool_key = ''getEvents'', tool_name = Some ''getPostHogEvents''\<rparr>"
    using all pe by (simp del: map_of.simps)
  show ?thesis using ts a b c us d by blast
qed

end
